theory Spec2Isabelle
  imports Complex_Main
begin

section \<open>Python values used by \<open>conversions.py\<close>\<close>

text \<open>
  The module \<open>conversions.py\<close> works on Python \<open>str\<close>, \<open>int\<close>, \<open>float\<close> and \<open>None\<close>.
  \<^item> A \<open>str\<close> is a sequence of Unicode code points, modelled as a list of naturals.
  \<^item> An \<open>int\<close> is unbounded, modelled as \<open>int\<close>.
  \<^item> A \<open>float\<close> is an IEEE-754 binary64 number: a rational, or one of the two infinities,
    or NaN. Every operation rounds its exact result to the nearest binary64 value, ties
    to even (\<open>rnd\<close> below). The two zeros compare equal in Python and no function of the
    module tells them apart, so both are \<open>Fin 0\<close>.
  \<^item> \<open>None\<close> is \<open>None\<close> of an option type, and a raised exception is the left injection of
    a sum type.
\<close>

datatype error = ValueError | ZeroDivisionError | OverflowError

type_synonym ustr = "nat list"

datatype pyfloat = Fin rat | PInf | NInf | NaN

definition bind_err :: "error + 'a \<Rightarrow> ('a \<Rightarrow> error + 'b) \<Rightarrow> error + 'b" where
  "bind_err m f = (case m of Inl e \<Rightarrow> Inl e | Inr x \<Rightarrow> f x)"

definition ascii :: "string \<Rightarrow> ustr" where
  "ascii s = map of_char s"

subsection \<open>Rounding to binary64\<close>

text \<open>\<open>ilog2 n\<close> is the position of the highest set bit of \<open>n\<close> (0 for \<open>n \<le> 1\<close>).\<close>

fun ilog2 :: "nat \<Rightarrow> int" where
  "ilog2 n = (if n \<le> 1 then 0 else 1 + ilog2 (n div 2))"

declare ilog2.simps [simp del]

definition pow2 :: "int \<Rightarrow> rat" where
  "pow2 e = (if 0 \<le> e then 2 ^ nat e else 1 / 2 ^ nat (- e))"

text \<open>The binary exponent of a positive rational: \<open>2 ^ flog2 q \<le> q < 2 ^ (flog2 q + 1)\<close>.\<close>

definition flog2 :: "rat \<Rightarrow> int" where
  "flog2 q = (if 1 \<le> q then ilog2 (nat \<lfloor>q\<rfloor>)
              else - (1 + ilog2 (nat (\<lceil>1 / q\<rceil> - 1))))"

text \<open>
  The spacing of binary64 numbers around \<open>q\<close>: 52 fraction bits below the leading bit,
  and never finer than \<open>2 ^ - 1074\<close> (the subnormal range).
\<close>

definition quantum :: "rat \<Rightarrow> rat" where
  "quantum q = pow2 (max (flog2 \<bar>q\<bar>) (- 1022) - 52)"

text \<open>Round half to even, to an integer.\<close>

definition rhe :: "rat \<Rightarrow> int" where
  "rhe x = (let f = \<lfloor>x\<rfloor>; d = x - of_int f in
     if d < 1 / 2 then f else if 1 / 2 < d then f + 1 else if even f then f else f + 1)"

text \<open>Round to nearest binary64, ties to even; a result of magnitude \<open>2 ^ 1024\<close> overflows.\<close>

definition rnd :: "rat \<Rightarrow> pyfloat" where
  "rnd q = (let u = quantum q; v = of_int (rhe (q / u)) * u in
     if 2 ^ 1024 \<le> v then PInf else if v \<le> - (2 ^ 1024) then NInf else Fin v)"

subsection \<open>Float arithmetic\<close>

fun fneg :: "pyfloat \<Rightarrow> pyfloat" where
  "fneg (Fin q) = Fin (- q)"
| "fneg PInf = NInf"
| "fneg NInf = PInf"
| "fneg NaN = NaN"

fun fabs :: "pyfloat \<Rightarrow> pyfloat" where
  "fabs (Fin q) = Fin \<bar>q\<bar>"
| "fabs PInf = PInf"
| "fabs NInf = PInf"
| "fabs NaN = NaN"

text \<open>The sign of a float that is not NaN.\<close>

fun fsgn :: "pyfloat \<Rightarrow> int" where
  "fsgn (Fin q) = (if q < 0 then - 1 else if q = 0 then 0 else 1)"
| "fsgn PInf = 1"
| "fsgn NInf = - 1"
| "fsgn NaN = 0"

fun fadd :: "pyfloat \<Rightarrow> pyfloat \<Rightarrow> pyfloat" where
  "fadd (Fin a) (Fin b) = rnd (a + b)"
| "fadd NaN y = NaN"
| "fadd x NaN = NaN"
| "fadd PInf NInf = NaN"
| "fadd NInf PInf = NaN"
| "fadd PInf y = PInf"
| "fadd NInf y = NInf"
| "fadd (Fin a) y = y"

definition fsub :: "pyfloat \<Rightarrow> pyfloat \<Rightarrow> pyfloat" where
  "fsub x y = fadd x (fneg y)"

text \<open>An infinity times zero is NaN; otherwise the signs multiply.\<close>

definition fmul :: "pyfloat \<Rightarrow> pyfloat \<Rightarrow> pyfloat" where
  "fmul x y =
     (case (x, y) of
        (Fin a, Fin b) \<Rightarrow> rnd (a * b)
      | (NaN, _) \<Rightarrow> NaN
      | (_, NaN) \<Rightarrow> NaN
      | _ \<Rightarrow> (let s = fsgn x * fsgn y in
                if s = 0 then NaN else if 0 < s then PInf else NInf))"

text \<open>
  Python's \<open>/\<close> on floats raises \<open>ZeroDivisionError\<close> for a zero divisor (whatever the
  dividend) and follows IEEE-754 otherwise; an overflowing quotient is an infinity.
\<close>

fun fdiv :: "pyfloat \<Rightarrow> pyfloat \<Rightarrow> error + pyfloat" where
  "fdiv x (Fin b) =
     (if b = 0 then Inl ZeroDivisionError
      else case x of Fin a \<Rightarrow> Inr (rnd (a / b))
         | NaN \<Rightarrow> Inr NaN
         | PInf \<Rightarrow> Inr (if 0 < b then PInf else NInf)
         | NInf \<Rightarrow> Inr (if 0 < b then NInf else PInf))"
| "fdiv x NaN = Inr NaN"
| "fdiv (Fin a) y = Inr (Fin 0)"
| "fdiv x y = Inr NaN"

text \<open>\<open>x < y\<close>: false when either side is NaN.\<close>

definition flt :: "pyfloat \<Rightarrow> pyfloat \<Rightarrow> bool" where
  "flt x y =
     (case (x, y) of
        (Fin a, Fin b) \<Rightarrow> a < b
      | (NaN, _) \<Rightarrow> False
      | (_, NaN) \<Rightarrow> False
      | (_, NInf) \<Rightarrow> False
      | (PInf, _) \<Rightarrow> False
      | _ \<Rightarrow> True)"

text \<open>\<open>not (x < 0)\<close>: zero, a positive number, plus infinity or NaN.\<close>

definition not_negative :: "pyfloat \<Rightarrow> bool" where
  "not_negative x = (\<not> flt x (Fin 0))"

text \<open>\<open>x == 0\<close> and \<open>x != 0\<close> on a float.\<close>

definition fzero :: "pyfloat \<Rightarrow> bool" where
  "fzero x = (x = Fin 0)"

text \<open>\<open>int(x)\<close>: truncation towards zero; infinities and NaN raise.\<close>

definition trunc :: "rat \<Rightarrow> int" where
  "trunc q = (if 0 \<le> q then \<lfloor>q\<rfloor> else \<lceil>q\<rceil>)"

fun py_int :: "pyfloat \<Rightarrow> error + int" where
  "py_int (Fin q) = Inr (trunc q)"
| "py_int NaN = Inl ValueError"
| "py_int x = Inl OverflowError"

text \<open>The conversion of an \<open>int\<close> operand of a mixed \<open>int\<close>/\<open>float\<close> operation.\<close>

definition float_of_int :: "int \<Rightarrow> error + pyfloat" where
  "float_of_int i = (case rnd (of_int i) of Fin q \<Rightarrow> Inr (Fin q) | _ \<Rightarrow> Inl OverflowError)"

text \<open>\<open>a / b\<close> on two \<open>int\<close>s: the correctly rounded quotient.\<close>

definition int_truediv :: "int \<Rightarrow> int \<Rightarrow> error + pyfloat" where
  "int_truediv a b =
     (if b = 0 then Inl ZeroDivisionError
      else case rnd (of_int a / of_int b) of Fin q \<Rightarrow> Inr (Fin q) | _ \<Rightarrow> Inl OverflowError)"

text \<open>\<open>x == i\<close> for a float \<open>x\<close> and an \<open>int\<close> \<open>i\<close> compares the exact values.\<close>

fun feq_int :: "pyfloat \<Rightarrow> int \<Rightarrow> bool" where
  "feq_int (Fin q) i = (q = of_int i)"
| "feq_int x i = False"

text \<open>\<open>round(x)\<close>: the nearest \<open>int\<close>, ties to even.\<close>

fun py_round :: "pyfloat \<Rightarrow> error + int" where
  "py_round (Fin q) = Inr (rhe q)"
| "py_round NaN = Inl ValueError"
| "py_round x = Inl OverflowError"

text \<open>
  \<open>round(x, 1)\<close>: the exact value of \<open>x\<close> is rounded half-even to one decimal, and that
  decimal is converted back to the nearest float; infinities and NaN are returned as
  they are.
\<close>

fun py_round1 :: "pyfloat \<Rightarrow> error + pyfloat" where
  "py_round1 (Fin q) =
     (case rnd (of_int (rhe (q * 10)) / 10) of Fin r \<Rightarrow> Inr (Fin r) | _ \<Rightarrow> Inl OverflowError)"
| "py_round1 x = Inr x"

text \<open>\<open>x % 1\<close> on a finite float: the fractional part above the floor, rounded.\<close>

fun fmod1 :: "pyfloat \<Rightarrow> pyfloat" where
  "fmod1 (Fin q) = rnd (q - of_int \<lfloor>q\<rfloor>)"
| "fmod1 x = NaN"

subsection \<open>Strings\<close>

text \<open>
  \<open>str.strip\<close> and \<open>\s\<close> use Unicode's white space. \<open>\d\<close>, \<open>int\<close> and \<open>float\<close> accept
  every character that has a decimal value (the general category Nd), \<open>\w\<close> is every
  alphanumeric character and the underscore, and \<open>str.lower\<close> maps every character to
  its lower case. These are tables of the Unicode Character Database, here those of
  version 14.0.0, which CPython 3.11 is built with. Each table is sorted and cut into
  blocks by code point, so that a lookup reads one block.
\<close>

definition is_space :: "nat \<Rightarrow> bool" where
  "is_space c = ((9 \<le> c \<and> c \<le> 13) \<or> (28 \<le> c \<and> c \<le> 32) \<or> c = 133 \<or> c = 160
     \<or> c = 5760 \<or> (8192 \<le> c \<and> c \<le> 8202) \<or> c = 8232 \<or> c = 8233 \<or> c = 8239
     \<or> c = 8287 \<or> c = 12288)"

text \<open>Membership in a list of ranges \<open>(first, last)\<close>.\<close>

fun in_ranges :: "(nat \<times> nat) list \<Rightarrow> nat \<Rightarrow> bool" where
  "in_ranges [] c = False"
| "in_ranges ((lo, hi) # r) c = (if lo \<le> c \<and> c \<le> hi then True else in_ranges r c)"

text \<open>
  The decimal digits come in runs of ten, \<open>0\<close> to \<open>9\<close>; the table holds the zero of each
  run (U+0030, the Arabic-Indic U+0660, \<dots>, the fullwidth U+FF10, \<dots>).
\<close>

definition decimal_zeros_0 :: "nat list" where
  "decimal_zeros_0 =
     [48, 1632, 1776, 1984, 2406, 2534, 2662, 2790, 2918, 3046,
      3174, 3302, 3430, 3558, 3664, 3792, 3872, 4160, 4240, 6112,
      6160, 6470, 6608, 6784]"

definition decimal_zeros_1 :: "nat list" where
  "decimal_zeros_1 =
     [6800, 6992, 7088, 7232, 7248, 42528, 43216, 43264, 43472, 43504,
      43600, 44016, 65296, 66720, 68912, 69734, 69872, 69942, 70096, 70384,
      70736, 70864, 71248, 71360]"

definition decimal_zeros_2 :: "nat list" where
  "decimal_zeros_2 =
     [71472, 71904, 72016, 72784, 73040, 73120, 92768, 92864, 93008, 120782,
      120792, 120802, 120812, 120822, 123200, 123632, 125264, 130032]"

definition decimal_zeros :: "nat \<Rightarrow> nat list" where
  "decimal_zeros c =
     (if c < 6800 then decimal_zeros_0
      else if c < 71472 then decimal_zeros_1
      else decimal_zeros_2)"

fun decimal_in :: "nat list \<Rightarrow> nat \<Rightarrow> nat option" where
  "decimal_in [] c = None"
| "decimal_in (z # r) c = (if z \<le> c \<and> c \<le> z + 9 then Some (c - z) else decimal_in r c)"

text \<open>The decimal value of a character, if it has one.\<close>

definition decimal_value :: "nat \<Rightarrow> nat option" where
  "decimal_value c = decimal_in (decimal_zeros c) c"

definition is_digit :: "nat \<Rightarrow> bool" where
  "is_digit c = (decimal_value c \<noteq> None)"

definition digit_value :: "nat \<Rightarrow> nat" where
  "digit_value c = (case decimal_value c of None \<Rightarrow> 0 | Some d \<Rightarrow> d)"

text \<open>
  The alphanumeric characters (\<open>str.isalnum\<close>): the letters and every character with a
  decimal, digit or numeric value, the nine fraction glyphs of the module among them.
\<close>

definition alnum_ranges_0 :: "(nat \<times> nat) list" where
  "alnum_ranges_0 =
     [(48, 57), (65, 90), (97, 122), (170, 170), (178, 179), (181, 181),
      (185, 186), (188, 190), (192, 214), (216, 246), (248, 705), (710, 721),
      (736, 740), (748, 748), (750, 750), (880, 884), (886, 887), (890, 893),
      (895, 895), (902, 902), (904, 906), (908, 908), (910, 929), (931, 1013)]"

definition alnum_ranges_1 :: "(nat \<times> nat) list" where
  "alnum_ranges_1 =
     [(1015, 1153), (1162, 1327), (1329, 1366), (1369, 1369), (1376, 1416), (1488, 1514),
      (1519, 1522), (1568, 1610), (1632, 1641), (1646, 1647), (1649, 1747), (1749, 1749),
      (1765, 1766), (1774, 1788), (1791, 1791), (1808, 1808), (1810, 1839), (1869, 1957),
      (1969, 1969), (1984, 2026), (2036, 2037), (2042, 2042), (2048, 2069), (2074, 2074)]"

definition alnum_ranges_2 :: "(nat \<times> nat) list" where
  "alnum_ranges_2 =
     [(2084, 2084), (2088, 2088), (2112, 2136), (2144, 2154), (2160, 2183), (2185, 2190),
      (2208, 2249), (2308, 2361), (2365, 2365), (2384, 2384), (2392, 2401), (2406, 2415),
      (2417, 2432), (2437, 2444), (2447, 2448), (2451, 2472), (2474, 2480), (2482, 2482),
      (2486, 2489), (2493, 2493), (2510, 2510), (2524, 2525), (2527, 2529), (2534, 2545)]"

definition alnum_ranges_3 :: "(nat \<times> nat) list" where
  "alnum_ranges_3 =
     [(2548, 2553), (2556, 2556), (2565, 2570), (2575, 2576), (2579, 2600), (2602, 2608),
      (2610, 2611), (2613, 2614), (2616, 2617), (2649, 2652), (2654, 2654), (2662, 2671),
      (2674, 2676), (2693, 2701), (2703, 2705), (2707, 2728), (2730, 2736), (2738, 2739),
      (2741, 2745), (2749, 2749), (2768, 2768), (2784, 2785), (2790, 2799), (2809, 2809)]"

definition alnum_ranges_4 :: "(nat \<times> nat) list" where
  "alnum_ranges_4 =
     [(2821, 2828), (2831, 2832), (2835, 2856), (2858, 2864), (2866, 2867), (2869, 2873),
      (2877, 2877), (2908, 2909), (2911, 2913), (2918, 2927), (2929, 2935), (2947, 2947),
      (2949, 2954), (2958, 2960), (2962, 2965), (2969, 2970), (2972, 2972), (2974, 2975),
      (2979, 2980), (2984, 2986), (2990, 3001), (3024, 3024), (3046, 3058), (3077, 3084)]"

definition alnum_ranges_5 :: "(nat \<times> nat) list" where
  "alnum_ranges_5 =
     [(3086, 3088), (3090, 3112), (3114, 3129), (3133, 3133), (3160, 3162), (3165, 3165),
      (3168, 3169), (3174, 3183), (3192, 3198), (3200, 3200), (3205, 3212), (3214, 3216),
      (3218, 3240), (3242, 3251), (3253, 3257), (3261, 3261), (3293, 3294), (3296, 3297),
      (3302, 3311), (3313, 3314), (3332, 3340), (3342, 3344), (3346, 3386), (3389, 3389)]"

definition alnum_ranges_6 :: "(nat \<times> nat) list" where
  "alnum_ranges_6 =
     [(3406, 3406), (3412, 3414), (3416, 3425), (3430, 3448), (3450, 3455), (3461, 3478),
      (3482, 3505), (3507, 3515), (3517, 3517), (3520, 3526), (3558, 3567), (3585, 3632),
      (3634, 3635), (3648, 3654), (3664, 3673), (3713, 3714), (3716, 3716), (3718, 3722),
      (3724, 3747), (3749, 3749), (3751, 3760), (3762, 3763), (3773, 3773), (3776, 3780)]"

definition alnum_ranges_7 :: "(nat \<times> nat) list" where
  "alnum_ranges_7 =
     [(3782, 3782), (3792, 3801), (3804, 3807), (3840, 3840), (3872, 3891), (3904, 3911),
      (3913, 3948), (3976, 3980), (4096, 4138), (4159, 4169), (4176, 4181), (4186, 4189),
      (4193, 4193), (4197, 4198), (4206, 4208), (4213, 4225), (4238, 4238), (4240, 4249),
      (4256, 4293), (4295, 4295), (4301, 4301), (4304, 4346), (4348, 4680), (4682, 4685)]"

definition alnum_ranges_8 :: "(nat \<times> nat) list" where
  "alnum_ranges_8 =
     [(4688, 4694), (4696, 4696), (4698, 4701), (4704, 4744), (4746, 4749), (4752, 4784),
      (4786, 4789), (4792, 4798), (4800, 4800), (4802, 4805), (4808, 4822), (4824, 4880),
      (4882, 4885), (4888, 4954), (4969, 4988), (4992, 5007), (5024, 5109), (5112, 5117),
      (5121, 5740), (5743, 5759), (5761, 5786), (5792, 5866), (5870, 5880), (5888, 5905)]"

definition alnum_ranges_9 :: "(nat \<times> nat) list" where
  "alnum_ranges_9 =
     [(5919, 5937), (5952, 5969), (5984, 5996), (5998, 6000), (6016, 6067), (6103, 6103),
      (6108, 6108), (6112, 6121), (6128, 6137), (6160, 6169), (6176, 6264), (6272, 6276),
      (6279, 6312), (6314, 6314), (6320, 6389), (6400, 6430), (6470, 6509), (6512, 6516),
      (6528, 6571), (6576, 6601), (6608, 6618), (6656, 6678), (6688, 6740), (6784, 6793)]"

definition alnum_ranges_10 :: "(nat \<times> nat) list" where
  "alnum_ranges_10 =
     [(6800, 6809), (6823, 6823), (6917, 6963), (6981, 6988), (6992, 7001), (7043, 7072),
      (7086, 7141), (7168, 7203), (7232, 7241), (7245, 7293), (7296, 7304), (7312, 7354),
      (7357, 7359), (7401, 7404), (7406, 7411), (7413, 7414), (7418, 7418), (7424, 7615),
      (7680, 7957), (7960, 7965), (7968, 8005), (8008, 8013), (8016, 8023), (8025, 8025)]"

definition alnum_ranges_11 :: "(nat \<times> nat) list" where
  "alnum_ranges_11 =
     [(8027, 8027), (8029, 8029), (8031, 8061), (8064, 8116), (8118, 8124), (8126, 8126),
      (8130, 8132), (8134, 8140), (8144, 8147), (8150, 8155), (8160, 8172), (8178, 8180),
      (8182, 8188), (8304, 8305), (8308, 8313), (8319, 8329), (8336, 8348), (8450, 8450),
      (8455, 8455), (8458, 8467), (8469, 8469), (8473, 8477), (8484, 8484), (8486, 8486)]"

definition alnum_ranges_12 :: "(nat \<times> nat) list" where
  "alnum_ranges_12 =
     [(8488, 8488), (8490, 8493), (8495, 8505), (8508, 8511), (8517, 8521), (8526, 8526),
      (8528, 8585), (9312, 9371), (9450, 9471), (10102, 10131), (11264, 11492), (11499, 11502),
      (11506, 11507), (11517, 11517), (11520, 11557), (11559, 11559), (11565, 11565), (11568, 11623),
      (11631, 11631), (11648, 11670), (11680, 11686), (11688, 11694), (11696, 11702), (11704, 11710)]"

definition alnum_ranges_13 :: "(nat \<times> nat) list" where
  "alnum_ranges_13 =
     [(11712, 11718), (11720, 11726), (11728, 11734), (11736, 11742), (11823, 11823), (12293, 12295),
      (12321, 12329), (12337, 12341), (12344, 12348), (12353, 12438), (12445, 12447), (12449, 12538),
      (12540, 12543), (12549, 12591), (12593, 12686), (12690, 12693), (12704, 12735), (12784, 12799),
      (12832, 12841), (12872, 12879), (12881, 12895), (12928, 12937), (12977, 12991), (13312, 19903)]"

definition alnum_ranges_14 :: "(nat \<times> nat) list" where
  "alnum_ranges_14 =
     [(19968, 42124), (42192, 42237), (42240, 42508), (42512, 42539), (42560, 42606), (42623, 42653),
      (42656, 42735), (42775, 42783), (42786, 42888), (42891, 42954), (42960, 42961), (42963, 42963),
      (42965, 42969), (42994, 43009), (43011, 43013), (43015, 43018), (43020, 43042), (43056, 43061),
      (43072, 43123), (43138, 43187), (43216, 43225), (43250, 43255), (43259, 43259), (43261, 43262)]"

definition alnum_ranges_15 :: "(nat \<times> nat) list" where
  "alnum_ranges_15 =
     [(43264, 43301), (43312, 43334), (43360, 43388), (43396, 43442), (43471, 43481), (43488, 43492),
      (43494, 43518), (43520, 43560), (43584, 43586), (43588, 43595), (43600, 43609), (43616, 43638),
      (43642, 43642), (43646, 43695), (43697, 43697), (43701, 43702), (43705, 43709), (43712, 43712),
      (43714, 43714), (43739, 43741), (43744, 43754), (43762, 43764), (43777, 43782), (43785, 43790)]"

definition alnum_ranges_16 :: "(nat \<times> nat) list" where
  "alnum_ranges_16 =
     [(43793, 43798), (43808, 43814), (43816, 43822), (43824, 43866), (43868, 43881), (43888, 44002),
      (44016, 44025), (44032, 55203), (55216, 55238), (55243, 55291), (63744, 64109), (64112, 64217),
      (64256, 64262), (64275, 64279), (64285, 64285), (64287, 64296), (64298, 64310), (64312, 64316),
      (64318, 64318), (64320, 64321), (64323, 64324), (64326, 64433), (64467, 64829), (64848, 64911)]"

definition alnum_ranges_17 :: "(nat \<times> nat) list" where
  "alnum_ranges_17 =
     [(64914, 64967), (65008, 65019), (65136, 65140), (65142, 65276), (65296, 65305), (65313, 65338),
      (65345, 65370), (65382, 65470), (65474, 65479), (65482, 65487), (65490, 65495), (65498, 65500),
      (65536, 65547), (65549, 65574), (65576, 65594), (65596, 65597), (65599, 65613), (65616, 65629),
      (65664, 65786), (65799, 65843), (65856, 65912), (65930, 65931), (66176, 66204), (66208, 66256)]"

definition alnum_ranges_18 :: "(nat \<times> nat) list" where
  "alnum_ranges_18 =
     [(66273, 66299), (66304, 66339), (66349, 66378), (66384, 66421), (66432, 66461), (66464, 66499),
      (66504, 66511), (66513, 66517), (66560, 66717), (66720, 66729), (66736, 66771), (66776, 66811),
      (66816, 66855), (66864, 66915), (66928, 66938), (66940, 66954), (66956, 66962), (66964, 66965),
      (66967, 66977), (66979, 66993), (66995, 67001), (67003, 67004), (67072, 67382), (67392, 67413)]"

definition alnum_ranges_19 :: "(nat \<times> nat) list" where
  "alnum_ranges_19 =
     [(67424, 67431), (67456, 67461), (67463, 67504), (67506, 67514), (67584, 67589), (67592, 67592),
      (67594, 67637), (67639, 67640), (67644, 67644), (67647, 67669), (67672, 67702), (67705, 67742),
      (67751, 67759), (67808, 67826), (67828, 67829), (67835, 67867), (67872, 67897), (67968, 68023),
      (68028, 68047), (68050, 68096), (68112, 68115), (68117, 68119), (68121, 68149), (68160, 68168)]"

definition alnum_ranges_20 :: "(nat \<times> nat) list" where
  "alnum_ranges_20 =
     [(68192, 68222), (68224, 68255), (68288, 68295), (68297, 68324), (68331, 68335), (68352, 68405),
      (68416, 68437), (68440, 68466), (68472, 68497), (68521, 68527), (68608, 68680), (68736, 68786),
      (68800, 68850), (68858, 68899), (68912, 68921), (69216, 69246), (69248, 69289), (69296, 69297),
      (69376, 69415), (69424, 69445), (69457, 69460), (69488, 69505), (69552, 69579), (69600, 69622)]"

definition alnum_ranges_21 :: "(nat \<times> nat) list" where
  "alnum_ranges_21 =
     [(69635, 69687), (69714, 69743), (69745, 69746), (69749, 69749), (69763, 69807), (69840, 69864),
      (69872, 69881), (69891, 69926), (69942, 69951), (69956, 69956), (69959, 69959), (69968, 70002),
      (70006, 70006), (70019, 70066), (70081, 70084), (70096, 70106), (70108, 70108), (70113, 70132),
      (70144, 70161), (70163, 70187), (70272, 70278), (70280, 70280), (70282, 70285), (70287, 70301)]"

definition alnum_ranges_22 :: "(nat \<times> nat) list" where
  "alnum_ranges_22 =
     [(70303, 70312), (70320, 70366), (70384, 70393), (70405, 70412), (70415, 70416), (70419, 70440),
      (70442, 70448), (70450, 70451), (70453, 70457), (70461, 70461), (70480, 70480), (70493, 70497),
      (70656, 70708), (70727, 70730), (70736, 70745), (70751, 70753), (70784, 70831), (70852, 70853),
      (70855, 70855), (70864, 70873), (71040, 71086), (71128, 71131), (71168, 71215), (71236, 71236)]"

definition alnum_ranges_23 :: "(nat \<times> nat) list" where
  "alnum_ranges_23 =
     [(71248, 71257), (71296, 71338), (71352, 71352), (71360, 71369), (71424, 71450), (71472, 71483),
      (71488, 71494), (71680, 71723), (71840, 71922), (71935, 71942), (71945, 71945), (71948, 71955),
      (71957, 71958), (71960, 71983), (71999, 71999), (72001, 72001), (72016, 72025), (72096, 72103),
      (72106, 72144), (72161, 72161), (72163, 72163), (72192, 72192), (72203, 72242), (72250, 72250)]"

definition alnum_ranges_24 :: "(nat \<times> nat) list" where
  "alnum_ranges_24 =
     [(72272, 72272), (72284, 72329), (72349, 72349), (72368, 72440), (72704, 72712), (72714, 72750),
      (72768, 72768), (72784, 72812), (72818, 72847), (72960, 72966), (72968, 72969), (72971, 73008),
      (73030, 73030), (73040, 73049), (73056, 73061), (73063, 73064), (73066, 73097), (73112, 73112),
      (73120, 73129), (73440, 73458), (73648, 73648), (73664, 73684), (73728, 74649), (74752, 74862)]"

definition alnum_ranges_25 :: "(nat \<times> nat) list" where
  "alnum_ranges_25 =
     [(74880, 75075), (77712, 77808), (77824, 78894), (82944, 83526), (92160, 92728), (92736, 92766),
      (92768, 92777), (92784, 92862), (92864, 92873), (92880, 92909), (92928, 92975), (92992, 92995),
      (93008, 93017), (93019, 93025), (93027, 93047), (93053, 93071), (93760, 93846), (93952, 94026),
      (94032, 94032), (94099, 94111), (94176, 94177), (94179, 94179), (94208, 100343), (100352, 101589)]"

definition alnum_ranges_26 :: "(nat \<times> nat) list" where
  "alnum_ranges_26 =
     [(101632, 101640), (110576, 110579), (110581, 110587), (110589, 110590), (110592, 110882), (110928, 110930),
      (110948, 110951), (110960, 111355), (113664, 113770), (113776, 113788), (113792, 113800), (113808, 113817),
      (119520, 119539), (119648, 119672), (119808, 119892), (119894, 119964), (119966, 119967), (119970, 119970),
      (119973, 119974), (119977, 119980), (119982, 119993), (119995, 119995), (119997, 120003), (120005, 120069)]"

definition alnum_ranges_27 :: "(nat \<times> nat) list" where
  "alnum_ranges_27 =
     [(120071, 120074), (120077, 120084), (120086, 120092), (120094, 120121), (120123, 120126), (120128, 120132),
      (120134, 120134), (120138, 120144), (120146, 120485), (120488, 120512), (120514, 120538), (120540, 120570),
      (120572, 120596), (120598, 120628), (120630, 120654), (120656, 120686), (120688, 120712), (120714, 120744),
      (120746, 120770), (120772, 120779), (120782, 120831), (122624, 122654), (123136, 123180), (123191, 123197)]"

definition alnum_ranges_28 :: "(nat \<times> nat) list" where
  "alnum_ranges_28 =
     [(123200, 123209), (123214, 123214), (123536, 123565), (123584, 123627), (123632, 123641), (124896, 124902),
      (124904, 124907), (124909, 124910), (124912, 124926), (124928, 125124), (125127, 125135), (125184, 125251),
      (125259, 125259), (125264, 125273), (126065, 126123), (126125, 126127), (126129, 126132), (126209, 126253),
      (126255, 126269), (126464, 126467), (126469, 126495), (126497, 126498), (126500, 126500), (126503, 126503)]"

definition alnum_ranges_29 :: "(nat \<times> nat) list" where
  "alnum_ranges_29 =
     [(126505, 126514), (126516, 126519), (126521, 126521), (126523, 126523), (126530, 126530), (126535, 126535),
      (126537, 126537), (126539, 126539), (126541, 126543), (126545, 126546), (126548, 126548), (126551, 126551),
      (126553, 126553), (126555, 126555), (126557, 126557), (126559, 126559), (126561, 126562), (126564, 126564),
      (126567, 126570), (126572, 126578), (126580, 126583), (126585, 126588), (126590, 126590), (126592, 126601)]"

definition alnum_ranges_30 :: "(nat \<times> nat) list" where
  "alnum_ranges_30 =
     [(126603, 126619), (126625, 126627), (126629, 126633), (126635, 126651), (127232, 127244), (130032, 130041),
      (131072, 173791), (173824, 177976), (177984, 178205), (178208, 183969), (183984, 191456), (194560, 195101),
      (196608, 201546)]"

definition alnum_ranges :: "nat \<Rightarrow> (nat \<times> nat) list" where
  "alnum_ranges c =
     (if c < 1015 then alnum_ranges_0
      else if c < 2084 then alnum_ranges_1
      else if c < 2548 then alnum_ranges_2
      else if c < 2821 then alnum_ranges_3
      else if c < 3086 then alnum_ranges_4
      else if c < 3406 then alnum_ranges_5
      else if c < 3782 then alnum_ranges_6
      else if c < 4688 then alnum_ranges_7
      else if c < 5919 then alnum_ranges_8
      else if c < 6800 then alnum_ranges_9
      else if c < 8027 then alnum_ranges_10
      else if c < 8488 then alnum_ranges_11
      else if c < 11712 then alnum_ranges_12
      else if c < 19968 then alnum_ranges_13
      else if c < 43264 then alnum_ranges_14
      else if c < 43793 then alnum_ranges_15
      else if c < 64914 then alnum_ranges_16
      else if c < 66273 then alnum_ranges_17
      else if c < 67424 then alnum_ranges_18
      else if c < 68192 then alnum_ranges_19
      else if c < 69635 then alnum_ranges_20
      else if c < 70303 then alnum_ranges_21
      else if c < 71248 then alnum_ranges_22
      else if c < 72272 then alnum_ranges_23
      else if c < 74880 then alnum_ranges_24
      else if c < 101632 then alnum_ranges_25
      else if c < 120071 then alnum_ranges_26
      else if c < 123200 then alnum_ranges_27
      else if c < 126505 then alnum_ranges_28
      else if c < 126603 then alnum_ranges_29
      else alnum_ranges_30)"

definition is_alnum :: "nat \<Rightarrow> bool" where
  "is_alnum c = in_ranges (alnum_ranges c) c"

definition is_word :: "nat \<Rightarrow> bool" where
  "is_word c = (is_alnum c \<or> c = 95)"

definition is_glyph :: "nat \<Rightarrow> bool" where
  "is_glyph c = (c = 188 \<or> c = 189 \<or> c = 190 \<or> c = 8531 \<or> c = 8532
     \<or> (8539 \<le> c \<and> c \<le> 8542))"

text \<open>
  The lower-case mapping of single characters. An entry \<open>(first, last, step, to)\<close> maps
  \<open>first\<close> to \<open>to\<close>, \<open>first + step\<close> to \<open>to + step\<close> and so on up to \<open>last\<close>; a character
  of no entry is its own lower case. \<open>re.IGNORECASE\<close> compares characters through this
  mapping.
\<close>

definition lower_runs_0 :: "(nat \<times> nat \<times> nat \<times> nat) list" where
  "lower_runs_0 =
     [(65, 90, 1, 97), (192, 214, 1, 224), (216, 222, 1, 248), (256, 302, 2, 257),
      (304, 304, 1, 105), (306, 310, 2, 307), (313, 327, 2, 314), (330, 374, 2, 331),
      (376, 376, 1, 255), (377, 381, 2, 378), (385, 385, 1, 595), (386, 388, 2, 387),
      (390, 390, 1, 596), (391, 391, 1, 392), (393, 394, 1, 598), (395, 395, 1, 396),
      (398, 398, 1, 477), (399, 399, 1, 601), (400, 400, 1, 603), (401, 401, 1, 402),
      (403, 403, 1, 608), (404, 404, 1, 611), (406, 406, 1, 617), (407, 407, 1, 616)]"

definition lower_runs_1 :: "(nat \<times> nat \<times> nat \<times> nat) list" where
  "lower_runs_1 =
     [(408, 408, 1, 409), (412, 412, 1, 623), (413, 413, 1, 626), (415, 415, 1, 629),
      (416, 420, 2, 417), (422, 422, 1, 640), (423, 423, 1, 424), (425, 425, 1, 643),
      (428, 428, 1, 429), (430, 430, 1, 648), (431, 431, 1, 432), (433, 434, 1, 650),
      (435, 437, 2, 436), (439, 439, 1, 658), (440, 440, 1, 441), (444, 444, 1, 445),
      (452, 452, 1, 454), (453, 453, 1, 454), (455, 455, 1, 457), (456, 456, 1, 457),
      (458, 458, 1, 460), (459, 475, 2, 460), (478, 494, 2, 479), (497, 497, 1, 499)]"

definition lower_runs_2 :: "(nat \<times> nat \<times> nat \<times> nat) list" where
  "lower_runs_2 =
     [(498, 500, 2, 499), (502, 502, 1, 405), (503, 503, 1, 447), (504, 542, 2, 505),
      (544, 544, 1, 414), (546, 562, 2, 547), (570, 570, 1, 11365), (571, 571, 1, 572),
      (573, 573, 1, 410), (574, 574, 1, 11366), (577, 577, 1, 578), (579, 579, 1, 384),
      (580, 580, 1, 649), (581, 581, 1, 652), (582, 590, 2, 583), (880, 882, 2, 881),
      (886, 886, 1, 887), (895, 895, 1, 1011), (902, 902, 1, 940), (904, 906, 1, 941),
      (908, 908, 1, 972), (910, 911, 1, 973), (913, 929, 1, 945), (931, 939, 1, 963)]"

definition lower_runs_3 :: "(nat \<times> nat \<times> nat \<times> nat) list" where
  "lower_runs_3 =
     [(975, 975, 1, 983), (984, 1006, 2, 985), (1012, 1012, 1, 952), (1015, 1015, 1, 1016),
      (1017, 1017, 1, 1010), (1018, 1018, 1, 1019), (1021, 1023, 1, 891), (1024, 1039, 1, 1104),
      (1040, 1071, 1, 1072), (1120, 1152, 2, 1121), (1162, 1214, 2, 1163), (1216, 1216, 1, 1231),
      (1217, 1229, 2, 1218), (1232, 1326, 2, 1233), (1329, 1366, 1, 1377), (4256, 4293, 1, 11520),
      (4295, 4295, 1, 11559), (4301, 4301, 1, 11565), (5024, 5103, 1, 43888), (5104, 5109, 1, 5112),
      (7312, 7354, 1, 4304), (7357, 7359, 1, 4349), (7680, 7828, 2, 7681), (7838, 7838, 1, 223)]"

definition lower_runs_4 :: "(nat \<times> nat \<times> nat \<times> nat) list" where
  "lower_runs_4 =
     [(7840, 7934, 2, 7841), (7944, 7951, 1, 7936), (7960, 7965, 1, 7952), (7976, 7983, 1, 7968),
      (7992, 7999, 1, 7984), (8008, 8013, 1, 8000), (8025, 8031, 2, 8017), (8040, 8047, 1, 8032),
      (8072, 8079, 1, 8064), (8088, 8095, 1, 8080), (8104, 8111, 1, 8096), (8120, 8121, 1, 8112),
      (8122, 8123, 1, 8048), (8124, 8124, 1, 8115), (8136, 8139, 1, 8050), (8140, 8140, 1, 8131),
      (8152, 8153, 1, 8144), (8154, 8155, 1, 8054), (8168, 8169, 1, 8160), (8170, 8171, 1, 8058),
      (8172, 8172, 1, 8165), (8184, 8185, 1, 8056), (8186, 8187, 1, 8060), (8188, 8188, 1, 8179)]"

definition lower_runs_5 :: "(nat \<times> nat \<times> nat \<times> nat) list" where
  "lower_runs_5 =
     [(8486, 8486, 1, 969), (8490, 8490, 1, 107), (8491, 8491, 1, 229), (8498, 8498, 1, 8526),
      (8544, 8559, 1, 8560), (8579, 8579, 1, 8580), (9398, 9423, 1, 9424), (11264, 11311, 1, 11312),
      (11360, 11360, 1, 11361), (11362, 11362, 1, 619), (11363, 11363, 1, 7549), (11364, 11364, 1, 637),
      (11367, 11371, 2, 11368), (11373, 11373, 1, 593), (11374, 11374, 1, 625), (11375, 11375, 1, 592),
      (11376, 11376, 1, 594), (11378, 11378, 1, 11379), (11381, 11381, 1, 11382), (11390, 11391, 1, 575),
      (11392, 11490, 2, 11393), (11499, 11501, 2, 11500), (11506, 11506, 1, 11507), (42560, 42604, 2, 42561)]"

definition lower_runs_6 :: "(nat \<times> nat \<times> nat \<times> nat) list" where
  "lower_runs_6 =
     [(42624, 42650, 2, 42625), (42786, 42798, 2, 42787), (42802, 42862, 2, 42803), (42873, 42875, 2, 42874),
      (42877, 42877, 1, 7545), (42878, 42886, 2, 42879), (42891, 42891, 1, 42892), (42893, 42893, 1, 613),
      (42896, 42898, 2, 42897), (42902, 42920, 2, 42903), (42922, 42922, 1, 614), (42923, 42923, 1, 604),
      (42924, 42924, 1, 609), (42925, 42925, 1, 620), (42926, 42926, 1, 618), (42928, 42928, 1, 670),
      (42929, 42929, 1, 647), (42930, 42930, 1, 669), (42931, 42931, 1, 43859), (42932, 42946, 2, 42933),
      (42948, 42948, 1, 42900), (42949, 42949, 1, 642), (42950, 42950, 1, 7566), (42951, 42953, 2, 42952)]"

definition lower_runs_7 :: "(nat \<times> nat \<times> nat \<times> nat) list" where
  "lower_runs_7 =
     [(42960, 42960, 1, 42961), (42966, 42968, 2, 42967), (42997, 42997, 1, 42998), (65313, 65338, 1, 65345),
      (66560, 66599, 1, 66600), (66736, 66771, 1, 66776), (66928, 66964, 2, 66967), (66929, 66938, 1, 66968),
      (66941, 66954, 1, 66980), (66957, 66962, 1, 66996), (66965, 66965, 1, 67004), (68736, 68786, 1, 68800),
      (71840, 71871, 1, 71872), (93760, 93791, 1, 93792), (125184, 125217, 1, 125218)]"

definition lower_runs :: "nat \<Rightarrow> (nat \<times> nat \<times> nat \<times> nat) list" where
  "lower_runs c =
     (if c < 408 then lower_runs_0
      else if c < 498 then lower_runs_1
      else if c < 975 then lower_runs_2
      else if c < 7840 then lower_runs_3
      else if c < 8486 then lower_runs_4
      else if c < 42624 then lower_runs_5
      else if c < 42960 then lower_runs_6
      else lower_runs_7)"

fun tolower_in :: "(nat \<times> nat \<times> nat \<times> nat) list \<Rightarrow> nat \<Rightarrow> nat" where
  "tolower_in [] c = c"
| "tolower_in ((lo, hi, step, to) # r) c =
     (if lo \<le> c \<and> c \<le> hi \<and> (c - lo) mod step = 0 then to + (c - lo)
      else tolower_in r c)"

definition tolower :: "nat \<Rightarrow> nat" where
  "tolower c = tolower_in (lower_runs c) c"

text \<open>
  \<open>str.lower\<close> maps each character by that table, with two exceptions: U+0130 (capital
  I with dot above) becomes the two characters U+0069 U+0307, and the capital sigma
  U+03A3 becomes the final sigma U+03C2 when it ends a word and the small sigma U+03C3
  otherwise. The sigma ends a word when the nearest character before it that is not
  case-ignorable is cased, and the nearest such character after it is absent or not
  cased.
\<close>

definition case_ignorable_ranges_0 :: "(nat \<times> nat) list" where
  "case_ignorable_ranges_0 =
     [(39, 39), (46, 46), (58, 58), (94, 94), (96, 96), (168, 168),
      (173, 173), (175, 175), (180, 180), (183, 184), (688, 879), (884, 885),
      (890, 890), (900, 901), (903, 903), (1155, 1161), (1369, 1369), (1375, 1375),
      (1425, 1469), (1471, 1471), (1473, 1474), (1476, 1477), (1479, 1479), (1524, 1524)]"

definition case_ignorable_ranges_1 :: "(nat \<times> nat) list" where
  "case_ignorable_ranges_1 =
     [(1536, 1541), (1552, 1562), (1564, 1564), (1600, 1600), (1611, 1631), (1648, 1648),
      (1750, 1757), (1759, 1768), (1770, 1773), (1807, 1807), (1809, 1809), (1840, 1866),
      (1958, 1968), (2027, 2037), (2042, 2042), (2045, 2045), (2070, 2093), (2137, 2139),
      (2184, 2184), (2192, 2193), (2200, 2207), (2249, 2306), (2362, 2362), (2364, 2364)]"

definition case_ignorable_ranges_2 :: "(nat \<times> nat) list" where
  "case_ignorable_ranges_2 =
     [(2369, 2376), (2381, 2381), (2385, 2391), (2402, 2403), (2417, 2417), (2433, 2433),
      (2492, 2492), (2497, 2500), (2509, 2509), (2530, 2531), (2558, 2558), (2561, 2562),
      (2620, 2620), (2625, 2626), (2631, 2632), (2635, 2637), (2641, 2641), (2672, 2673),
      (2677, 2677), (2689, 2690), (2748, 2748), (2753, 2757), (2759, 2760), (2765, 2765)]"

definition case_ignorable_ranges_3 :: "(nat \<times> nat) list" where
  "case_ignorable_ranges_3 =
     [(2786, 2787), (2810, 2815), (2817, 2817), (2876, 2876), (2879, 2879), (2881, 2884),
      (2893, 2893), (2901, 2902), (2914, 2915), (2946, 2946), (3008, 3008), (3021, 3021),
      (3072, 3072), (3076, 3076), (3132, 3132), (3134, 3136), (3142, 3144), (3146, 3149),
      (3157, 3158), (3170, 3171), (3201, 3201), (3260, 3260), (3263, 3263), (3270, 3270)]"

definition case_ignorable_ranges_4 :: "(nat \<times> nat) list" where
  "case_ignorable_ranges_4 =
     [(3276, 3277), (3298, 3299), (3328, 3329), (3387, 3388), (3393, 3396), (3405, 3405),
      (3426, 3427), (3457, 3457), (3530, 3530), (3538, 3540), (3542, 3542), (3633, 3633),
      (3636, 3642), (3654, 3662), (3761, 3761), (3764, 3772), (3782, 3782), (3784, 3789),
      (3864, 3865), (3893, 3893), (3895, 3895), (3897, 3897), (3953, 3966), (3968, 3972)]"

definition case_ignorable_ranges_5 :: "(nat \<times> nat) list" where
  "case_ignorable_ranges_5 =
     [(3974, 3975), (3981, 3991), (3993, 4028), (4038, 4038), (4141, 4144), (4146, 4151),
      (4153, 4154), (4157, 4158), (4184, 4185), (4190, 4192), (4209, 4212), (4226, 4226),
      (4229, 4230), (4237, 4237), (4253, 4253), (4348, 4348), (4957, 4959), (5906, 5908),
      (5938, 5939), (5970, 5971), (6002, 6003), (6068, 6069), (6071, 6077), (6086, 6086)]"

definition case_ignorable_ranges_6 :: "(nat \<times> nat) list" where
  "case_ignorable_ranges_6 =
     [(6089, 6099), (6103, 6103), (6109, 6109), (6155, 6159), (6211, 6211), (6277, 6278),
      (6313, 6313), (6432, 6434), (6439, 6440), (6450, 6450), (6457, 6459), (6679, 6680),
      (6683, 6683), (6742, 6742), (6744, 6750), (6752, 6752), (6754, 6754), (6757, 6764),
      (6771, 6780), (6783, 6783), (6823, 6823), (6832, 6862), (6912, 6915), (6964, 6964)]"

definition case_ignorable_ranges_7 :: "(nat \<times> nat) list" where
  "case_ignorable_ranges_7 =
     [(6966, 6970), (6972, 6972), (6978, 6978), (7019, 7027), (7040, 7041), (7074, 7077),
      (7080, 7081), (7083, 7085), (7142, 7142), (7144, 7145), (7149, 7149), (7151, 7153),
      (7212, 7219), (7222, 7223), (7288, 7293), (7376, 7378), (7380, 7392), (7394, 7400),
      (7405, 7405), (7412, 7412), (7416, 7417), (7468, 7530), (7544, 7544), (7579, 7679)]"

definition case_ignorable_ranges_8 :: "(nat \<times> nat) list" where
  "case_ignorable_ranges_8 =
     [(8125, 8125), (8127, 8129), (8141, 8143), (8157, 8159), (8173, 8175), (8189, 8190),
      (8203, 8207), (8216, 8217), (8228, 8228), (8231, 8231), (8234, 8238), (8288, 8292),
      (8294, 8303), (8305, 8305), (8319, 8319), (8336, 8348), (8400, 8432), (11388, 11389),
      (11503, 11505), (11631, 11631), (11647, 11647), (11744, 11775), (11823, 11823), (12293, 12293)]"

definition case_ignorable_ranges_9 :: "(nat \<times> nat) list" where
  "case_ignorable_ranges_9 =
     [(12330, 12333), (12337, 12341), (12347, 12347), (12441, 12446), (12540, 12542), (40981, 40981),
      (42232, 42237), (42508, 42508), (42607, 42610), (42612, 42621), (42623, 42623), (42652, 42655),
      (42736, 42737), (42752, 42785), (42864, 42864), (42888, 42890), (42994, 42996), (43000, 43001),
      (43010, 43010), (43014, 43014), (43019, 43019), (43045, 43046), (43052, 43052), (43204, 43205)]"

definition case_ignorable_ranges_10 :: "(nat \<times> nat) list" where
  "case_ignorable_ranges_10 =
     [(43232, 43249), (43263, 43263), (43302, 43309), (43335, 43345), (43392, 43394), (43443, 43443),
      (43446, 43449), (43452, 43453), (43471, 43471), (43493, 43494), (43561, 43566), (43569, 43570),
      (43573, 43574), (43587, 43587), (43596, 43596), (43632, 43632), (43644, 43644), (43696, 43696),
      (43698, 43700), (43703, 43704), (43710, 43711), (43713, 43713), (43741, 43741), (43756, 43757)]"

definition case_ignorable_ranges_11 :: "(nat \<times> nat) list" where
  "case_ignorable_ranges_11 =
     [(43763, 43764), (43766, 43766), (43867, 43871), (43881, 43883), (44005, 44005), (44008, 44008),
      (44013, 44013), (64286, 64286), (64434, 64450), (65024, 65039), (65043, 65043), (65056, 65071),
      (65106, 65106), (65109, 65109), (65279, 65279), (65287, 65287), (65294, 65294), (65306, 65306),
      (65342, 65342), (65344, 65344), (65392, 65392), (65438, 65439), (65507, 65507), (65529, 65531)]"

definition case_ignorable_ranges_12 :: "(nat \<times> nat) list" where
  "case_ignorable_ranges_12 =
     [(66045, 66045), (66272, 66272), (66422, 66426), (67456, 67461), (67463, 67504), (67506, 67514),
      (68097, 68099), (68101, 68102), (68108, 68111), (68152, 68154), (68159, 68159), (68325, 68326),
      (68900, 68903), (69291, 69292), (69446, 69456), (69506, 69509), (69633, 69633), (69688, 69702),
      (69744, 69744), (69747, 69748), (69759, 69761), (69811, 69814), (69817, 69818), (69821, 69821)]"

definition case_ignorable_ranges_13 :: "(nat \<times> nat) list" where
  "case_ignorable_ranges_13 =
     [(69826, 69826), (69837, 69837), (69888, 69890), (69927, 69931), (69933, 69940), (70003, 70003),
      (70016, 70017), (70070, 70078), (70089, 70092), (70095, 70095), (70191, 70193), (70196, 70196),
      (70198, 70199), (70206, 70206), (70367, 70367), (70371, 70378), (70400, 70401), (70459, 70460),
      (70464, 70464), (70502, 70508), (70512, 70516), (70712, 70719), (70722, 70724), (70726, 70726)]"

definition case_ignorable_ranges_14 :: "(nat \<times> nat) list" where
  "case_ignorable_ranges_14 =
     [(70750, 70750), (70835, 70840), (70842, 70842), (70847, 70848), (70850, 70851), (71090, 71093),
      (71100, 71101), (71103, 71104), (71132, 71133), (71219, 71226), (71229, 71229), (71231, 71232),
      (71339, 71339), (71341, 71341), (71344, 71349), (71351, 71351), (71453, 71455), (71458, 71461),
      (71463, 71467), (71727, 71735), (71737, 71738), (71995, 71996), (71998, 71998), (72003, 72003)]"

definition case_ignorable_ranges_15 :: "(nat \<times> nat) list" where
  "case_ignorable_ranges_15 =
     [(72148, 72151), (72154, 72155), (72160, 72160), (72193, 72202), (72243, 72248), (72251, 72254),
      (72263, 72263), (72273, 72278), (72281, 72283), (72330, 72342), (72344, 72345), (72752, 72758),
      (72760, 72765), (72767, 72767), (72850, 72871), (72874, 72880), (72882, 72883), (72885, 72886),
      (73009, 73014), (73018, 73018), (73020, 73021), (73023, 73029), (73031, 73031), (73104, 73105)]"

definition case_ignorable_ranges_16 :: "(nat \<times> nat) list" where
  "case_ignorable_ranges_16 =
     [(73109, 73109), (73111, 73111), (73459, 73460), (78896, 78904), (92912, 92916), (92976, 92982),
      (92992, 92995), (94031, 94031), (94095, 94111), (94176, 94177), (94179, 94180), (110576, 110579),
      (110581, 110587), (110589, 110590), (113821, 113822), (113824, 113827), (118528, 118573), (118576, 118598),
      (119143, 119145), (119155, 119170), (119173, 119179), (119210, 119213), (119362, 119364), (121344, 121398)]"

definition case_ignorable_ranges_17 :: "(nat \<times> nat) list" where
  "case_ignorable_ranges_17 =
     [(121403, 121452), (121461, 121461), (121476, 121476), (121499, 121503), (121505, 121519), (122880, 122886),
      (122888, 122904), (122907, 122913), (122915, 122916), (122918, 122922), (123184, 123197), (123566, 123566),
      (123628, 123631), (125136, 125142), (125252, 125259), (127995, 127999), (917505, 917505), (917536, 917631),
      (917760, 917999)]"

definition case_ignorable_ranges :: "nat \<Rightarrow> (nat \<times> nat) list" where
  "case_ignorable_ranges c =
     (if c < 1536 then case_ignorable_ranges_0
      else if c < 2369 then case_ignorable_ranges_1
      else if c < 2786 then case_ignorable_ranges_2
      else if c < 3276 then case_ignorable_ranges_3
      else if c < 3974 then case_ignorable_ranges_4
      else if c < 6089 then case_ignorable_ranges_5
      else if c < 6966 then case_ignorable_ranges_6
      else if c < 8125 then case_ignorable_ranges_7
      else if c < 12330 then case_ignorable_ranges_8
      else if c < 43232 then case_ignorable_ranges_9
      else if c < 43763 then case_ignorable_ranges_10
      else if c < 66045 then case_ignorable_ranges_11
      else if c < 69826 then case_ignorable_ranges_12
      else if c < 70750 then case_ignorable_ranges_13
      else if c < 72148 then case_ignorable_ranges_14
      else if c < 73109 then case_ignorable_ranges_15
      else if c < 121403 then case_ignorable_ranges_16
      else case_ignorable_ranges_17)"

definition cased_ranges_0 :: "(nat \<times> nat) list" where
  "cased_ranges_0 =
     [(65, 90), (97, 122), (170, 170), (181, 181), (186, 186), (192, 214),
      (216, 246), (248, 442), (444, 447), (452, 659), (661, 696), (704, 705),
      (736, 740), (837, 837), (880, 883), (886, 887), (890, 893), (895, 895),
      (902, 902), (904, 906), (908, 908), (910, 929), (931, 1013), (1015, 1153)]"

definition cased_ranges_1 :: "(nat \<times> nat) list" where
  "cased_ranges_1 =
     [(1162, 1327), (1329, 1366), (1376, 1416), (4256, 4293), (4295, 4295), (4301, 4301),
      (4304, 4346), (4349, 4351), (5024, 5109), (5112, 5117), (7296, 7304), (7312, 7354),
      (7357, 7359), (7424, 7615), (7680, 7957), (7960, 7965), (7968, 8005), (8008, 8013),
      (8016, 8023), (8025, 8025), (8027, 8027), (8029, 8029), (8031, 8061), (8064, 8116)]"

definition cased_ranges_2 :: "(nat \<times> nat) list" where
  "cased_ranges_2 =
     [(8118, 8124), (8126, 8126), (8130, 8132), (8134, 8140), (8144, 8147), (8150, 8155),
      (8160, 8172), (8178, 8180), (8182, 8188), (8305, 8305), (8319, 8319), (8336, 8348),
      (8450, 8450), (8455, 8455), (8458, 8467), (8469, 8469), (8473, 8477), (8484, 8484),
      (8486, 8486), (8488, 8488), (8490, 8493), (8495, 8500), (8505, 8505), (8508, 8511)]"

definition cased_ranges_3 :: "(nat \<times> nat) list" where
  "cased_ranges_3 =
     [(8517, 8521), (8526, 8526), (8544, 8575), (8579, 8580), (9398, 9449), (11264, 11492),
      (11499, 11502), (11506, 11507), (11520, 11557), (11559, 11559), (11565, 11565), (42560, 42605),
      (42624, 42653), (42786, 42887), (42891, 42894), (42896, 42954), (42960, 42961), (42963, 42963),
      (42965, 42969), (42997, 42998), (43000, 43002), (43824, 43866), (43868, 43880), (43888, 43967)]"

definition cased_ranges_4 :: "(nat \<times> nat) list" where
  "cased_ranges_4 =
     [(64256, 64262), (64275, 64279), (65313, 65338), (65345, 65370), (66560, 66639), (66736, 66771),
      (66776, 66811), (66928, 66938), (66940, 66954), (66956, 66962), (66964, 66965), (66967, 66977),
      (66979, 66993), (66995, 67001), (67003, 67004), (67456, 67456), (67459, 67461), (67463, 67504),
      (67506, 67514), (68736, 68786), (68800, 68850), (71840, 71903), (93760, 93823), (119808, 119892)]"

definition cased_ranges_5 :: "(nat \<times> nat) list" where
  "cased_ranges_5 =
     [(119894, 119964), (119966, 119967), (119970, 119970), (119973, 119974), (119977, 119980), (119982, 119993),
      (119995, 119995), (119997, 120003), (120005, 120069), (120071, 120074), (120077, 120084), (120086, 120092),
      (120094, 120121), (120123, 120126), (120128, 120132), (120134, 120134), (120138, 120144), (120146, 120485),
      (120488, 120512), (120514, 120538), (120540, 120570), (120572, 120596), (120598, 120628), (120630, 120654)]"

definition cased_ranges_6 :: "(nat \<times> nat) list" where
  "cased_ranges_6 =
     [(120656, 120686), (120688, 120712), (120714, 120744), (120746, 120770), (120772, 120779), (122624, 122633),
      (122635, 122654), (125184, 125251), (127280, 127305), (127312, 127337), (127344, 127369)]"

definition cased_ranges :: "nat \<Rightarrow> (nat \<times> nat) list" where
  "cased_ranges c =
     (if c < 1162 then cased_ranges_0
      else if c < 8118 then cased_ranges_1
      else if c < 8517 then cased_ranges_2
      else if c < 64256 then cased_ranges_3
      else if c < 119894 then cased_ranges_4
      else if c < 120656 then cased_ranges_5
      else cased_ranges_6)"

definition is_case_ignorable :: "nat \<Rightarrow> bool" where
  "is_case_ignorable c = in_ranges (case_ignorable_ranges c) c"

definition is_cased :: "nat \<Rightarrow> bool" where
  "is_cased c = in_ranges (cased_ranges c) c"

text \<open>\<open>before\<close> holds the characters before the sigma, the nearest first.\<close>

definition final_sigma :: "ustr \<Rightarrow> ustr \<Rightarrow> bool" where
  "final_sigma before after =
     ((case dropWhile is_case_ignorable before of [] \<Rightarrow> False | c # r \<Rightarrow> is_cased c)
      \<and> (case dropWhile is_case_ignorable after of [] \<Rightarrow> True | c # r \<Rightarrow> \<not> is_cased c))"

fun lower_from :: "ustr \<Rightarrow> ustr \<Rightarrow> ustr" where
  "lower_from before [] = []"
| "lower_from before (c # after) =
     (if c = 931 then [if final_sigma before after then 962 else 963]
      else if c = 304 then [105, 775]
      else [tolower c]) @ lower_from (c # before) after"

definition lower :: "ustr \<Rightarrow> ustr" where
  "lower s = lower_from [] s"

definition strip :: "ustr \<Rightarrow> ustr" where
  "strip s = rev (dropWhile is_space (rev (dropWhile is_space s)))"

text \<open>\<open>str(i)\<close> for an \<open>int\<close>.\<close>

fun digits_of :: "nat \<Rightarrow> ustr" where
  "digits_of n = (if n < 10 then [48 + n] else digits_of (n div 10) @ [48 + n mod 10])"

declare digits_of.simps [simp del]

definition str_int :: "int \<Rightarrow> ustr" where
  "str_int i = (if i < 0 then 45 # digits_of (nat (- i)) else digits_of (nat i))"

text \<open>The value of a string of decimal digits.\<close>

definition digits_value :: "ustr \<Rightarrow> nat" where
  "digits_value ds = foldl (\<lambda>a c. 10 * a + digit_value c) 0 ds"

text \<open>
  \<open>int(s)\<close> for a string of decimal digits of any script, as the regular expressions of
  the module capture them. CPython refuses more than 4300 digits
  (\<open>sys.int_info.default_max_str_digits\<close>).
\<close>

definition int_of_digits :: "ustr \<Rightarrow> error + int" where
  "int_of_digits ds =
     (if ds \<noteq> [] \<and> list_all is_digit ds \<and> length ds \<le> 4300
      then Inr (int (digits_value ds)) else Inl ValueError)"

text \<open>\<open>f"{x:.1f}"\<close> for a finite float: one decimal, the exact value rounded half-even.\<close>

definition fmt1 :: "rat \<Rightarrow> ustr" where
  "fmt1 q = (let t = nat (rhe (\<bar>q\<bar> * 10)) in
     (if q < 0 then [45] else []) @ digits_of (t div 10) @ [46] @ digits_of (t mod 10))"

subsection \<open>\<open>float(s)\<close> on a string\<close>

text \<open>
  CPython first turns the string into ASCII: a character below U+007F stays, any other
  white space becomes a blank and any other decimal digit the ASCII digit of its value;
  at the first character of another kind the string is cut and ends with a question
  mark, which no number contains. (A string that is ASCII already is taken as it is;
  that differs for U+007F only, which no number contains either.) CPython then strips
  the white space of C (tab to carriage return, and the blank), checks that every
  underscore stands between two digits and removes it, and reads \<open>[sign] (inf | infinity
  | nan | digits [. digits] [e [sign] digits])\<close>, letters in either case, with at least
  one digit in the mantissa. The whole string must be used up. The decimal value is
  rounded correctly; a value that is too large reads as an infinity.
\<close>

fun float_ascii :: "ustr \<Rightarrow> ustr" where
  "float_ascii [] = []"
| "float_ascii (c # s) =
     (if c < 127 then c # float_ascii s
      else if is_space c then 32 # float_ascii s
      else case decimal_value c of None \<Rightarrow> [63] | Some d \<Rightarrow> (48 + d) # float_ascii s)"

definition float_space :: "nat \<Rightarrow> bool" where
  "float_space c = ((9 \<le> c \<and> c \<le> 13) \<or> c = 32)"

definition float_strip :: "ustr \<Rightarrow> ustr" where
  "float_strip s = rev (dropWhile float_space (rev (dropWhile float_space s)))"

definition ascii_digit :: "nat \<Rightarrow> bool" where
  "ascii_digit c = (48 \<le> c \<and> c \<le> 57)"

definition ascii_lower :: "ustr \<Rightarrow> ustr" where
  "ascii_lower s = map (\<lambda>c. if 65 \<le> c \<and> c \<le> 90 then c + 32 else c) s"

fun drop_underscores :: "nat \<Rightarrow> ustr \<Rightarrow> ustr option" where
  "drop_underscores prev [] = (if prev = 95 then None else Some [])"
| "drop_underscores prev (c # cs) =
     (if c = 95 then (if ascii_digit prev then drop_underscores c cs else None)
      else if prev = 95 \<and> \<not> ascii_digit c then None
      else map_option ((#) c) (drop_underscores c cs))"

definition pow10 :: "int \<Rightarrow> rat" where
  "pow10 e = (if 0 \<le> e then 10 ^ nat e else 1 / 10 ^ nat (- e))"

text \<open>The exponent part, after the \<open>e\<close>: an optional sign and at least one digit.\<close>

definition exponent_of :: "ustr \<Rightarrow> int option" where
  "exponent_of s =
     (let (neg, ds) = (case s of [] \<Rightarrow> (False, [])
                        | c # t \<Rightarrow> if c = 45 then (True, t) else if c = 43 then (False, t)
                                   else (False, s))
      in if ds \<noteq> [] \<and> list_all ascii_digit ds
         then Some (if neg then - int (digits_value ds) else int (digits_value ds))
         else None)"

text \<open>The unsigned part of a float literal.\<close>

definition float_literal :: "ustr \<Rightarrow> pyfloat option" where
  "float_literal s =
     (if ascii_lower s = ascii ''inf'' \<or> ascii_lower s = ascii ''infinity'' then Some PInf
      else if ascii_lower s = ascii ''nan'' then Some NaN
      else
        let d1 = takeWhile ascii_digit s; r1 = dropWhile ascii_digit s;
            d2 = (case r1 of [] \<Rightarrow> [] | c # t \<Rightarrow> if c = 46 then takeWhile ascii_digit t else []);
            r2 = (case r1 of [] \<Rightarrow> [] | c # t \<Rightarrow> if c = 46 then dropWhile ascii_digit t else r1)
        in if d1 = [] \<and> d2 = [] then None
           else case r2 of
               [] \<Rightarrow> Some (rnd (of_nat (digits_value (d1 @ d2)) * pow10 (- int (length d2))))
             | c # t \<Rightarrow>
                 if c = 101 \<or> c = 69 then
                   (case exponent_of t of None \<Rightarrow> None
                    | Some x \<Rightarrow>
                        Some (rnd (of_nat (digits_value (d1 @ d2)) * pow10 (x - int (length d2)))))
                 else None)"

definition pyfloat_of_str :: "ustr \<Rightarrow> error + pyfloat" where
  "pyfloat_of_str s =
     (case drop_underscores 0 (float_strip (float_ascii s)) of
        None \<Rightarrow> Inl ValueError
      | Some t \<Rightarrow>
          (case (case t of [] \<Rightarrow> None
                 | c # r \<Rightarrow> if c = 45 then map_option fneg (float_literal r)
                            else if c = 43 then float_literal r
                            else float_literal t) of
             None \<Rightarrow> Inl ValueError
           | Some x \<Rightarrow> Inr x))"

subsection \<open>Regular expressions\<close>

text \<open>
  The six patterns of the module are sequences of single characters, greedy repetitions
  of a character class, the end anchor and unnested groups. \<open>re\<close> tries the alternatives
  of a greedy repetition longest first and backtracks; the matcher below lists every way
  to match in that order, so that the first element is the match \<open>re\<close> reports.
\<close>

text \<open>
  \<open>ChrI k\<close> is the character \<open>k\<close> under \<open>re.IGNORECASE\<close>: every character with the lower
  case of \<open>k\<close>.
\<close>

datatype cset = Digit | Space | Word | Chr nat | ChrI nat | AnyOf "cset list" | NoneOf "cset list"

fun in_cset :: "cset \<Rightarrow> nat \<Rightarrow> bool" where
  "in_cset Digit c = is_digit c"
| "in_cset Space c = is_space c"
| "in_cset Word c = is_word c"
| "in_cset (Chr k) c = (c = k)"
| "in_cset (ChrI k) c = (tolower c = tolower k)"
| "in_cset (AnyOf cs) c = list_ex (\<lambda>x. in_cset x c) cs"
| "in_cset (NoneOf cs) c = (\<not> list_ex (\<lambda>x. in_cset x c) cs)"

text \<open>
  \<open>One\<close> is a single character, \<open>Many cs n\<close> a greedy repetition with at least \<open>n\<close>
  characters (\<open>+\<close> is \<open>Many cs 1\<close>, \<open>*\<close> is \<open>Many cs 0\<close>), \<open>Eos\<close> is \<open>$\<close>, which without
  \<open>re.MULTILINE\<close> matches at the end and before a final newline.
\<close>

datatype item = One cset | Many cset nat | Eos

text \<open>Every remainder the items can leave, in the order \<open>re\<close> tries them.\<close>

fun mitems :: "item list \<Rightarrow> ustr \<Rightarrow> ustr list" where
  "mitems [] s = [s]"
| "mitems (One cs # r) s =
     (case s of [] \<Rightarrow> [] | c # t \<Rightarrow> if in_cset cs c then mitems r t else [])"
| "mitems (Many cs n # r) s =
     concat (map (\<lambda>k. mitems r (drop k s))
                 (rev [n ..< Suc (length (takeWhile (in_cset cs) s))]))"
| "mitems (Eos # r) s = (if s = [] \<or> s = [10] then mitems r s else [])"

datatype rx = I item | Grp "item list"

text \<open>Every match of a pattern at the start of \<open>s\<close>: the captured groups and the remainder.\<close>

fun mrx :: "rx list \<Rightarrow> ustr \<Rightarrow> (ustr list \<times> ustr) list" where
  "mrx [] s = [([], s)]"
| "mrx (I it # r) s = concat (map (mrx r) (mitems [it] s))"
| "mrx (Grp its # r) s =
     concat (map (\<lambda>t. map (\<lambda>(gs, u). (take (length s - length t) s # gs, u)) (mrx r t))
                 (mitems its s))"

text \<open>The number of groups of a pattern.\<close>

fun ngroups :: "rx list \<Rightarrow> nat" where
  "ngroups [] = 0"
| "ngroups (I it # r) = ngroups r"
| "ngroups (Grp its # r) = Suc (ngroups r)"

text \<open>\<open>re.match\<close>: the groups of the first match at the start, or \<open>None\<close>.\<close>

definition re_match :: "rx list \<Rightarrow> ustr \<Rightarrow> ustr list option" where
  "re_match p s = (case mrx p s of [] \<Rightarrow> None | (gs, u) # ms \<Rightarrow> Some gs)"

text \<open>\<open>re.search\<close>: the first match at the leftmost position that has one.\<close>

fun re_search :: "rx list \<Rightarrow> ustr \<Rightarrow> ustr list option" where
  "re_search p [] = re_match p []"
| "re_search p (c # s) =
     (case re_match p (c # s) of Some gs \<Rightarrow> Some gs | None \<Rightarrow> re_search p s)"

text \<open>\<^verbatim>\<open>^(\d+)\s+(\d+)/(\d+)$\<close>\<close>

definition rx_mixed :: "rx list" where
  "rx_mixed = [Grp [Many Digit 1], I (Many Space 1), Grp [Many Digit 1], I (One (Chr 47)),
               Grp [Many Digit 1], I Eos]"

text \<open>\<^verbatim>\<open>^(\d+)/(\d+)$\<close>\<close>

definition rx_simple :: "rx list" where
  "rx_simple = [Grp [Many Digit 1], I (One (Chr 47)), Grp [Many Digit 1], I Eos]"

text \<open>\<^verbatim>\<open>^([\d./\s]+)\s+to\s+([\d./\s]+)$\<close>\<close>

definition rx_range :: "rx list" where
  "rx_range = [Grp [Many (AnyOf [Digit, Chr 46, Chr 47, Space]) 1], I (Many Space 1),
               I (One (Chr 116)), I (One (Chr 111)), I (Many Space 1),
               Grp [Many (AnyOf [Digit, Chr 46, Chr 47, Space]) 1], I Eos]"

text \<open>\<^verbatim>\<open>\(([^)]+cup[^)]*)\)\<close> with \<open>re.IGNORECASE\<close>\<close>

definition rx_paren :: "rx list" where
  "rx_paren = [I (One (Chr 40)),
               Grp [Many (NoneOf [Chr 41]) 1, One (ChrI 99), One (ChrI 117), One (ChrI 112),
                    Many (NoneOf [Chr 41]) 0],
               I (One (Chr 41))]"

text \<open>\<^verbatim>\<open>^([\d\s/]+)\s*(cup)\<close> with \<open>re.IGNORECASE\<close>\<close>

definition rx_amount :: "rx list" where
  "rx_amount = [Grp [Many (AnyOf [Digit, Space, Chr 47]) 1], I (Many Space 0),
                Grp [One (ChrI 99), One (ChrI 117), One (ChrI 112)]]"

text \<open>\<^verbatim>\<open>^([\d\s/.]+)\s+(\w+)\<close>\<close>

definition rx_standard :: "rx list" where
  "rx_standard = [Grp [Many (AnyOf [Digit, Space, Chr 47, Chr 46]) 1], I (Many Space 1),
                  Grp [Many Word 1]]"

section \<open>The module \<open>conversions.py\<close>\<close>

subsection \<open>The tables\<close>

text \<open>
  \<open>1 / 3\<close>, \<open>2 / 3\<close> and \<open>1 / 48\<close> are quotients of two \<open>int\<close>s, rounded to a float when
  the module is loaded; the other entries and \<open>1 / 16\<close> are exact. \<open>0.05\<close> is a decimal
  literal, rounded as well. The \<open>int\<close> entry \<open>1\<close> of \<open>TO_CUPS\<close> multiplies a float as
  \<open>1.0\<close> does.
\<close>

definition third :: pyfloat where
  "third = rnd (1 / 3)"

definition two_thirds :: pyfloat where
  "two_thirds = rnd (2 / 3)"

definition tolerance :: pyfloat where
  "tolerance = rnd (5 / 100)"

definition TO_CUPS :: "(ustr \<times> pyfloat) list" where
  "TO_CUPS =
     [(ascii ''cup'', Fin 1), (ascii ''cups'', Fin 1),
      (ascii ''tbsp'', Fin (1 / 16)), (ascii ''tablespoon'', Fin (1 / 16)),
      (ascii ''tablespoons'', Fin (1 / 16)),
      (ascii ''tsp'', rnd (1 / 48)), (ascii ''teaspoon'', rnd (1 / 48)),
      (ascii ''teaspoons'', rnd (1 / 48))]"

text \<open>
  The glyphs are the code points U+00BC, U+00BD, U+00BE (one quarter, one half, three
  quarters), U+2153, U+2154 (one third, two thirds) and U+215B to U+215E (one, three,
  five and seven eighths). A \<open>dict\<close> is iterated in the order of its literal.
\<close>

definition UNICODE_FRACTIONS :: "(nat \<times> pyfloat) list" where
  "UNICODE_FRACTIONS =
     [(188, Fin (1 / 4)), (189, Fin (1 / 2)), (190, Fin (3 / 4)),
      (8531, third), (8532, two_thirds),
      (8539, Fin (1 / 8)), (8540, Fin (3 / 8)), (8541, Fin (5 / 8)), (8542, Fin (7 / 8))]"

definition DISPLAY_FRACTIONS :: "(pyfloat \<times> ustr) list" where
  "DISPLAY_FRACTIONS =
     [(Fin (1 / 4), [188]), (third, [8531]), (Fin (1 / 2), [189]),
      (two_thirds, [8532]), (Fin (3 / 4), [190]),
      (Fin (1 / 8), [8539]), (Fin (3 / 8), [8540]), (Fin (5 / 8), [8541]),
      (Fin (7 / 8), [8542])]"

subsection \<open>\<open>parse_fraction\<close>\<close>

text \<open>
  The loop over \<open>UNICODE_FRACTIONS\<close>: at the first glyph that occurs in the text, every
  occurrence is removed and the function returns \<open>base + val\<close>, where \<open>base\<close> is
  \<open>float\<close> of what is left, or \<open>0\<close> when nothing is left. \<open>float\<close> is called outside any
  \<open>try\<close>. \<open>None\<close> means that the loop ended without a glyph.
\<close>

fun glyph_loop :: "(nat \<times> pyfloat) list \<Rightarrow> ustr \<Rightarrow> (error + pyfloat) option" where
  "glyph_loop [] text = None"
| "glyph_loop ((uf, val) # r) text =
     (if uf \<in> set text then
        (let t = strip (filter (\<lambda>c. c \<noteq> uf) text) in
         Some (if t = [] then Inr (fadd (Fin 0) val)
               else bind_err (pyfloat_of_str t) (\<lambda>base. Inr (fadd base val))))
      else glyph_loop r text)"

definition parse_fraction :: "ustr \<Rightarrow> error + pyfloat option" where
  "parse_fraction text0 =
     (let text = strip text0 in
      case glyph_loop UNICODE_FRACTIONS text of
        Some r \<Rightarrow> bind_err r (\<lambda>x. Inr (Some x))
      | None \<Rightarrow>
          (case re_match rx_mixed text of
             Some [g1, g2, g3] \<Rightarrow>
               bind_err (int_of_digits g1) (\<lambda>w.
               bind_err (int_of_digits g2) (\<lambda>n.
               bind_err (int_of_digits g3) (\<lambda>d.
               bind_err (int_truediv n d) (\<lambda>f.
               bind_err (float_of_int w) (\<lambda>wf. Inr (Some (fadd wf f)))))))
           | _ \<Rightarrow>
               (case re_match rx_simple text of
                  Some [g1, g2] \<Rightarrow>
                    bind_err (int_of_digits g1) (\<lambda>n.
                    bind_err (int_of_digits g2) (\<lambda>d.
                    bind_err (int_truediv n d) (\<lambda>f. Inr (Some f))))
                | _ \<Rightarrow>
                    (case pyfloat_of_str text of
                       Inl e \<Rightarrow> Inr None
                     | Inr x \<Rightarrow> Inr (Some x)))))"

subsection \<open>\<open>parse_range\<close>\<close>

definition parse_range :: "ustr \<Rightarrow> error + pyfloat option" where
  "parse_range text0 =
     (let text = strip text0 in
      case re_match rx_range text of
        Some [g1, g2] \<Rightarrow>
          bind_err (parse_fraction g1) (\<lambda>lo.
          bind_err (parse_fraction g2) (\<lambda>hi.
            case (lo, hi) of
              (Some l, Some h) \<Rightarrow> bind_err (fdiv (fadd l h) (Fin 2)) (\<lambda>m. Inr (Some m))
            | _ \<Rightarrow> parse_fraction text))
      | _ \<Rightarrow> parse_fraction text)"

subsection \<open>\<open>format_amount\<close>\<close>

text \<open>The loop over \<open>DISPLAY_FRACTIONS\<close>: the symbol of the first entry within tolerance.\<close>

fun display_loop :: "(pyfloat \<times> ustr) list \<Rightarrow> pyfloat \<Rightarrow> ustr option" where
  "display_loop [] fr = None"
| "display_loop ((val, symbol) # r) fr =
     (if flt (fabs (fsub fr val)) tolerance then Some symbol else display_loop r fr)"

definition format_amount :: "pyfloat option \<Rightarrow> error + ustr" where
  "format_amount n0 =
     (case n0 of
        None \<Rightarrow> Inr []
      | Some n \<Rightarrow>
          bind_err (py_int n) (\<lambda>base.
            if feq_int n base then Inr (str_int base)
            else
              bind_err (float_of_int base) (\<lambda>fb.
                let fr = fsub n fb in
                case display_loop DISPLAY_FRACTIONS fr of
                  Some symbol \<Rightarrow>
                    Inr (if base \<noteq> 0 then str_int base @ [32] @ symbol else symbol)
                | None \<Rightarrow>
                    (if \<not> fzero (fmod1 n) then
                       Inr (case n of Fin q \<Rightarrow> fmt1 q | _ \<Rightarrow> [])
                     else Inr (str_int base)))))"

subsection \<open>\<open>to_weight\<close> and \<open>normalize_to_grams_per_cup\<close>\<close>

text \<open>\<open>unit.lower() if unit else ""\<close>: \<open>None\<close> and the empty string give the empty string.\<close>

definition unit_lower :: "ustr option \<Rightarrow> ustr" where
  "unit_lower unit = (case unit of None \<Rightarrow> [] | Some u \<Rightarrow> lower u)"

definition to_weight :: "pyfloat option \<Rightarrow> ustr option \<Rightarrow> pyfloat option \<Rightarrow> error + int option" where
  "to_weight amount unit grams_per_cup =
     (case (amount, grams_per_cup) of
        (Some a, Some g) \<Rightarrow>
          (case map_of TO_CUPS (unit_lower unit) of
             None \<Rightarrow> Inr None
           | Some factor \<Rightarrow> bind_err (py_round (fmul (fmul a factor) g)) (\<lambda>r. Inr (Some r)))
      | _ \<Rightarrow> Inr None)"

definition normalize_to_grams_per_cup ::
  "pyfloat option \<Rightarrow> ustr option \<Rightarrow> pyfloat option \<Rightarrow> error + pyfloat option" where
  "normalize_to_grams_per_cup volume_amount volume_unit grams =
     (case (volume_amount, grams) of
        (Some va, Some g) \<Rightarrow>
          (case map_of TO_CUPS (unit_lower volume_unit) of
             None \<Rightarrow> Inr None
           | Some factor \<Rightarrow>
               (let cups = fmul va factor in
                if fzero cups then Inr None
                else bind_err (fdiv g cups) (\<lambda>x. bind_err (py_round1 x) (\<lambda>r. Inr (Some r)))))
      | _ \<Rightarrow> Inr None)"

subsection \<open>\<open>parse_volume_text\<close>\<close>

text \<open>The normalisation of the unit names in the standard branch.\<close>

definition normalize_unit :: "ustr \<Rightarrow> ustr" where
  "normalize_unit unit =
     (if unit = ascii ''tablespoon'' \<or> unit = ascii ''tablespoons'' then ascii ''tablespoons''
      else if unit = ascii ''teaspoon'' \<or> unit = ascii ''teaspoons'' then ascii ''teaspoons''
      else if unit = ascii ''cup'' \<or> unit = ascii ''cups'' then ascii ''cup''
      else unit)"

text \<open>
  The parenthetical branch: \<open>Some\<close> when it returns or raises, \<open>None\<close> when the function
  goes on to the standard branch.
\<close>

definition paren_branch :: "ustr \<Rightarrow> (error + pyfloat) option" where
  "paren_branch text =
     (case re_search rx_paren text of
        Some [g] \<Rightarrow>
          (case re_match rx_amount (strip g) of
             Some [a, c] \<Rightarrow>
               (case parse_fraction a of
                  Inl e \<Rightarrow> Some (Inl e)
                | Inr None \<Rightarrow> None
                | Inr (Some amt) \<Rightarrow> Some (Inr amt))
           | _ \<Rightarrow> None)
      | _ \<Rightarrow> None)"

text \<open>\<^verbatim>\<open>text.replace("\u00ad", "").strip()\<close>: the soft hyphen is U+00AD.\<close>

definition without_soft_hyphens :: "ustr \<Rightarrow> ustr" where
  "without_soft_hyphens text = strip (filter (\<lambda>c. c \<noteq> 173) text)"

definition parse_volume_text :: "ustr \<Rightarrow> error + (pyfloat option \<times> ustr option)" where
  "parse_volume_text text0 =
     (let text = without_soft_hyphens text0 in
      case paren_branch text of
        Some r \<Rightarrow> bind_err r (\<lambda>amt. Inr (Some amt, Some (ascii ''cup'')))
      | None \<Rightarrow>
          (case re_match rx_standard text of
             Some [g1, g2] \<Rightarrow>
               bind_err (parse_fraction g1) (\<lambda>amt. Inr (amt, Some (normalize_unit (lower g2))))
           | _ \<Rightarrow> Inr (None, None)))"

section \<open>Evaluation\<close>

text \<open>
  The rules that let the simplifier run the model on a concrete input. The congruence
  rule makes it evaluate the first argument of \<open>bind_err\<close> before it looks at the
  continuation, as Python evaluates a statement before the next one.
\<close>

lemma ilog2_numeral [simp]:
  "ilog2 0 = 0"
  "ilog2 (Suc 0) = 0"
  "ilog2 (numeral k) = (if numeral k \<le> (1::nat) then 0 else 1 + ilog2 (numeral k div 2))"
  by (simp_all add: ilog2.simps[of 0] ilog2.simps[of "Suc 0"] ilog2.simps[of "numeral k"])

lemma digits_of_numeral [simp]:
  "digits_of 0 = [48]"
  "digits_of (Suc 0) = [49]"
  "digits_of (numeral k) =
     (if numeral k < (10::nat) then [48 + numeral k]
      else digits_of (numeral k div 10) @ [48 + numeral k mod 10])"
  by (simp_all add: digits_of.simps[of 0] digits_of.simps[of "Suc 0"]
      digits_of.simps[of "numeral k"])

lemma floor_rat_numeral [simp]:
  "\<lfloor>numeral a / numeral b :: rat\<rfloor> = numeral a div numeral b"
  "\<lfloor>- (numeral a / numeral b) :: rat\<rfloor> = - numeral a div numeral b"
  "\<lfloor>1 / numeral b :: rat\<rfloor> = 1 div numeral b"
  "\<lfloor>- (1 / numeral b) :: rat\<rfloor> = - 1 div numeral b"
proof -
  show "\<lfloor>numeral a / numeral b :: rat\<rfloor> = numeral a div numeral b"
    by (metis floor_divide_of_int_eq of_int_numeral)
  show "\<lfloor>- (numeral a / numeral b) :: rat\<rfloor> = - numeral a div numeral b"
    by (metis divide_minus_left floor_divide_of_int_eq of_int_neg_numeral of_int_numeral)
  show "\<lfloor>1 / numeral b :: rat\<rfloor> = 1 div numeral b"
    by (metis floor_divide_of_int_eq of_int_1 of_int_numeral)
  show "\<lfloor>- (1 / numeral b) :: rat\<rfloor> = - 1 div numeral b"
    by (metis divide_minus_left floor_divide_of_int_eq of_int_minus of_int_1 of_int_numeral)
qed

lemma ceiling_rat_numeral [simp]:
  "\<lceil>numeral a / numeral b :: rat\<rceil> = - (- numeral a div numeral b)"
  "\<lceil>- (numeral a / numeral b) :: rat\<rceil> = - (numeral a div numeral b)"
  "\<lceil>1 / numeral b :: rat\<rceil> = - (- 1 div numeral b)"
  "\<lceil>- (1 / numeral b) :: rat\<rceil> = - (1 div numeral b)"
  unfolding ceiling_def by simp_all

lemma bind_err_simps [simp]:
  "bind_err (Inl e) f = Inl e"
  "bind_err (Inr x) f = f x"
  by (simp_all add: bind_err_def)

lemma bind_err_weak_cong [cong]: "m = m' \<Longrightarrow> bind_err m f = bind_err m' f"
  by simp

lemma flt_simps [simp]:
  "flt (Fin a) (Fin b) = (a < b)"
  "flt NaN y = False"
  "flt x NaN = False"
  "flt PInf y = False"
  "flt x NInf = False"
  "flt (Fin a) PInf = True"
  "flt NInf (Fin b) = True"
  "flt NInf PInf = True"
  by (simp_all add: flt_def split: pyfloat.splits)

lemma fmul_simps [simp]:
  "fmul (Fin a) (Fin b) = rnd (a * b)"
  "fmul NaN y = NaN"
  "fmul x NaN = NaN"
  "fmul PInf (Fin b) = (if b = 0 then NaN else if 0 < b then PInf else NInf)"
  "fmul NInf (Fin b) = (if b = 0 then NaN else if 0 < b then NInf else PInf)"
  "fmul (Fin a) PInf = (if a = 0 then NaN else if 0 < a then PInf else NInf)"
  "fmul (Fin a) NInf = (if a = 0 then NaN else if 0 < a then NInf else PInf)"
  "fmul PInf PInf = PInf"
  "fmul PInf NInf = NInf"
  "fmul NInf PInf = NInf"
  "fmul NInf NInf = PInf"
  by (simp_all add: fmul_def split: pyfloat.splits)

lemmas rnd_ev = rnd_def quantum_def flog2_def pow2_def rhe_def Let_def

text \<open>On ASCII the tables are the familiar classes.\<close>

lemma decimal_value_ascii:
  "c < 128 \<Longrightarrow> decimal_value c = (if 48 \<le> c \<and> c \<le> 57 then Some (c - 48) else None)"
  by (simp add: decimal_value_def decimal_zeros_def decimal_zeros_0_def)

lemma is_digit_ascii: "c < 128 \<Longrightarrow> is_digit c = (48 \<le> c \<and> c \<le> 57)"
  by (simp add: is_digit_def decimal_value_ascii)

lemma digit_value_ascii: "c < 128 \<Longrightarrow> digit_value c = (if 48 \<le> c \<and> c \<le> 57 then c - 48 else 0)"
  by (simp add: digit_value_def decimal_value_ascii)

lemma is_word_ascii:
  "c < 128 \<Longrightarrow> is_word c =
     ((48 \<le> c \<and> c \<le> 57) \<or> (65 \<le> c \<and> c \<le> 90) \<or> c = 95 \<or> (97 \<le> c \<and> c \<le> 122))"
  by (auto simp add: is_word_def is_alnum_def alnum_ranges_def alnum_ranges_0_def)

lemma tolower_ascii: "c < 128 \<Longrightarrow> tolower c = (if 65 \<le> c \<and> c \<le> 90 then c + 32 else c)"
  by (simp add: tolower_def lower_runs_def lower_runs_0_def)

lemma lower_Nil [simp]: "lower [] = []"
  by (simp add: lower_def)

lemmas str_ev = ascii_def strip_def is_space_def is_digit_ascii digit_value_ascii
  decimal_value_ascii is_word_ascii is_glyph_def lower_def tolower_ascii ascii_digit_def
  ascii_lower_def float_strip_def float_space_def without_soft_hyphens_def

text \<open>The rules that read the tables at any character.\<close>

lemmas decimal_ev = is_digit_def digit_value_def decimal_value_def
  decimal_zeros_0_def decimal_zeros_1_def decimal_zeros_2_def decimal_zeros_def

lemmas alnum_ev = is_word_def is_alnum_def
  alnum_ranges_0_def alnum_ranges_1_def alnum_ranges_2_def alnum_ranges_3_def alnum_ranges_4_def
  alnum_ranges_5_def alnum_ranges_6_def alnum_ranges_7_def alnum_ranges_8_def alnum_ranges_9_def
  alnum_ranges_10_def alnum_ranges_11_def alnum_ranges_12_def alnum_ranges_13_def
  alnum_ranges_14_def alnum_ranges_15_def alnum_ranges_16_def alnum_ranges_17_def
  alnum_ranges_18_def alnum_ranges_19_def alnum_ranges_20_def alnum_ranges_21_def
  alnum_ranges_22_def alnum_ranges_23_def alnum_ranges_24_def alnum_ranges_25_def
  alnum_ranges_26_def alnum_ranges_27_def alnum_ranges_28_def alnum_ranges_29_def
  alnum_ranges_30_def alnum_ranges_def

lemmas tolower_ev = tolower_def
  lower_runs_0_def lower_runs_1_def lower_runs_2_def lower_runs_3_def lower_runs_4_def
  lower_runs_5_def lower_runs_6_def lower_runs_7_def lower_runs_def

lemmas sigma_ev = final_sigma_def is_case_ignorable_def is_cased_def
  case_ignorable_ranges_0_def case_ignorable_ranges_1_def case_ignorable_ranges_2_def
  case_ignorable_ranges_3_def case_ignorable_ranges_4_def case_ignorable_ranges_5_def
  case_ignorable_ranges_6_def case_ignorable_ranges_7_def case_ignorable_ranges_8_def
  case_ignorable_ranges_9_def case_ignorable_ranges_10_def case_ignorable_ranges_11_def
  case_ignorable_ranges_12_def case_ignorable_ranges_13_def case_ignorable_ranges_14_def
  case_ignorable_ranges_15_def case_ignorable_ranges_16_def case_ignorable_ranges_17_def
  case_ignorable_ranges_def
  cased_ranges_0_def cased_ranges_1_def cased_ranges_2_def cased_ranges_3_def cased_ranges_4_def
  cased_ranges_5_def cased_ranges_6_def cased_ranges_def

text \<open>Some values of the tables and of \<open>str.lower\<close> outside ASCII.\<close>

lemma decimal_examples:
  "decimal_value 1635 = Some 3" "decimal_value 65298 = Some 2" "decimal_value 189 = None"
  "is_digit 120791" "\<not> is_digit 178" "\<not> is_digit 8531"
  by (simp_all add: decimal_ev)

lemma word_examples:
  "is_word 232" "is_word 201" "is_word 189" "is_word 8531" "is_word 1635" "is_word 178"
  "\<not> is_word 173" "\<not> is_word 8232" "\<not> is_word 45"
  by (simp_all add: alnum_ev)

lemma lower_examples:
  "lower (ascii ''TBSP'') = ascii ''tbsp''"
  "lower [201, 67, 76, 65, 73, 82] = [233, 99, 108, 97, 105, 114]"
  "lower [304] = [105, 775]"
  "lower [927, 916, 933, 931, 931, 917, 933, 931] = [959, 948, 965, 963, 963, 949, 965, 962]"
  by (simp_all add: lower_def ascii_def tolower_ev sigma_ev)

lemmas re_ev = re_match_def rx_mixed_def rx_simple_def rx_range_def rx_paren_def
  rx_amount_def rx_standard_def

lemmas num_ev = int_of_digits_def digits_value_def int_truediv_def float_of_int_def
  pyfloat_of_str_def float_literal_def exponent_of_def pow10_def trunc_def str_int_def
  fmt1_def fsub_def fzero_def

lemmas pf_ev = parse_fraction_def UNICODE_FRACTIONS_def str_ev re_ev num_ev rnd_ev

lemma third_val: "third = Fin (6004799503160661 / 18014398509481984)"
  by (simp add: third_def rnd_ev)

lemma two_thirds_val: "two_thirds = Fin (6004799503160661 / 9007199254740992)"
  by (simp add: two_thirds_def rnd_ev)

lemma tolerance_val: "tolerance = Fin (3602879701896397 / 72057594037927936)"
  by (simp add: tolerance_def rnd_ev)

lemmas fa_ev = format_amount_def DISPLAY_FRACTIONS_def third_val two_thirds_val tolerance_val
  num_ev str_ev rnd_ev

lemmas tw_ev = to_weight_def normalize_to_grams_per_cup_def TO_CUPS_def unit_lower_def
  num_ev str_ev

lemmas pv_ev = parse_volume_text_def paren_branch_def normalize_unit_def pf_ev

section \<open>The claims\<close>

subsection \<open>C1: \<open>parse_fraction\<close> and a zero denominator\<close>

text \<open>
  C1 says that \<open>parse_fraction\<close> never raises and that \<open>"1/0"\<close> yields the undefined
  value. The simple-fraction rule divides the two integers without looking at the
  denominator: on \<open>"1/0"\<close> the function raises \<open>ZeroDivisionError\<close>.
\<close>

theorem parse_fraction_zero_denominator_raises:
  "parse_fraction (ascii ''1/0'') = Inl ZeroDivisionError"
  by (simp add: pf_ev)

subsection \<open>C3: \<open>format_amount\<close> takes the first display fraction within tolerance\<close>

lemma display_loop_find:
  "display_loop tbl fr =
     map_option snd (find (\<lambda>(val, symbol). flt (fabs (fsub fr val)) tolerance) tbl)"
  by (induction tbl) auto

text \<open>
  C3 says that \<open>format_amount(1.52)\<close> is \<open>"1.5"\<close> because no display fraction lies within
  tolerance of the remainder. The float \<open>1.52\<close> is \<open>6845471433603154 / 2^52\<close>; its
  remainder \<open>0.52\<close> is within \<open>0.05\<close> of one half, so the loop returns the glyph of one
  half and the result is \<open>"1 \<onehalf>"\<close> (U+00BD).
\<close>

theorem format_amount_1_52_is_one_and_a_half:
  "format_amount (Some (Fin (6845471433603154 / 4503599627370496))) = Inr (ascii ''1 '' @ [189])
   \<and> format_amount (Some (Fin (6845471433603154 / 4503599627370496))) \<noteq> Inr (ascii ''1.5'')"
  by (simp add: fa_ev)

text \<open>
  C3 as amended: for every finite float, \<open>format_amount\<close> renders an integral value as
  the bare integer and otherwise the first entry of the table, in the order one quarter,
  one third, one half, two thirds, three quarters, one, three, five and seven eighths,
  whose value is within \<open>0.05\<close> of the fractional remainder (the first, not the closest:
  \<open>0.625\<close> renders as two thirds); it falls back to one decimal only when no entry is
  within tolerance. \<open>format_amount(1.5) = "1 \<onehalf>"\<close>, \<open>format_amount(0.25)\<close> is the
  glyph of one quarter, \<open>format_amount(2.0) = "2"\<close> and \<open>format_amount(1.52) = "1 \<onehalf>"\<close>.
\<close>

theorem format_amount_first_match:
  "format_amount (Some (Fin q)) =
     (if q = of_int (trunc q) then Inr (str_int (trunc q))
      else bind_err (float_of_int (trunc q)) (\<lambda>fb.
        case find (\<lambda>(val, symbol). flt (fabs (fsub (fsub (Fin q) fb) val)) tolerance)
               DISPLAY_FRACTIONS of
          Some (val, symbol) \<Rightarrow>
            Inr (if trunc q \<noteq> 0 then str_int (trunc q) @ [32] @ symbol else symbol)
        | None \<Rightarrow>
            Inr (if \<not> fzero (fmod1 (Fin q)) then fmt1 q else str_int (trunc q))))
   \<and> map snd DISPLAY_FRACTIONS = [[188], [8531], [189], [8532], [190], [8539], [8540], [8541], [8542]]
   \<and> format_amount (Some (Fin (3 / 2))) = Inr (ascii ''1 '' @ [189])
   \<and> format_amount (Some (Fin (1 / 4))) = Inr [188]
   \<and> format_amount (Some (Fin 2)) = Inr (ascii ''2'')
   \<and> rnd (152 / 100) = Fin (6845471433603154 / 4503599627370496)
   \<and> format_amount (Some (Fin (6845471433603154 / 4503599627370496))) = Inr (ascii ''1 '' @ [189])
   \<and> format_amount (Some (Fin (5 / 8))) = Inr [8532]"
proof -
  have gen: "format_amount (Some (Fin q)) =
     (if q = of_int (trunc q) then Inr (str_int (trunc q))
      else bind_err (float_of_int (trunc q)) (\<lambda>fb.
        case find (\<lambda>(val, symbol). flt (fabs (fsub (fsub (Fin q) fb) val)) tolerance)
               DISPLAY_FRACTIONS of
          Some (val, symbol) \<Rightarrow>
            Inr (if trunc q \<noteq> 0 then str_int (trunc q) @ [32] @ symbol else symbol)
        | None \<Rightarrow>
            Inr (if \<not> fzero (fmod1 (Fin q)) then fmt1 q else str_int (trunc q))))"
    by (cases "float_of_int (trunc q)")
       (auto simp: format_amount_def display_loop_find Let_def split: option.splits)
  have tbl: "map snd DISPLAY_FRACTIONS = [[188], [8531], [189], [8532], [190], [8539], [8540], [8541], [8542]]"
    by (simp add: DISPLAY_FRACTIONS_def)
  have e1: "format_amount (Some (Fin (3 / 2))) = Inr (ascii ''1 '' @ [189])"
    by (simp add: fa_ev)
  have e2: "format_amount (Some (Fin (1 / 4))) = Inr [188]"
    by (simp add: fa_ev)
  have e3: "format_amount (Some (Fin 2)) = Inr (ascii ''2'')"
    by (simp add: fa_ev)
  have e4: "rnd (152 / 100) = Fin (6845471433603154 / 4503599627370496)"
    by (simp add: rnd_ev)
  have e5: "format_amount (Some (Fin (6845471433603154 / 4503599627370496))) = Inr (ascii ''1 '' @ [189])"
    by (simp add: fa_ev)
  have e6: "format_amount (Some (Fin (5 / 8))) = Inr [8532]"
    by (simp add: fa_ev)
  show ?thesis
    using gen tbl e1 e2 e3 e4 e5 e6 by blast
qed

subsection \<open>C6: \<open>to_weight\<close>\<close>

lemma TO_CUPS_table:
  "map_of TO_CUPS k =
     (if k = ascii ''cup'' \<or> k = ascii ''cups'' then Some (Fin 1)
      else if k = ascii ''tbsp'' \<or> k = ascii ''tablespoon'' \<or> k = ascii ''tablespoons''
        then Some (Fin (1 / 16))
      else if k = ascii ''tsp'' \<or> k = ascii ''teaspoon'' \<or> k = ascii ''teaspoons''
        then Some (rnd (1 / 48))
      else None)"
  by (simp add: TO_CUPS_def ascii_def)

text \<open>
  C6 says that \<open>to_weight\<close> never raises. \<open>round\<close> raises \<open>OverflowError\<close> on an
  infinity (and \<open>ValueError\<close> on NaN), and the product is an infinity when a factor is
  one or when the multiplication overflows.
\<close>

theorem to_weight_inf_raises:
  "to_weight (Some PInf) (Some (ascii ''cup'')) (Some (Fin 1)) = Inl OverflowError"
  by (simp add: tw_ev)

text \<open>
  C6 as amended: \<open>to_weight(m, u, d)\<close> returns undefined, without raising, when \<open>m\<close> or
  \<open>d\<close> is absent or when \<open>u\<close> in lower case is not a key of the table (cup, cups: 1;
  tbsp, tablespoon, tablespoons: 1/16; tsp, teaspoon, teaspoons: the float 1/48).
  Otherwise it computes the float product \<open>(m * cups_per_unit(u)) * d\<close> and returns it
  rounded to the nearest integer, ties to even, when the product is finite; it raises
  \<open>OverflowError\<close> when the product is an infinity and \<open>ValueError\<close> when it is NaN.
  \<open>to_weight(2, "tbsp", 120) = 15\<close>, and \<open>to_weight(m, "unknown_unit", 100)\<close> is
  undefined for every \<open>m\<close>.
\<close>

theorem to_weight_spec:
  "to_weight None u d = Inr None
   \<and> to_weight m u None = Inr None
   \<and> (map_of TO_CUPS (unit_lower u) = None \<longrightarrow> to_weight m u d = Inr None)
   \<and> (map_of TO_CUPS (unit_lower u) = Some f \<longrightarrow>
        to_weight (Some a) u (Some g) =
          (case fmul (fmul a f) g of
             Fin q \<Rightarrow> Inr (Some (rhe q))
           | NaN \<Rightarrow> Inl ValueError
           | _ \<Rightarrow> Inl OverflowError))
   \<and> map_of TO_CUPS (unit_lower u) =
        (if lower (case u of None \<Rightarrow> [] | Some s \<Rightarrow> s) \<in> {ascii ''cup'', ascii ''cups''}
           then Some (Fin 1)
         else if lower (case u of None \<Rightarrow> [] | Some s \<Rightarrow> s)
                   \<in> {ascii ''tbsp'', ascii ''tablespoon'', ascii ''tablespoons''}
           then Some (Fin (1 / 16))
         else if lower (case u of None \<Rightarrow> [] | Some s \<Rightarrow> s)
                   \<in> {ascii ''tsp'', ascii ''teaspoon'', ascii ''teaspoons''}
           then Some (rnd (1 / 48))
         else None)
   \<and> to_weight (Some (Fin 2)) (Some (ascii ''tbsp'')) (Some (Fin 120)) = Inr (Some 15)
   \<and> to_weight (Some a) (Some (ascii ''unknown_unit'')) (Some (Fin 100)) = Inr None"
proof -
  have a1: "to_weight None u d = Inr None"
    by (simp add: to_weight_def)
  have a2: "to_weight m u None = Inr None"
    by (simp add: to_weight_def split: option.splits)
  have a3: "map_of TO_CUPS (unit_lower u) = None \<longrightarrow> to_weight m u d = Inr None"
    by (simp add: to_weight_def split: option.splits)
  have a4: "map_of TO_CUPS (unit_lower u) = Some f \<longrightarrow>
        to_weight (Some a) u (Some g) =
          (case fmul (fmul a f) g of
             Fin q \<Rightarrow> Inr (Some (rhe q))
           | NaN \<Rightarrow> Inl ValueError
           | _ \<Rightarrow> Inl OverflowError)"
    by (cases "fmul (fmul a f) g") (simp_all add: to_weight_def)
  have a5: "map_of TO_CUPS (unit_lower u) =
        (if lower (case u of None \<Rightarrow> [] | Some s \<Rightarrow> s) \<in> {ascii ''cup'', ascii ''cups''}
           then Some (Fin 1)
         else if lower (case u of None \<Rightarrow> [] | Some s \<Rightarrow> s)
                   \<in> {ascii ''tbsp'', ascii ''tablespoon'', ascii ''tablespoons''}
           then Some (Fin (1 / 16))
         else if lower (case u of None \<Rightarrow> [] | Some s \<Rightarrow> s)
                   \<in> {ascii ''tsp'', ascii ''teaspoon'', ascii ''teaspoons''}
           then Some (rnd (1 / 48))
         else None)"
    by (cases u) (simp_all add: TO_CUPS_table unit_lower_def lower_def)
  have a6: "to_weight (Some (Fin 2)) (Some (ascii ''tbsp'')) (Some (Fin 120)) = Inr (Some 15)"
    by (simp add: tw_ev rnd_ev)
  have a7: "to_weight (Some a) (Some (ascii ''unknown_unit'')) (Some (Fin 100)) = Inr None"
    by (simp add: tw_ev)
  show ?thesis
    using a1 a2 a3 a4 a5 a6 a7 by blast
qed

theorem to_weight_spec_witness:
  "map_of TO_CUPS (unit_lower (Some (ascii ''TBSP''))) = Some (Fin (1 / 16))
   \<and> to_weight (Some (Fin 3)) (Some (ascii ''TBSP'')) (Some (Fin 120)) = Inr (Some 22)
   \<and> map_of TO_CUPS (unit_lower (Some (ascii ''oz''))) = None
   \<and> to_weight (Some (Fin 3)) (Some (ascii ''oz'')) (Some (Fin 120)) = Inr None"
proof -
  have k: "map_of TO_CUPS (unit_lower (Some (ascii ''TBSP''))) = Some (Fin (1 / 16))"
    by (simp add: TO_CUPS_def unit_lower_def str_ev)
  have n: "map_of TO_CUPS (unit_lower (Some (ascii ''oz''))) = None"
    by (simp add: TO_CUPS_def unit_lower_def str_ev)
  from k to_weight_spec[of "Some (ascii ''TBSP'')" "None" "None" "Fin (1 / 16)" "Fin 3" "Fin 120"]
  have "to_weight (Some (Fin 3)) (Some (ascii ''TBSP'')) (Some (Fin 120)) =
          (case fmul (fmul (Fin 3) (Fin (1 / 16))) (Fin 120) of
             Fin q \<Rightarrow> Inr (Some (rhe q))
           | NaN \<Rightarrow> Inl ValueError
           | _ \<Rightarrow> Inl OverflowError)"
    by blast
  also have "\<dots> = Inr (Some 22)"
    by (simp add: rnd_ev)
  finally have w: "to_weight (Some (Fin 3)) (Some (ascii ''TBSP'')) (Some (Fin 120)) = Inr (Some 22)" .
  from n to_weight_spec[of "Some (ascii ''oz'')" "Some (Fin 120)" "Some (Fin 3)"]
  have z: "to_weight (Some (Fin 3)) (Some (ascii ''oz'')) (Some (Fin 120)) = Inr None"
    by blast
  show ?thesis
    using k w n z by blast
qed

section \<open>Facts about strings and patterns\<close>

text \<open>A match of a pattern has one captured string for each group of the pattern.\<close>

lemma mrx_ngroups: "(gs, u) \<in> set (mrx p s) \<Longrightarrow> length gs = ngroups p"
proof (induction p arbitrary: s gs u)
  case Nil
  then show ?case by simp
next
  case (Cons x p)
  show ?case
  proof (cases x)
    case (I it)
    with Cons.prems obtain t where "(gs, u) \<in> set (mrx p t)"
      by auto
    with Cons.IH I show ?thesis by simp
  next
    case (Grp its)
    with Cons.prems obtain t g gs' where "gs = g # gs'" "(gs', u) \<in> set (mrx p t)"
      by auto
    with Cons.IH Grp show ?thesis by simp
  qed
qed

lemma re_match_ngroups: "re_match p s = Some gs \<Longrightarrow> length gs = ngroups p"
proof -
  assume a: "re_match p s = Some gs"
  then obtain u ms where "mrx p s = (gs, u) # ms"
    by (auto simp: re_match_def split: list.splits)
  then have "(gs, u) \<in> set (mrx p s)" by simp
  then show ?thesis by (rule mrx_ngroups)
qed

lemma re_search_ngroups: "re_search p s = Some gs \<Longrightarrow> length gs = ngroups p"
  by (induction s) (auto dest: re_match_ngroups split: option.splits)

lemma len2: "length gs = Suc (Suc 0) \<Longrightarrow> \<exists>a b. gs = [a, b]"
  by (cases gs; cases "tl gs") auto


lemma rx_range_groups: "re_match rx_range s = Some gs \<Longrightarrow> \<exists>a b. gs = [a, b]"
  by (rule len2, drule re_match_ngroups) (simp add: rx_range_def)

text \<open>\<open>strip\<close> keeps every character that is not white space, adds none, and is idempotent.\<close>

lemma dropWhile_keeps: "x \<in> set xs \<Longrightarrow> \<not> P x \<Longrightarrow> x \<in> set (dropWhile P xs)"
  by (induction xs) auto

lemma strip_keeps: "c \<in> set s \<Longrightarrow> \<not> is_space c \<Longrightarrow> c \<in> set (strip s)"
  by (simp add: strip_def dropWhile_keeps)

lemma strip_subset: "set (strip s) \<subseteq> set s"
proof -
  have "set (dropWhile is_space (rev (dropWhile is_space s))) \<subseteq> set (rev (dropWhile is_space s))"
    by (meson set_dropWhileD subsetI)
  also have "\<dots> \<subseteq> set s"
    by (auto dest: set_dropWhileD)
  finally show ?thesis by (simp add: strip_def)
qed

lemma strip_prefix: "dropWhile is_space s = strip s @ rev (takeWhile is_space (rev (dropWhile is_space s)))"
  unfolding strip_def by (metis rev_append rev_rev_ident takeWhile_dropWhile_id)

lemma strip_hd: "strip s \<noteq> [] \<Longrightarrow> \<not> is_space (hd (strip s))"
proof -
  assume ne: "strip s \<noteq> []"
  have p: "dropWhile is_space s = strip s @ rev (takeWhile is_space (rev (dropWhile is_space s)))"
    by (rule strip_prefix)
  from ne p have "hd (dropWhile is_space s) = hd (strip s)"
    by (metis hd_append2)
  moreover from ne p have "dropWhile is_space s \<noteq> []"
    by (metis append_is_Nil_conv)
  ultimately show ?thesis
    using hd_dropWhile by metis
qed

lemma strip_strip [simp]: "strip (strip s) = strip s"
proof -
  have a: "dropWhile is_space (strip s) = strip s"
    using strip_hd[of s] by (auto simp: dropWhile_eq_self_iff)
  have "strip (strip s) = rev (dropWhile is_space (rev (dropWhile is_space (strip s))))"
    by (simp add: strip_def)
  also have "\<dots> = rev (dropWhile is_space (rev (strip s)))"
    by (simp add: a)
  also have "\<dots> = strip s"
    by (simp add: strip_def)
  finally show ?thesis .
qed

lemma parse_fraction_strip [simp]: "parse_fraction (strip t) = parse_fraction t"
  by (simp add: parse_fraction_def)

subsection \<open>C9: the two results of \<open>parse_volume_text\<close>\<close>




subsection \<open>C8: \<open>parse_range\<close>\<close>

text \<open>
  C8 says that \<open>parse_range\<close> returns the mean when both sides parse and hands the whole
  string to \<open>parse_fraction\<close> otherwise; \<open>parse_range("121 to 150") = 135.5\<close>,
  \<open>parse_range("140") = 140.0\<close> and \<open>parse_range("abc to 10")\<close> is undefined. On
  \<open>"1/0 to 2"\<close> the left side does not parse: \<open>parse_fraction("1/0")\<close> raises
  \<open>ZeroDivisionError\<close> (the defect of C1), \<open>parse_range\<close> calls it outside any \<open>try\<close> and
  raises too, where \<open>parse_fraction\<close> of the whole string is undefined.
\<close>

theorem parse_range_zero_denominator_raises:
  "parse_range (ascii ''1/0 to 2'') = Inl ZeroDivisionError
   \<and> parse_fraction (ascii ''1/0'') = Inl ZeroDivisionError
   \<and> parse_fraction (ascii ''1/0 to 2'') = Inr None
   \<and> parse_range (ascii ''121 to 150'') = Inr (Some (Fin (271 / 2)))
   \<and> parse_range (ascii ''140'') = Inr (Some (Fin 140))
   \<and> parse_range (ascii ''abc to 10'') = Inr None"
proof -
  have a: "parse_range (ascii ''1/0 to 2'') = Inl ZeroDivisionError"
    by (simp add: parse_range_def pf_ev)
  have b: "parse_fraction (ascii ''1/0'') = Inl ZeroDivisionError"
    by (simp add: pf_ev)
  have c: "parse_fraction (ascii ''1/0 to 2'') = Inr None"
    by (simp add: pf_ev)
  have e1: "parse_range (ascii ''121 to 150'') = Inr (Some (Fin (271 / 2)))"
    by (simp add: parse_range_def pf_ev)
  have e2: "parse_range (ascii ''140'') = Inr (Some (Fin 140))"
    by (simp add: parse_range_def pf_ev)
  have e3: "parse_range (ascii ''abc to 10'') = Inr None"
    by (simp add: parse_range_def pf_ev)
  from a b c e1 e2 e3 show ?thesis by simp
qed

subsection \<open>C5: the parenthetical cup amount of \<open>parse_volume_text\<close>\<close>

text \<open>
  C5 says that a parenthetical clause that begins with a parseable amount followed by
  \<open>cup\<close> is preferred to the primary clause, and so does the docstring of
  \<open>parse_volume_text\<close> (the function prefers the cup measurement if a parenthetical cup
  is present). The amount pattern
  of the parenthetical branch has no decimal point, where the pattern of the standard
  branch has one: in \<open>"8 tablespoons (0.5 cup)"\<close> the clause starts with \<open>0.5\<close>, which
  \<open>parse_fraction\<close> reads as \<open>0.5\<close>, and the function returns the primary clause,
  \<open>(8.0, "tablespoons")\<close>. The two examples of the claim hold, and so does a
  parenthetical amount in digits of another script (\<open>"8 tbsp (3 Cup)"\<close> with the
  Arabic-Indic three, U+0663).
\<close>

theorem parse_volume_text_decimal_parenthetical:
  "parse_volume_text (ascii ''8 tablespoons (0.5 cup)'')
     = Inr (Some (Fin 8), Some (ascii ''tablespoons''))
   \<and> parse_fraction (ascii ''0.5'') = Inr (Some (Fin (1 / 2)))
   \<and> re_search rx_paren (ascii ''8 tablespoons (0.5 cup)'') = Some [ascii ''0.5 cup'']
   \<and> re_match rx_amount (ascii ''0.5 cup'') = None
   \<and> parse_volume_text (ascii ''8 tablespoons (1/2 cup)'')
       = Inr (Some (Fin (1 / 2)), Some (ascii ''cup''))
   \<and> parse_volume_text (ascii ''1/4 cup'') = Inr (Some (Fin (1 / 4)), Some (ascii ''cup''))
   \<and> parse_volume_text (ascii ''8 tbsp ('' @ [1635] @ ascii '' Cup)'')
       = Inr (Some (Fin 3), Some (ascii ''cup''))"
proof -
  have a: "parse_volume_text (ascii ''8 tablespoons (0.5 cup)'')
     = Inr (Some (Fin 8), Some (ascii ''tablespoons''))"
    by (simp add: pv_ev)
  have b: "parse_fraction (ascii ''0.5'') = Inr (Some (Fin (1 / 2)))"
    by (simp add: pf_ev)
  have c: "re_search rx_paren (ascii ''8 tablespoons (0.5 cup)'') = Some [ascii ''0.5 cup'']"
    by (simp add: str_ev re_ev)
  have d: "re_match rx_amount (ascii ''0.5 cup'') = None"
    by (simp add: str_ev re_ev)
  have e1: "parse_volume_text (ascii ''8 tablespoons (1/2 cup)'')
       = Inr (Some (Fin (1 / 2)), Some (ascii ''cup''))"
    by (simp add: pv_ev)
  have e2: "parse_volume_text (ascii ''1/4 cup'') = Inr (Some (Fin (1 / 4)), Some (ascii ''cup''))"
    by (simp add: pv_ev)
  have e3: "parse_volume_text (ascii ''8 tbsp ('' @ [1635] @ ascii '' Cup)'')
       = Inr (Some (Fin 3), Some (ascii ''cup''))"
    by (simp add: pv_ev decimal_ev)
  from a b c d e1 e2 e3 show ?thesis by simp
qed

subsection \<open>C10: the glyph rule of \<open>parse_fraction\<close>\<close>

lemma glyph_loop_find:
  "glyph_loop tbl text =
     map_option (\<lambda>(uf, val).
         if strip (filter (\<lambda>c. c \<noteq> uf) text) = [] then Inr (fadd (Fin 0) val)
         else bind_err (pyfloat_of_str (strip (filter (\<lambda>c. c \<noteq> uf) text)))
                (\<lambda>base. Inr (fadd base val)))
       (find (\<lambda>(uf, val). uf \<in> set text) tbl)"
  by (induction tbl) (auto simp: Let_def)

lemma glyph_values_exact:
  "(uf, val) \<in> set UNICODE_FRACTIONS \<Longrightarrow> fadd (Fin 0) val = val"
  by (auto simp: UNICODE_FRACTIONS_def third_val two_thirds_val rnd_ev)

lemma glyph_in_table: "is_glyph c \<Longrightarrow> c \<in> fst ` set UNICODE_FRACTIONS"
  by (auto simp: is_glyph_def UNICODE_FRACTIONS_def)

lemma glyph_not_space: "is_glyph c \<Longrightarrow> \<not> is_space c"
  by (auto simp: is_glyph_def is_space_def)

lemma find_glyph:
  "c \<in> set t \<Longrightarrow> is_glyph c \<Longrightarrow>
     find (\<lambda>(uf, val). uf \<in> set (strip t)) UNICODE_FRACTIONS \<noteq> None"
proof -
  assume c: "c \<in> set t" and g: "is_glyph c"
  then have "c \<in> set (strip t)"
    by (simp add: strip_keeps glyph_not_space)
  moreover from g obtain v where "(c, v) \<in> set UNICODE_FRACTIONS"
    using glyph_in_table by fastforce
  ultimately show ?thesis
    by (auto simp: find_None_iff)
qed

text \<open>
  C10 says that the text left after the glyph is parsed as an integer whole part. It is
  parsed by \<open>float\<close>: \<open>"1.5 \<onehalf>"\<close> gives \<open>1.5 + 0.5 = 2.0\<close>, which is no integer
  plus one half.
\<close>

theorem parse_fraction_glyph_with_decimal:
  "parse_fraction (ascii ''1.5 '' @ [189]) = Inr (Some (Fin 2))"
  by (simp add: pf_ev)

text \<open>
  C10 as amended: a text that contains one of the nine glyphs is handled by the glyph
  rule, before any other rule. The rule takes the first glyph of the table, in the order
  of the table, that occurs in the stripped text, removes every occurrence of it, and
  strips what is left; when nothing is left it returns the value of the glyph, and when
  \<open>float\<close> reads what is left as \<open>base\<close> it returns the float \<open>base + value\<close>.
  \<open>parse_fraction("\<threequarters>") = 0.75\<close> and \<open>parse_fraction("1 \<threequarters>") = 1.75\<close>.
\<close>

theorem parse_fraction_glyph_rule:
  "(c \<in> set t \<and> is_glyph c \<longrightarrow>
      find (\<lambda>(uf, val). uf \<in> set (strip t)) UNICODE_FRACTIONS \<noteq> None)
   \<and> (find (\<lambda>(uf, val). uf \<in> set (strip t)) UNICODE_FRACTIONS = Some (uf, val)
        \<and> strip (filter (\<lambda>c. c \<noteq> uf) (strip t)) = [] \<longrightarrow>
      parse_fraction t = Inr (Some val))
   \<and> (find (\<lambda>(uf, val). uf \<in> set (strip t)) UNICODE_FRACTIONS = Some (uf, val)
        \<and> strip (filter (\<lambda>c. c \<noteq> uf) (strip t)) \<noteq> []
        \<and> pyfloat_of_str (strip (filter (\<lambda>c. c \<noteq> uf) (strip t))) = Inr base \<longrightarrow>
      parse_fraction t = Inr (Some (fadd base val)))
   \<and> UNICODE_FRACTIONS =
        [(188, Fin (1 / 4)), (189, Fin (1 / 2)), (190, Fin (3 / 4)),
         (8531, rnd (1 / 3)), (8532, rnd (2 / 3)),
         (8539, Fin (1 / 8)), (8540, Fin (3 / 8)), (8541, Fin (5 / 8)), (8542, Fin (7 / 8))]
   \<and> parse_fraction [190] = Inr (Some (Fin (3 / 4)))
   \<and> parse_fraction (ascii ''1 '' @ [190]) = Inr (Some (Fin (7 / 4)))"
proof -
  have a: "c \<in> set t \<and> is_glyph c \<longrightarrow>
      find (\<lambda>(uf, val). uf \<in> set (strip t)) UNICODE_FRACTIONS \<noteq> None"
    using find_glyph by blast
  have b: "find (\<lambda>(uf, val). uf \<in> set (strip t)) UNICODE_FRACTIONS = Some (uf, val)
        \<and> strip (filter (\<lambda>c. c \<noteq> uf) (strip t)) = [] \<longrightarrow>
      parse_fraction t = Inr (Some val)"
  proof (intro impI, elim conjE)
    assume f: "find (\<lambda>(uf, val). uf \<in> set (strip t)) UNICODE_FRACTIONS = Some (uf, val)"
      and e: "strip (filter (\<lambda>c. c \<noteq> uf) (strip t)) = []"
    from f have "(uf, val) \<in> set UNICODE_FRACTIONS"
      by (metis find_Some_iff nth_mem)
    then have "fadd (Fin 0) val = val"
      by (rule glyph_values_exact)
    with f e show "parse_fraction t = Inr (Some val)"
      by (simp add: parse_fraction_def glyph_loop_find)
  qed
  have c: "find (\<lambda>(uf, val). uf \<in> set (strip t)) UNICODE_FRACTIONS = Some (uf, val)
        \<and> strip (filter (\<lambda>c. c \<noteq> uf) (strip t)) \<noteq> []
        \<and> pyfloat_of_str (strip (filter (\<lambda>c. c \<noteq> uf) (strip t))) = Inr base \<longrightarrow>
      parse_fraction t = Inr (Some (fadd base val))"
    by (simp add: parse_fraction_def glyph_loop_find)
  have d: "UNICODE_FRACTIONS =
        [(188, Fin (1 / 4)), (189, Fin (1 / 2)), (190, Fin (3 / 4)),
         (8531, rnd (1 / 3)), (8532, rnd (2 / 3)),
         (8539, Fin (1 / 8)), (8540, Fin (3 / 8)), (8541, Fin (5 / 8)), (8542, Fin (7 / 8))]"
    by (simp add: UNICODE_FRACTIONS_def third_def two_thirds_def)
  have e1: "parse_fraction [190] = Inr (Some (Fin (3 / 4)))"
    by (simp add: pf_ev)
  have e2: "parse_fraction (ascii ''1 '' @ [190]) = Inr (Some (Fin (7 / 4)))"
    by (simp add: pf_ev)
  show ?thesis
    using a b c d e1 e2 by blast
qed

text \<open>
  The witness: two thirds after \<open>2\<close>, one half alone, and one half after the
  Arabic-Indic digit three (U+0663), which \<open>float\<close> reads as \<open>3.0\<close>.
\<close>

theorem parse_fraction_glyph_rule_witness:
  "8531 \<in> set (ascii ''2 '' @ [8531]) \<and> is_glyph 8531
   \<and> find (\<lambda>(uf, val). uf \<in> set (strip (ascii ''2 '' @ [8531]))) UNICODE_FRACTIONS
       = Some (8531, third)
   \<and> strip (filter (\<lambda>c. c \<noteq> 8531) (strip (ascii ''2 '' @ [8531]))) = ascii ''2''
   \<and> pyfloat_of_str (ascii ''2'') = Inr (Fin 2)
   \<and> parse_fraction (ascii ''2 '' @ [8531]) = Inr (Some (fadd (Fin 2) third))
   \<and> find (\<lambda>(uf, val). uf \<in> set (strip [189])) UNICODE_FRACTIONS = Some (189, Fin (1 / 2))
   \<and> strip (filter (\<lambda>c. c \<noteq> 189) (strip [189])) = []
   \<and> parse_fraction [189] = Inr (Some (Fin (1 / 2)))
   \<and> find (\<lambda>(uf, val). uf \<in> set (strip [1635, 189])) UNICODE_FRACTIONS
       = Some (189, Fin (1 / 2))
   \<and> strip (filter (\<lambda>c. c \<noteq> 189) (strip [1635, 189])) = [1635]
   \<and> pyfloat_of_str [1635] = Inr (Fin 3)
   \<and> parse_fraction [1635, 189] = Inr (Some (Fin (7 / 2)))"
proof -
  have g: "8531 \<in> set (ascii ''2 '' @ [8531]) \<and> is_glyph 8531"
    by (simp add: is_glyph_def)
  have f: "find (\<lambda>(uf, val). uf \<in> set (strip (ascii ''2 '' @ [8531]))) UNICODE_FRACTIONS
       = Some (8531, third)"
    by (simp add: UNICODE_FRACTIONS_def str_ev)
  have r: "strip (filter (\<lambda>c. c \<noteq> 8531) (strip (ascii ''2 '' @ [8531]))) = ascii ''2''"
    by (simp add: str_ev)
  have p: "pyfloat_of_str (ascii ''2'') = Inr (Fin 2)"
    by (simp add: str_ev num_ev rnd_ev)
  have ne: "ascii ''2'' \<noteq> []"
    by (simp add: ascii_def)
  from parse_fraction_glyph_rule[of 8531 "ascii ''2 '' @ [8531]" 8531 third "Fin 2"] f r p ne
  have w: "parse_fraction (ascii ''2 '' @ [8531]) = Inr (Some (fadd (Fin 2) third))"
    by simp
  have f2: "find (\<lambda>(uf, val). uf \<in> set (strip [189])) UNICODE_FRACTIONS = Some (189, Fin (1 / 2))"
    by (simp add: UNICODE_FRACTIONS_def str_ev)
  have r2: "strip (filter (\<lambda>c. c \<noteq> 189) (strip [189])) = []"
    by (simp add: str_ev)
  from parse_fraction_glyph_rule[of 189 "[189]" 189 "Fin (1 / 2)"] f2 r2
  have w2: "parse_fraction [189] = Inr (Some (Fin (1 / 2)))"
    by simp
  have f3: "find (\<lambda>(uf, val). uf \<in> set (strip [1635, 189])) UNICODE_FRACTIONS
       = Some (189, Fin (1 / 2))"
    by (simp add: UNICODE_FRACTIONS_def str_ev)
  have r3: "strip (filter (\<lambda>c. c \<noteq> 189) (strip [1635, 189])) = [1635]"
    by (simp add: str_ev)
  have p3: "pyfloat_of_str [1635] = Inr (Fin 3)"
    by (simp add: str_ev num_ev rnd_ev decimal_ev)
  have s3: "fadd (Fin 3) (Fin (1 / 2)) = Fin (7 / 2)"
    by (simp add: rnd_ev)
  from parse_fraction_glyph_rule[of 189 "[1635, 189]" 189 "Fin (1 / 2)" "Fin 3"] f3 r3 p3 s3
  have w3: "parse_fraction [1635, 189] = Inr (Some (Fin (7 / 2)))"
    by simp
  show ?thesis
    using g f r p w f2 r2 w2 f3 r3 p3 w3 by simp
qed

section \<open>Facts about rounding\<close>

text \<open>
  The exponent \<open>flog2\<close> brackets a positive rational between two powers of two, and
  \<open>rhe\<close> is within one half of its argument; a sum, quotient or parsed literal of
  numbers that are not negative is not negative.
\<close>

lemma ilog2_nonneg: "0 \<le> ilog2 n"
proof (induction n rule: ilog2.induct)
  case (1 n)
  then show ?case
    by (subst ilog2.simps) auto
qed

lemma ilog2_bounds: "1 \<le> n \<Longrightarrow> 2 ^ nat (ilog2 n) \<le> n \<and> n < 2 * 2 ^ nat (ilog2 n)"
proof (induction n rule: ilog2.induct)
  case (1 n)
  show ?case
  proof (cases "n \<le> 1")
    case True
    with "1.prems" have "n = 1" by simp
    then show ?thesis
      by (simp add: ilog2.simps[of 1])
  next
    case False
    then have h: "1 \<le> n div 2" by simp
    define k where "k = nat (ilog2 (n div 2))"
    from "1.IH"[OF False h] have ih: "2 ^ k \<le> n div 2" "n div 2 < 2 * 2 ^ k"
      by (simp_all add: k_def)
    from False have e: "ilog2 n = 1 + ilog2 (n div 2)"
      by (subst ilog2.simps) simp
    have n: "nat (ilog2 n) = Suc k"
      using ilog2_nonneg[of "n div 2"] by (simp add: e k_def)
    from ih have "2 * 2 ^ k \<le> n" "n < 2 * (2 * 2 ^ k)"
      by linarith+
    then show ?thesis
      by (simp add: n)
  qed
qed

lemma pow2_powi: "pow2 e = 2 powi e"
  by (simp add: pow2_def power_int_def inverse_eq_divide power_one_over)

lemma pow2_pos [simp]: "0 < pow2 e"
  by (simp add: pow2_powi)

lemma pow2_add: "pow2 (a + b) = pow2 a * pow2 b"
  by (simp add: pow2_powi power_int_add)

lemma pow2_mono: "a \<le> b \<Longrightarrow> pow2 a \<le> pow2 b"
  by (simp add: pow2_powi power_int_increasing)

lemma pow2_strict_mono: "a < b \<Longrightarrow> pow2 a < pow2 b"
  by (simp add: pow2_powi power_int_strict_increasing)

lemma pow2_nat: "pow2 (int n) = 2 ^ n"
  by (simp add: pow2_def)

lemma flog2_bounds:
  assumes "0 < q"
  shows "pow2 (flog2 q) \<le> q \<and> q < pow2 (flog2 q + 1)"
proof (cases "1 \<le> q")
  case True
  define n where "n = nat \<lfloor>q\<rfloor>"
  from True have n1: "1 \<le> n" by (simp add: n_def le_nat_iff)
  have fl: "flog2 q = ilog2 n"
    using True by (simp add: flog2_def n_def)
  define k where "k = nat (ilog2 n)"
  have ik: "ilog2 n = int k"
    using ilog2_nonneg[of n] by (simp add: k_def)
  from ilog2_bounds[OF n1] have b: "2 ^ k \<le> n" "n < 2 * 2 ^ k"
    by (simp_all add: k_def)
  have nq: "rat_of_nat n \<le> q" "q < rat_of_nat n + 1"
    using True by (simp_all add: n_def) linarith+
  from b have "(2::rat) ^ k \<le> rat_of_nat n"
    by (metis of_nat_le_iff of_nat_numeral of_nat_power)
  with nq have "(2::rat) ^ k \<le> q"
    by linarith
  then have lo: "pow2 (flog2 q) \<le> q"
    by (simp add: fl ik pow2_nat)
  from b have "n + 1 \<le> 2 * 2 ^ k" by simp
  then have "rat_of_nat (n + 1) \<le> rat_of_nat (2 * 2 ^ k)"
    using of_nat_le_iff by blast
  then have "rat_of_nat n + 1 \<le> 2 * 2 ^ k" by simp
  with nq have "q < 2 * 2 ^ k" by linarith
  moreover have "pow2 (flog2 q + 1) = 2 * 2 ^ k"
    by (simp add: fl ik pow2_def nat_add_distrib)
  ultimately have hi: "q < pow2 (flog2 q + 1)"
    by simp
  from lo hi show ?thesis by simp
next
  case False
  define x where "x = 1 / q"
  from False assms have x1: "1 < x" by (simp add: x_def)
  define n where "n = nat (\<lceil>x\<rceil> - 1)"
  have c2: "2 \<le> \<lceil>x\<rceil>" using x1 by linarith
  then have n1: "1 \<le> n" unfolding n_def by linarith
  have "rat_of_nat n = of_int (\<lceil>x\<rceil> - 1)"
  unfolding n_def using c2 by (metis diff_ge_0_iff_ge of_int_of_nat_eq int_nat_eq order_trans
  one_le_numeral)
  then have nx: "rat_of_nat n < x" "x \<le> rat_of_nat n + 1"
    by (simp_all) linarith+
  have fl: "flog2 q = - (1 + ilog2 n)"
    using False by (simp add: flog2_def n_def x_def)
  define k where "k = nat (ilog2 n)"
  have ik: "ilog2 n = int k"
    using ilog2_nonneg[of n] by (simp add: k_def)
  from ilog2_bounds[OF n1] have b: "2 ^ k \<le> n" "n < 2 * 2 ^ k"
    by (simp_all add: k_def)
  from b have b1: "(2::rat) ^ k \<le> rat_of_nat n"
    by (metis of_nat_le_iff of_nat_numeral of_nat_power)
  from b have "n + 1 \<le> 2 * 2 ^ k" by simp
  then have "rat_of_nat (n + 1) \<le> rat_of_nat (2 * 2 ^ k)"
    using of_nat_le_iff by blast
  then have b2: "rat_of_nat n + 1 \<le> 2 * 2 ^ k" by simp
  have xq: "q = 1 / x" by (simp add: x_def)
  from nx b2 have "x \<le> 2 * 2 ^ k" by linarith
  then have lo: "1 / (2 * 2 ^ k) \<le> q"
    using x1 by (simp add: xq frac_le)
  from nx b1 have "2 ^ k < x" by linarith
  then have hi: "q < 1 / 2 ^ k"
    by (simp add: xq frac_less2)
  have p1: "pow2 (flog2 q) = 1 / (2 * 2 ^ k)"
    by (simp add: fl ik pow2_def nat_add_distrib)
  have p2: "pow2 (flog2 q + 1) = 1 / 2 ^ k"
    by (simp add: fl ik pow2_def)
  from lo hi p1 p2 show ?thesis by simp
qed

lemma flog2_unique:
  assumes "0 < q" "pow2 e \<le> q" "q < pow2 (e + 1)"
  shows "flog2 q = e"
proof -
  from flog2_bounds[OF assms(1)] have b: "pow2 (flog2 q) \<le> q" "q < pow2 (flog2 q + 1)"
    by simp_all
  have "\<not> flog2 q < e"
  proof
    assume "flog2 q < e"
    then have "pow2 (flog2 q + 1) \<le> pow2 e" by (simp add: pow2_mono)
    with b assms show False by linarith
  qed
  moreover have "\<not> e < flog2 q"
  proof
    assume "e < flog2 q"
    then have "pow2 (e + 1) \<le> pow2 (flog2 q)" by (simp add: pow2_mono)
    with b assms show False by linarith
  qed
  ultimately show ?thesis by simp
qed

lemma flog2_less: "0 < q \<Longrightarrow> q < pow2 e \<Longrightarrow> flog2 q < e"
proof (rule ccontr)
  assume q: "0 < q" "q < pow2 e" and "\<not> flog2 q < e"
  then have "pow2 e \<le> pow2 (flog2 q)" by (simp add: pow2_mono)
  with flog2_bounds[OF q(1)] q show False by linarith
qed

lemma flog2_ge: "0 < q \<Longrightarrow> pow2 e \<le> q \<Longrightarrow> e \<le> flog2 q"
proof (rule ccontr)
  assume q: "0 < q" "pow2 e \<le> q" and "\<not> e \<le> flog2 q"
  then have "pow2 (flog2 q + 1) \<le> pow2 e" by (simp add: pow2_mono)
  with flog2_bounds[OF q(1)] q show False by linarith
qed

lemma rhe_bound: "\<bar>of_int (rhe x) - x\<bar> \<le> 1 / 2"
proof -
  have f: "rat_of_int \<lfloor>x\<rfloor> \<le> x" "x < rat_of_int \<lfloor>x\<rfloor> + 1"
    by linarith+
  consider "x - rat_of_int \<lfloor>x\<rfloor> < 1 / 2" | "1 / 2 < x - rat_of_int \<lfloor>x\<rfloor>"
    | "x - rat_of_int \<lfloor>x\<rfloor> = 1 / 2"
    by linarith
  then show ?thesis
  proof cases
    case 1
    then have "rhe x = \<lfloor>x\<rfloor>" by (simp add: rhe_def Let_def)
    with 1 f show ?thesis by simp
  next
    case 2
    then have "rhe x = \<lfloor>x\<rfloor> + 1" by (simp add: rhe_def Let_def)
    with 2 f show ?thesis by simp
  next
    case 3
    then have "rhe x = \<lfloor>x\<rfloor> \<or> rhe x = \<lfloor>x\<rfloor> + 1" by (simp add: rhe_def Let_def)
    with 3 f show ?thesis by auto
  qed
qed

lemma rhe_of_int [simp]: "rhe (of_int k) = k"
  by (simp add: rhe_def)

lemma rhe_nonneg: "0 \<le> x \<Longrightarrow> 0 \<le> rhe x"
  unfolding rhe_def Let_def by (auto simp: zero_le_floor) 

lemma quantum_pos [simp]: "0 < quantum q"
  by (simp add: quantum_def)

lemma not_negative_simps [simp]:
  "not_negative (Fin q) = (0 \<le> q)"
  "not_negative PInf"
  "not_negative NaN"
  "\<not> not_negative NInf"
  by (auto simp: not_negative_def)

lemma rnd_nonneg: "0 \<le> q \<Longrightarrow> not_negative (rnd q)"
proof -
  assume q: "0 \<le> q"
  then have "0 \<le> q / quantum q"
    using quantum_pos[of q] by (simp add: divide_nonneg_pos)
  then have "0 \<le> rhe (q / quantum q)" by (rule rhe_nonneg)
  then have "0 \<le> rat_of_int (rhe (q / quantum q)) * quantum q"
    using quantum_pos[of q] by (simp add: mult_nonneg_nonneg less_imp_le)
  then show ?thesis
    by (auto simp: rnd_def Let_def)
qed

lemma pow10_pos [simp]: "0 < pow10 e"
  by (simp add: pow10_def)

lemma rnd_decimal_nonneg [simp]: "not_negative (rnd (rat_of_nat n * pow10 e))"
  using pow10_pos[of e] by (intro rnd_nonneg mult_nonneg_nonneg) (simp_all add: less_imp_le)

lemma float_literal_nonneg: "float_literal s = Some x \<Longrightarrow> not_negative x"
  by (auto simp: float_literal_def Let_def split: if_splits list.splits option.splits)

lemma drop_underscores_subset: "drop_underscores prev s = Some t \<Longrightarrow> set t \<subseteq> set s"
proof (induction s arbitrary: prev t)
  case Nil
  then show ?case by (simp split: if_splits)
next
  case (Cons c cs)
  show ?case
  proof (cases "c = 95")
    case True
    with Cons.prems have "drop_underscores c cs = Some t"
      by (simp split: if_splits)
    with Cons.IH have "set t \<subseteq> set cs" by blast
    then show ?thesis by auto
  next
    case False
    with Cons.prems obtain z where "drop_underscores c cs = Some z" "t = c # z"
      by (auto split: if_splits)
    with Cons.IH[of c z] show ?thesis by auto
  qed
qed

lemma float_strip_subset: "set (float_strip s) \<subseteq> set s"
proof -
  have "set (dropWhile float_space (rev (dropWhile float_space s))) \<subseteq> set (rev (dropWhile float_space s))"
    by (meson set_dropWhileD subsetI)
  also have "\<dots> \<subseteq> set s"
    by (auto dest: set_dropWhileD)
  finally show ?thesis by (simp add: float_strip_def)
qed

lemma float_ascii_minus: "45 \<in> set (float_ascii s) \<Longrightarrow> 45 \<in> set s"
  by (induction s) (auto split: if_splits option.splits)

lemma pyfloat_of_str_nonneg:
  assumes "45 \<notin> set s" "pyfloat_of_str s = Inr x"
  shows "not_negative x"
proof -
  from assms(2) obtain t where t: "drop_underscores 0 (float_strip (float_ascii s)) = Some t"
    by (auto simp: pyfloat_of_str_def split: option.splits)
  then have "set t \<subseteq> set (float_ascii s)"
    using drop_underscores_subset float_strip_subset by blast
  with assms(1) have n: "45 \<notin> set t"
    using float_ascii_minus by blast
  from assms(2) t n have "float_literal t = Some x \<or> (\<exists>r. float_literal r = Some x)"
    by (auto simp: pyfloat_of_str_def split: option.splits list.splits if_splits)
  then show ?thesis
    using float_literal_nonneg by blast
qed

lemma fadd_nonneg: "not_negative a \<Longrightarrow> not_negative b \<Longrightarrow> not_negative (fadd a b)"
  by (cases a; cases b) (simp_all add: rnd_nonneg)

lemma int_truediv_nonneg: "0 \<le> n \<Longrightarrow> 0 \<le> d \<Longrightarrow> int_truediv n d = Inr x \<Longrightarrow> not_negative x"
proof -
  assume a: "0 \<le> n" "0 \<le> d" "int_truediv n d = Inr x"
  then have "not_negative (rnd (of_int n / of_int d))"
    by (simp add: rnd_nonneg)
  moreover from a(3) have "x = rnd (of_int n / of_int d)"
    by (auto simp: int_truediv_def split: if_splits pyfloat.splits)
  ultimately show ?thesis
    by simp
qed

lemma float_of_int_nonneg: "0 \<le> w \<Longrightarrow> float_of_int w = Inr x \<Longrightarrow> not_negative x"
proof -
  assume a: "0 \<le> w" "float_of_int w = Inr x"
  then have "not_negative (rnd (of_int w))"
    by (simp add: rnd_nonneg)
  moreover from a(2) have "x = rnd (of_int w)"
    by (auto simp: float_of_int_def split: pyfloat.splits)
  ultimately show ?thesis
    by simp
qed

lemma int_of_digits_nonneg: "int_of_digits ds = Inr i \<Longrightarrow> 0 \<le> i"
  by (auto simp: int_of_digits_def split: if_splits)

lemma glyph_values_nonneg: "(uf, val) \<in> set UNICODE_FRACTIONS \<Longrightarrow> not_negative val"
  by (auto simp: UNICODE_FRACTIONS_def third_def two_thirds_def rnd_nonneg)

subsection \<open>C4: magnitudes are never negative\<close>

lemma bind_err_eq_Inr: "bind_err m f = Inr y \<longleftrightarrow> (\<exists>x. m = Inr x \<and> f x = Inr y)"
  by (cases m) simp_all

lemma len3: "length gs = Suc (Suc (Suc 0)) \<Longrightarrow> \<exists>a b c. gs = [a, b, c]"
  by (cases gs; cases "tl gs"; cases "tl (tl gs)") auto

lemma rx_mixed_groups: "re_match rx_mixed s = Some gs \<Longrightarrow> \<exists>a b c. gs = [a, b, c]"
  by (rule len3, drule re_match_ngroups) (simp add: rx_mixed_def)

lemma rx_simple_groups: "re_match rx_simple s = Some gs \<Longrightarrow> \<exists>a b. gs = [a, b]"
  by (rule len2, drule re_match_ngroups) (simp add: rx_simple_def)

lemma mixed_nonneg:
  assumes "bind_err (int_of_digits g1) (\<lambda>w.
           bind_err (int_of_digits g2) (\<lambda>n.
           bind_err (int_of_digits g3) (\<lambda>d.
           bind_err (int_truediv n d) (\<lambda>f.
           bind_err (float_of_int w) (\<lambda>wf. Inr (Some (fadd wf f))))))) = Inr (Some x)"
  shows "not_negative x"
proof -
  from assms obtain w n d f wf where
    "int_of_digits g1 = Inr w" "int_of_digits g2 = Inr n" "int_of_digits g3 = Inr d"
    "int_truediv n d = Inr f" "float_of_int w = Inr wf" "x = fadd wf f"
    by (auto simp: bind_err_eq_Inr)
  then show ?thesis
    using int_of_digits_nonneg int_truediv_nonneg float_of_int_nonneg fadd_nonneg by metis
qed

lemma simple_nonneg:
  assumes "bind_err (int_of_digits g1) (\<lambda>n.
           bind_err (int_of_digits g2) (\<lambda>d.
           bind_err (int_truediv n d) (\<lambda>f. Inr (Some f)))) = Inr (Some x)"
  shows "not_negative x"
proof -
  from assms obtain n d where
    "int_of_digits g1 = Inr n" "int_of_digits g2 = Inr d" "int_truediv n d = Inr x"
    by (auto simp: bind_err_eq_Inr)
  then show ?thesis
    using int_of_digits_nonneg int_truediv_nonneg by metis
qed

lemma glyph_rule_nonneg:
  assumes "45 \<notin> set text" "glyph_loop UNICODE_FRACTIONS text = Some (Inr x)"
  shows "not_negative x"
proof -
  from assms(2) obtain uf val where
    f: "find (\<lambda>(uf, val). uf \<in> set text) UNICODE_FRACTIONS = Some (uf, val)"
    and r: "(if strip (filter (\<lambda>c. c \<noteq> uf) text) = [] then Inr (fadd (Fin 0) val)
         else bind_err (pyfloat_of_str (strip (filter (\<lambda>c. c \<noteq> uf) text)))
                (\<lambda>base. Inr (fadd base val))) = Inr x"
    by (auto simp: glyph_loop_find)
  from f have "(uf, val) \<in> set UNICODE_FRACTIONS"
    by (metis find_Some_iff nth_mem)
  then have v: "not_negative val"
    by (rule glyph_values_nonneg)
  show ?thesis
  proof (cases "strip (filter (\<lambda>c. c \<noteq> uf) text) = []")
    case True
    with r have "x = fadd (Fin 0) val" by simp
    with v show ?thesis by (simp add: fadd_nonneg)
  next
    case False
    with r obtain base where b: "pyfloat_of_str (strip (filter (\<lambda>c. c \<noteq> uf) text)) = Inr base"
      and x: "x = fadd base val"
      by (auto simp: bind_err_eq_Inr)
    have "set (strip (filter (\<lambda>c. c \<noteq> uf) text)) \<subseteq> set text"
      using strip_subset by fastforce
    with assms(1) have "45 \<notin> set (strip (filter (\<lambda>c. c \<noteq> uf) text))" by blast
    from this b have "not_negative base" by (rule pyfloat_of_str_nonneg)
    with v x show ?thesis by (simp add: fadd_nonneg)
  qed
qed

lemma parse_fraction_nonneg:
  assumes "45 \<notin> set t" "parse_fraction t = Inr (Some x)"
  shows "not_negative x"
proof -
  let ?tx = "strip t"
  have n: "45 \<notin> set ?tx"
    using assms(1) strip_subset by blast
  show ?thesis
  proof (cases "glyph_loop UNICODE_FRACTIONS ?tx")
    case (Some r)
    with assms(2) have "r = Inr x"
      by (cases r) (auto simp: parse_fraction_def)
    with Some n show ?thesis
      using glyph_rule_nonneg by blast
  next
    case None
    show ?thesis
    proof (cases "re_match rx_mixed ?tx")
      case (Some gs)
      then obtain a b c where "gs = [a, b, c]"
        using rx_mixed_groups by blast
      with Some None assms(2) show ?thesis
        using mixed_nonneg[of a b c x] by (simp add: parse_fraction_def)
    next
      case m: None
      show ?thesis
      proof (cases "re_match rx_simple ?tx")
        case (Some gs)
        then obtain a b where "gs = [a, b]"
          using rx_simple_groups by blast
        with Some m None assms(2) show ?thesis
          using simple_nonneg[of a b x] by (simp add: parse_fraction_def)
      next
        case s: None
        with m None assms(2) have "pyfloat_of_str ?tx = Inr x"
          by (auto simp: parse_fraction_def split: sum.splits)
        with n show ?thesis
          by (rule pyfloat_of_str_nonneg)
      qed
    qed
  qed
qed

lemma mitems_subset: "u \<in> set (mitems its s) \<Longrightarrow> set u \<subseteq> set s"
proof (induction its s arbitrary: u rule: mitems.induct)
  case (1 s)
  then show ?case by simp
next
  case (2 cs r s)
  then show ?case
    by (cases s) (auto split: if_splits)
next
  case (3 cs n r s)
  from "3.prems" obtain k where "k \<in> set (rev [n ..< Suc (length (takeWhile (in_cset cs) s))])"
    "u \<in> set (mitems r (drop k s))"
    by auto
  then have "set u \<subseteq> set (drop k s)" by (rule "3.IH")
  then show ?case
    using set_drop_subset by fastforce
next
  case (4 r s)
  then show ?case by (auto split: if_splits)
qed

lemma mrx_subset:
  "(gs, u) \<in> set (mrx p s) \<Longrightarrow> set u \<subseteq> set s \<and> (\<forall>g \<in> set gs. set g \<subseteq> set s)"
proof (induction p arbitrary: s gs u)
  case Nil
  then show ?case by simp
next
  case (Cons x p)
  show ?case
  proof (cases x)
    case (I it)
    with Cons.prems obtain t where t: "t \<in> set (mitems [it] s)" "(gs, u) \<in> set (mrx p t)"
      by auto
    from t(1) have "set t \<subseteq> set s" by (rule mitems_subset)
    with Cons.IH[OF t(2)] show ?thesis by blast
  next
    case (Grp its)
    with Cons.prems obtain t gs' where t: "t \<in> set (mitems its s)" "(gs', u) \<in> set (mrx p t)"
      "gs = take (length s - length t) s # gs'"
      by auto
    from t(1) have "set t \<subseteq> set s" by (rule mitems_subset)
    moreover have "set (take (length s - length t) s) \<subseteq> set s"
      by (rule set_take_subset)
    ultimately show ?thesis
      using Cons.IH[OF t(2)] by (simp add: t(3)) blast
  qed
qed

lemma re_match_subset: "re_match p s = Some gs \<Longrightarrow> g \<in> set gs \<Longrightarrow> set g \<subseteq> set s"
proof -
  assume a: "re_match p s = Some gs" and g: "g \<in> set gs"
  then obtain u ms where "mrx p s = (gs, u) # ms"
    by (auto simp: re_match_def split: list.splits)
  then have "(gs, u) \<in> set (mrx p s)" by simp
  with g show ?thesis
    using mrx_subset by blast
qed

lemma mean_nonneg:
  "not_negative l \<Longrightarrow> not_negative h \<Longrightarrow> fdiv (fadd l h) (Fin 2) = Inr m \<Longrightarrow> not_negative m"
proof -
  assume "not_negative l" "not_negative h" and m: "fdiv (fadd l h) (Fin 2) = Inr m"
  then have "not_negative (fadd l h)" by (simp add: fadd_nonneg)
  with m show ?thesis
    by (cases "fadd l h") (auto simp: rnd_nonneg)
qed

lemma parse_range_nonneg:
  assumes "45 \<notin> set t" "parse_range t = Inr (Some x)"
  shows "not_negative x"
proof -
  let ?tx = "strip t"
  have n: "45 \<notin> set ?tx"
    using assms(1) strip_subset by blast
  have whole: "parse_fraction ?tx = Inr (Some x) \<Longrightarrow> not_negative x"
    using n parse_fraction_nonneg by blast
  show ?thesis
  proof (cases "re_match rx_range ?tx")
    case None
    with assms(2) have "parse_fraction ?tx = Inr (Some x)"
      by (simp add: parse_range_def)
    then show ?thesis by (rule whole)
  next
    case (Some gs)
    then obtain a b where gs: "gs = [a, b]"
      using rx_range_groups by blast
    from Some gs have "set a \<subseteq> set ?tx" "set b \<subseteq> set ?tx"
      using re_match_subset by fastforce+
    with n have ab: "45 \<notin> set a" "45 \<notin> set b" by blast+
    from Some gs assms(2) obtain lo hi where lo: "parse_fraction a = Inr lo"
      and hi: "parse_fraction b = Inr hi"
      and r: "(case (lo, hi) of
                 (Some l, Some h) \<Rightarrow> bind_err (fdiv (fadd l h) (Fin 2)) (\<lambda>m. Inr (Some m))
               | _ \<Rightarrow> parse_fraction ?tx) = Inr (Some x)"
      by (auto simp: parse_range_def Let_def bind_err_eq_Inr simp del: fdiv.simps)
    show ?thesis
    proof (cases "lo = None \<or> hi = None")
      case True
      with r have "parse_fraction ?tx = Inr (Some x)"
        by (cases lo; cases hi) auto
      then show ?thesis by (rule whole)
    next
      case False
      then obtain l h where lh: "lo = Some l" "hi = Some h" by auto
      with r have "fdiv (fadd l h) (Fin 2) = Inr x"
        by (auto simp: bind_err_eq_Inr simp del: fdiv.simps)
      moreover from lo lh ab have "not_negative l"
        using parse_fraction_nonneg by blast
      moreover from hi lh ab have "not_negative h"
        using parse_fraction_nonneg by blast
      ultimately show ?thesis
        using mean_nonneg by blast
    qed
  qed
qed

text \<open>
  C4 says that \<open>parse_fraction\<close> and \<open>parse_range\<close> never return a negative number. The
  plain-number rule is \<open>float(text)\<close>, which reads a sign: \<open>"-3"\<close> gives \<open>-3.0\<close> from
  both functions.
\<close>

theorem parse_fraction_minus_sign:
  "parse_fraction (ascii ''-3'') = Inr (Some (Fin (- 3)))
   \<and> parse_range (ascii ''-3'') = Inr (Some (Fin (- 3)))
   \<and> flt (Fin (- 3)) (Fin 0)"
  by (simp add: parse_range_def pf_ev)

text \<open>
  C4 as amended: for every input string without the character \<open>-\<close> (code point 45), a
  magnitude returned by \<open>parse_fraction\<close> or by \<open>parse_range\<close> is never negative: it is
  zero or more, possibly infinite, or NaN (\<open>float("nan")\<close>, which is neither negative
  nor at least zero).
\<close>

theorem parse_never_negative_without_minus:
  "45 \<notin> set t \<longrightarrow>
     (parse_fraction t = Inr (Some x) \<longrightarrow> not_negative x)
     \<and> (parse_range t = Inr (Some y) \<longrightarrow> not_negative y)"
  using parse_fraction_nonneg parse_range_nonneg by blast

text \<open>
  The witness: \<open>"4 1/4"\<close>, \<open>"1/2 to 1"\<close>, and digits outside ASCII: the Arabic-Indic
  three (U+0663) is \<open>3.0\<close>, the fullwidth \<open>1/2\<close> (U+FF11, U+FF12) is \<open>0.5\<close>, and the
  Arabic-Indic \<open>1 to 2\<close> is \<open>1.5\<close>.
\<close>

theorem parse_never_negative_without_minus_witness:
  "45 \<notin> set (ascii ''4 1/4'')
   \<and> parse_fraction (ascii ''4 1/4'') = Inr (Some (Fin (17 / 4)))
   \<and> not_negative (Fin (17 / 4))
   \<and> parse_range (ascii ''1/2 to 1'') = Inr (Some (Fin (3 / 4)))
   \<and> not_negative (Fin (3 / 4))
   \<and> 45 \<notin> set (ascii ''1/2 to 1'')
   \<and> parse_fraction [1635] = Inr (Some (Fin 3))
   \<and> parse_fraction [65297, 47, 65298] = Inr (Some (Fin (1 / 2)))
   \<and> parse_range [1633, 32, 116, 111, 32, 1634] = Inr (Some (Fin (3 / 2)))
   \<and> not_negative (Fin (3 / 2))"
proof -
  have a: "45 \<notin> set (ascii ''4 1/4'')" by (simp add: ascii_def)
  have b: "parse_fraction (ascii ''4 1/4'') = Inr (Some (Fin (17 / 4)))"
    by (simp add: pf_ev)
  from parse_never_negative_without_minus[of "ascii ''4 1/4''" "Fin (17 / 4)"] a b
  have c: "not_negative (Fin (17 / 4))" by blast
  have d: "45 \<notin> set (ascii ''1/2 to 1'')" by (simp add: ascii_def)
  have e: "parse_range (ascii ''1/2 to 1'') = Inr (Some (Fin (3 / 4)))"
    by (simp add: parse_range_def pf_ev)
  from parse_never_negative_without_minus[of "ascii ''1/2 to 1''" _ "Fin (3 / 4)"] d e
  have f: "not_negative (Fin (3 / 4))" by blast
  have u1: "parse_fraction [1635] = Inr (Some (Fin 3))"
    by (simp add: pf_ev decimal_ev)
  have u2: "parse_fraction [65297, 47, 65298] = Inr (Some (Fin (1 / 2)))"
    by (simp add: pf_ev decimal_ev)
  have u3: "parse_range [1633, 32, 116, 111, 32, 1634] = Inr (Some (Fin (3 / 2)))"
    by (simp add: parse_range_def pf_ev decimal_ev)
  have u4: "(45::nat) \<notin> set [1633, 32, 116, 111, 32, 1634]" by simp
  from parse_never_negative_without_minus[of "[1633, 32, 116, 111, 32, 1634]" _ "Fin (3 / 2)"]
    u3 u4
  have u5: "not_negative (Fin (3 / 2))" by blast
  from a b c d e f u1 u2 u3 u5 show ?thesis by blast
qed

section \<open>Facts about floats\<close>

text \<open>
  A value that \<open>rnd\<close> returns is within half a quantum of the exact value, its mantissa
  has at most 53 bits, and it rounds to itself; a value of magnitude \<open>2 ^ 53\<close> or more is
  an integer. Hence \<open>round(x, 1)\<close> never overflows on the result of a float operation.
\<close>

lemma pow2_nz [simp]: "pow2 e \<noteq> 0"
  using pow2_pos[of e] by linarith

lemma quantum_nz [simp]: "quantum q \<noteq> 0"
  using quantum_pos[of q] by linarith

lemma quantum_abs [simp]: "\<bar>quantum q\<bar> = quantum q"
  using quantum_pos[of q] by linarith

lemma quantum_nonneg [simp]: "0 \<le> quantum q"
  using quantum_pos[of q] by linarith

lemma rhe_zero [simp]: "rhe 0 = 0"
  using rhe_of_int[of 0] by simp

lemma rnd_Fin_iff:
  "rnd q = Fin v \<longleftrightarrow> v = of_int (rhe (q / quantum q)) * quantum q \<and> \<bar>v\<bar> < 2 ^ 1024"
  by (auto simp: rnd_def Let_def abs_less_iff)

lemma rnd_error: "rnd q = Fin v \<Longrightarrow> \<bar>v - q\<bar> \<le> quantum q / 2"
proof -
  assume "rnd q = Fin v"
  then have v: "v = of_int (rhe (q / quantum q)) * quantum q"
    by (simp add: rnd_Fin_iff)
  have u: "0 < quantum q" by simp
  then have "v - q = (of_int (rhe (q / quantum q)) - q / quantum q) * quantum q"
    by (simp add: v field_simps)
  then have "\<bar>v - q\<bar> = \<bar>of_int (rhe (q / quantum q)) - q / quantum q\<bar> * quantum q"
    using u by (simp add: abs_mult)
  also have "\<dots> \<le> (1 / 2) * quantum q"
    using rhe_bound[of "q / quantum q"] u by (intro mult_right_mono) simp_all
  finally show ?thesis by simp
qed

lemma flog2_zero: "flog2 0 = - 1"
  by (simp add: flog2_def)

lemma quantum_le: "0 \<le> e \<Longrightarrow> \<bar>q\<bar> < pow2 e \<Longrightarrow> quantum q \<le> pow2 (e - 53)"
proof (cases "q = 0")
  case True
  assume "0 \<le> e"
  then show ?thesis
    by (simp add: True quantum_def flog2_zero pow2_mono)
next
  case False
  assume e: "0 \<le> e" and "\<bar>q\<bar> < pow2 e"
  with False have "flog2 \<bar>q\<bar> < e"
    by (simp add: flog2_less)
  with e have "max (flog2 \<bar>q\<bar>) (- 1022) - 52 \<le> e - 53"
    by simp
  then show ?thesis
    unfolding quantum_def by (rule pow2_mono)
qed

lemma pow2_half: "pow2 (e - 1) = pow2 e / 2"
proof -
  have "pow2 e = pow2 (e - 1) * pow2 1"
    using pow2_add[of "e - 1" 1] by simp
  then show ?thesis by (simp add: pow2_def)
qed

lemma pow2_1024: "pow2 1024 = 2 ^ 1024"
  by (simp add: pow2_def)

lemma rnd_finite:
  assumes "0 \<le> e" "e \<le> 1023" "\<bar>q\<bar> < pow2 e"
  shows "\<exists>v. rnd q = Fin v \<and> \<bar>v - q\<bar> \<le> pow2 (e - 54)"
proof -
  define v where "v = of_int (rhe (q / quantum q)) * quantum q"
  have u: "0 < quantum q" by simp
  have "v - q = (of_int (rhe (q / quantum q)) - q / quantum q) * quantum q"
    using u by (simp add: v_def field_simps)
  then have "\<bar>v - q\<bar> = \<bar>of_int (rhe (q / quantum q)) - q / quantum q\<bar> * quantum q"
    using u by (simp add: abs_mult)
  also have "\<dots> \<le> (1 / 2) * quantum q"
    using rhe_bound[of "q / quantum q"] u by (intro mult_right_mono) simp_all
  also have "\<dots> \<le> (1 / 2) * pow2 (e - 53)"
    using quantum_le[OF assms(1) assms(3)] by simp
  also have "\<dots> = pow2 (e - 54)"
    using pow2_half[of "e - 53"] by simp
  finally have err: "\<bar>v - q\<bar> \<le> pow2 (e - 54)" .
  have "pow2 (e - 54) \<le> pow2 e" by (simp add: pow2_mono)
  with err assms(3) have "\<bar>v\<bar> < pow2 e + pow2 e" by linarith
  also have "\<dots> = pow2 (e + 1)"
    using pow2_half[of "e + 1"] by simp
  also have "\<dots> \<le> pow2 1024"
    using assms(2) by (simp add: pow2_mono)
  finally have "\<bar>v\<bar> < 2 ^ 1024" by (simp add: pow2_1024)
  then have "rnd q = Fin v"
    by (simp add: rnd_Fin_iff v_def)
  with err show ?thesis by blast
qed

lemma rnd_exact: "v = of_int m * quantum v \<Longrightarrow> \<bar>v\<bar> < 2 ^ 1024 \<Longrightarrow> rnd v = Fin v"
proof -
  assume v: "v = of_int m * quantum v" and b: "\<bar>v\<bar> < 2 ^ 1024"
  have "0 < quantum v" by simp
  then have "v / quantum v = of_int m"
    using v by (metis nonzero_mult_div_cancel_right less_irrefl)
  then have "rhe (v / quantum v) = m" by simp
  with v b show ?thesis
    by (simp add: rnd_Fin_iff)
qed

lemma rnd_zero [simp]: "rnd 0 = Fin 0"
  by (simp add: rnd_Fin_iff)

lemma pow2_diff_nat: "j \<le> i \<Longrightarrow> pow2 i = 2 ^ nat (i - j) * pow2 j"
proof -
  assume "j \<le> i"
  then have "pow2 i = pow2 (int (nat (i - j)) + j)" by simp
  also have "\<dots> = pow2 (int (nat (i - j))) * pow2 j" by (rule pow2_add)
  finally show ?thesis unfolding pow2_nat .
qed

text \<open>The mantissa of a rounded value has at most 53 bits.\<close>

lemma mantissa_bound: "\<bar>rhe (q / quantum q)\<bar> \<le> 2 ^ 53"
proof -
  define e where "e = max (flog2 \<bar>q\<bar>) (- 1022)"
  have u: "quantum q = pow2 (e - 52)" by (simp add: quantum_def e_def)
  have "\<bar>q\<bar> < pow2 (e + 1)"
  proof (cases "q = 0")
    case True
    then show ?thesis by simp
  next
    case False
    then have "\<bar>q\<bar> < pow2 (flog2 \<bar>q\<bar> + 1)"
      using flog2_bounds[of "\<bar>q\<bar>"] by simp
    also have "\<dots> \<le> pow2 (e + 1)"
      by (simp add: e_def pow2_mono)
    finally show ?thesis .
  qed
  moreover have "pow2 (e + 1) = 2 ^ 53 * pow2 (e - 52)"
    using pow2_diff_nat[of "e - 52" "e + 1"] by simp
  ultimately have "\<bar>q\<bar> < 2 ^ 53 * quantum q" by (simp add: u)
  then have "\<bar>q\<bar> / quantum q < 2 ^ 53"
    by (simp add: pos_divide_less_eq)
  then have "\<bar>q / quantum q\<bar> < 2 ^ 53"
    by (simp add: abs_divide)
  with rhe_bound[of "q / quantum q"] have "\<bar>rat_of_int (rhe (q / quantum q))\<bar> < 2 ^ 53 + 1"
    by linarith
  then have "rat_of_int \<bar>rhe (q / quantum q)\<bar> < rat_of_int (2 ^ 53 + 1)"
    by simp
  then have "\<bar>rhe (q / quantum q)\<bar> < 2 ^ 53 + 1"
    using of_int_less_iff by blast
  then show ?thesis by simp
qed

lemma pow2_abs [simp]: "\<bar>pow2 e\<bar> = pow2 e"
  using pow2_pos[of e] by linarith

text \<open>A rounded value rounds to itself.\<close>

lemma rnd_idem:
  assumes "rnd q = Fin v"
  shows "rnd v = Fin v"
proof (cases "v = 0")
  case True
  then show ?thesis by simp
next
  case False
  define e where "e = max (flog2 \<bar>q\<bar>) (- 1022)"
  define k where "k = rhe (q / quantum q)"
  have u: "quantum q = pow2 (e - 52)" by (simp add: quantum_def e_def)
  from assms have v0: "v = of_int (rhe (q / quantum q)) * quantum q"
    and fin: "\<bar>v\<bar> < 2 ^ 1024"
    using rnd_Fin_iff by blast+
  from v0 have v: "v = of_int k * pow2 (e - 52)"
    by (simp only: k_def u)
  have kb: "\<bar>k\<bar> \<le> 2 ^ 53"
    unfolding k_def by (rule mantissa_bound)
  have e_lo: "- 1022 \<le> e" by (simp add: e_def)
  have av: "\<bar>v\<bar> = of_int \<bar>k\<bar> * pow2 (e - 52)"
    using pow2_pos[of "e - 52"] by (simp add: v abs_mult)
  have top: "pow2 (e + 1) = 2 ^ 53 * pow2 (e - 52)"
    using pow2_diff_nat[of "e - 52" "e + 1"] by simp
  have vpos: "0 < \<bar>v\<bar>" using False by simp
  show ?thesis
  proof (cases "\<bar>k\<bar> = 2 ^ 53")
    case True
    then have eq: "\<bar>v\<bar> = pow2 (e + 1)"
      by (simp add: av top)
    have "pow2 (e + 1) < pow2 (e + 1 + 1)"
      by (rule pow2_strict_mono) simp
    with eq have "flog2 \<bar>v\<bar> = e + 1"
      using flog2_unique[of "\<bar>v\<bar>" "e + 1"] vpos by simp
    with e_lo have qv: "quantum v = pow2 (e - 51)"
      by (simp add: quantum_def)
    have "pow2 (e - 51) = 2 * pow2 (e - 52)"
      using pow2_diff_nat[of "e - 52" "e - 51"] by simp
    moreover from True have "even k"
      by (metis abs_le_iff dvd_abs_iff dvd_power even_numeral kb zero_less_numeral)
    then have "k = 2 * (k div 2)" by simp
    then have "rat_of_int k = 2 * rat_of_int (k div 2)"
      by (metis of_int_mult of_int_numeral)
    ultimately have h: "v = of_int (k div 2) * pow2 (e - 51)"
      by (simp add: v)
    have "v = of_int (k div 2) * quantum v"
      unfolding qv by (rule h)
    then show ?thesis
      using fin by (rule rnd_exact)
  next
    case False
    with kb have "\<bar>k\<bar> < 2 ^ 53" by simp
    then have "rat_of_int \<bar>k\<bar> < 2 ^ 53"
      by (metis of_int_less_iff of_int_numeral of_int_power)
    then have "\<bar>v\<bar> < pow2 (e + 1)"
      by (simp add: av top)
    with vpos have "flog2 \<bar>v\<bar> < e + 1"
      by (rule flog2_less)
    define j where "j = max (flog2 \<bar>v\<bar>) (- 1022) - 52"
    have qv: "quantum v = pow2 j" by (simp add: quantum_def j_def)
    from \<open>flog2 \<bar>v\<bar> < e + 1\<close> e_lo have "j \<le> e - 52"
      by (simp add: j_def)
    then have "pow2 (e - 52) = 2 ^ nat (e - 52 - j) * pow2 j"
      by (rule pow2_diff_nat)
    then have h: "v = of_int (k * 2 ^ nat (e - 52 - j)) * pow2 j"
      by (simp add: v)
    have "v = of_int (k * 2 ^ nat (e - 52 - j)) * quantum v"
      unfolding qv by (rule h)
    then show ?thesis
      using fin by (rule rnd_exact)
  qed
qed

lemma pow2_ge_one: "1 \<le> pow2 j \<Longrightarrow> 0 \<le> j"
proof (rule ccontr)
  assume a: "1 \<le> pow2 j" and "\<not> 0 \<le> j"
  then have "pow2 j < pow2 0" by (intro pow2_strict_mono) simp
  with a show False by (simp add: pow2_def)
qed

text \<open>A float of magnitude \<open>2 ^ 53\<close> or more is an integer.\<close>

lemma big_float_integral:
  assumes "rnd q = Fin v" "2 ^ 53 \<le> \<bar>v\<bar>"
  shows "\<exists>m. v = of_int m"
proof -
  define j where "j = max (flog2 \<bar>q\<bar>) (- 1022) - 52"
  define k where "k = rhe (q / quantum q)"
  have u: "quantum q = pow2 j" by (simp add: quantum_def j_def)
  from assms(1) have "v = of_int (rhe (q / quantum q)) * quantum q"
    using rnd_Fin_iff by blast
  then have v: "v = of_int k * pow2 j"
    by (simp only: k_def u)
  have kb: "\<bar>k\<bar> \<le> 2 ^ 53"
    unfolding k_def by (rule mantissa_bound)
  then have "rat_of_int \<bar>k\<bar> \<le> 2 ^ 53"
    by (metis of_int_le_iff of_int_numeral of_int_power)
  moreover have "\<bar>v\<bar> = rat_of_int \<bar>k\<bar> * pow2 j"
    using pow2_pos[of j] by (simp add: v abs_mult)
  ultimately have "\<bar>v\<bar> \<le> 2 ^ 53 * pow2 j"
    using pow2_pos[of j] by (simp add: mult_right_mono)
  with assms(2) have "(2::rat) ^ 53 * 1 \<le> 2 ^ 53 * pow2 j" by simp
  then have "1 \<le> pow2 j"
    by (simp only: mult_le_cancel_left_pos zero_less_power zero_less_numeral)
  then have "0 \<le> j" by (rule pow2_ge_one)
  then have "pow2 j = 2 ^ nat j" by (simp add: pow2_def)
  then have "v = of_int (k * 2 ^ nat j)" by (simp add: v)
  then show ?thesis by blast
qed

text \<open>\<open>round(x, 1)\<close> never raises on a float.\<close>

lemma py_round1_float:
  assumes "rnd q = Fin v"
  shows "\<exists>r. py_round1 (Fin v) = Inr (Fin r)"
proof (cases "\<bar>v\<bar> < 2 ^ 53")
  case True
  define w where "w = rat_of_int (rhe (v * 10)) / 10"
  have "\<bar>rat_of_int (rhe (v * 10)) - v * 10\<bar> \<le> 1 / 2" by (rule rhe_bound)
  then have "\<bar>w - v\<bar> \<le> 1 / 20"
    unfolding w_def by (auto simp: abs_le_iff field_simps)
  moreover have "(2::rat) ^ 54 = 2 ^ 53 + 2 ^ 53" "(1::rat) \<le> 2 ^ 53"
    by simp_all
  ultimately have "\<bar>w\<bar> < 2 ^ 54"
    using True by linarith
  then have "\<bar>w\<bar> < pow2 54" by (simp add: pow2_def)
  then obtain r where "rnd w = Fin r"
    using rnd_finite[of 54 w] by auto
  then show ?thesis by (simp add: w_def)
next
  case False
  then obtain m where m: "v = of_int m"
    using big_float_integral[OF assms] by auto
  have "v * 10 = of_int (m * 10)" by (simp add: m)
  then have "rhe (v * 10) = m * 10" by (metis rhe_of_int)
  then have "rat_of_int (rhe (v * 10)) / 10 = v" by (simp add: m)
  moreover have "rnd v = Fin v" using assms by (rule rnd_idem)
  ultimately show ?thesis by simp
qed

lemma fdiv_cases:
  "fdiv x y = Inl ZeroDivisionError \<and> y = Fin 0
   \<or> (\<exists>q. fdiv x y = Inr (rnd q)) \<or> fdiv x y = Inr PInf \<or> fdiv x y = Inr NInf
   \<or> fdiv x y = Inr NaN"
proof (cases y)
  case (Fin b)
  then show ?thesis
    by (cases x) (auto intro: exI[of _ 0])
next
  case PInf
  then show ?thesis by (cases x) (auto intro: exI[of _ 0])
next
  case NInf
  then show ?thesis by (cases x) (auto intro: exI[of _ 0])
next
  case NaN
  then show ?thesis by simp
qed

lemma py_round1_rnd: "\<exists>r. py_round1 (rnd q) = Inr r"
proof (cases "rnd q")
  case (Fin v)
  then show ?thesis using py_round1_float[of q v] by auto
qed simp_all

lemma round1_fdiv:
  assumes "y \<noteq> Fin 0"
  shows "\<exists>x r. fdiv g y = Inr x \<and> py_round1 x = Inr r"
  using fdiv_cases[of g y] assms py_round1_rnd by (elim disjE exE conjE) (simp; blast)+

subsection \<open>C7: \<open>normalize_to_grams_per_cup\<close> never divides by zero\<close>

text \<open>When \<open>round(x, 1)\<close> returns, it returns the float nearest to the rounded decimal.\<close>

lemma py_round1_value:
  "py_round1 x = Inr r \<Longrightarrow>
     r = (case x of Fin q \<Rightarrow> rnd (rat_of_int (rhe (q * 10)) / 10) | _ \<Rightarrow> x)"
  by (cases x) (auto split: pyfloat.splits)

text \<open>
  C7: \<open>normalize_to_grams_per_cup\<close> always returns, so it never divides by zero (and
  raises nothing else); it returns undefined when the volume amount or the grams are
  absent, when the unit is not in the table, and when the float product of the volume
  amount and the cups per unit is zero; otherwise it returns the float quotient
  \<open>grams / (volume_amount * cups_per_unit)\<close> rounded to one decimal: ten times the exact
  value of the quotient is rounded to an integer, half to even, and the result is the
  float nearest to the tenth of that integer (an infinite or NaN quotient is returned
  as it is). \<open>normalize_to_grams_per_cup(2, "tablespoons", 14) = 112.0\<close>,
  \<open>normalize_to_grams_per_cup(7, "Tsp", 3) = 20.6\<close> (the quotient is
  \<open>20.571428571428573\<close>), \<open>normalize_to_grams_per_cup(1, "cup", 0.25) = 0.2\<close> and
  \<open>normalize_to_grams_per_cup(1, "cup", 0.75) = 0.8\<close>.
\<close>

theorem normalize_to_grams_per_cup_spec:
  "(\<exists>r. normalize_to_grams_per_cup va u g = Inr r)
   \<and> (va = None \<or> g = None \<or> map_of TO_CUPS (unit_lower u) = None \<longrightarrow>
        normalize_to_grams_per_cup va u g = Inr None)
   \<and> (map_of TO_CUPS (unit_lower u) = Some f \<and> fmul a f = Fin 0 \<longrightarrow>
        normalize_to_grams_per_cup (Some a) u (Some b) = Inr None)
   \<and> (map_of TO_CUPS (unit_lower u) = Some f \<and> fmul a f \<noteq> Fin 0 \<longrightarrow>
        (\<exists>x. fdiv b (fmul a f) = Inr x
           \<and> normalize_to_grams_per_cup (Some a) u (Some b) =
               Inr (Some (case x of Fin q \<Rightarrow> rnd (rat_of_int (rhe (q * 10)) / 10) | _ \<Rightarrow> x))))
   \<and> normalize_to_grams_per_cup (Some (Fin 2)) (Some (ascii ''tablespoons'')) (Some (Fin 14))
        = Inr (Some (Fin 112))
   \<and> normalize_to_grams_per_cup (Some (Fin 7)) (Some (ascii ''Tsp'')) (Some (Fin 3))
        = Inr (Some (Fin (2899192260119757 / 140737488355328)))
   \<and> rnd (206 / 10) = Fin (2899192260119757 / 140737488355328)
   \<and> normalize_to_grams_per_cup (Some (Fin 1)) (Some (ascii ''cup'')) (Some (Fin (1 / 4)))
        = Inr (Some (Fin (3602879701896397 / 18014398509481984)))
   \<and> rnd (2 / 10) = Fin (3602879701896397 / 18014398509481984)
   \<and> normalize_to_grams_per_cup (Some (Fin 1)) (Some (ascii ''cup'')) (Some (Fin (3 / 4)))
        = Inr (Some (Fin (3602879701896397 / 4503599627370496)))
   \<and> rnd (8 / 10) = Fin (3602879701896397 / 4503599627370496)"
proof -
  have c: "map_of TO_CUPS (unit_lower u) = Some f \<and> fmul a f = Fin 0 \<longrightarrow>
        normalize_to_grams_per_cup (Some a) u (Some b) = Inr None" for f a b
    by (simp add: normalize_to_grams_per_cup_def fzero_def)
  have d: "map_of TO_CUPS (unit_lower u) = Some f \<and> fmul a f \<noteq> Fin 0 \<longrightarrow>
        (\<exists>x. fdiv b (fmul a f) = Inr x
           \<and> normalize_to_grams_per_cup (Some a) u (Some b) =
               Inr (Some (case x of Fin q \<Rightarrow> rnd (rat_of_int (rhe (q * 10)) / 10) | _ \<Rightarrow> x)))"
    for f a b
  proof (intro impI, elim conjE)
    assume k: "map_of TO_CUPS (unit_lower u) = Some f" and nz: "fmul a f \<noteq> Fin 0"
    from round1_fdiv[OF nz, of b] obtain x r where
      x: "fdiv b (fmul a f) = Inr x" and r: "py_round1 x = Inr r"
      by blast
    from r have v: "r = (case x of Fin q \<Rightarrow> rnd (rat_of_int (rhe (q * 10)) / 10) | _ \<Rightarrow> x)"
      by (rule py_round1_value)
    from k nz x r have "normalize_to_grams_per_cup (Some a) u (Some b) = Inr (Some r)"
      by (simp add: normalize_to_grams_per_cup_def fzero_def Let_def
          del: fdiv.simps py_round1.simps)
    with x v show "\<exists>x. fdiv b (fmul a f) = Inr x
           \<and> normalize_to_grams_per_cup (Some a) u (Some b) =
               Inr (Some (case x of Fin q \<Rightarrow> rnd (rat_of_int (rhe (q * 10)) / 10) | _ \<Rightarrow> x))"
      by blast
  qed
  have b: "va = None \<or> g = None \<or> map_of TO_CUPS (unit_lower u) = None \<longrightarrow>
        normalize_to_grams_per_cup va u g = Inr None"
    by (auto simp: normalize_to_grams_per_cup_def split: option.splits)
  have a: "\<exists>r. normalize_to_grams_per_cup va u g = Inr r"
  proof (cases "va = None \<or> g = None \<or> map_of TO_CUPS (unit_lower u) = None")
    case True
    with b show ?thesis by blast
  next
    case False
    then obtain x y f where xy: "va = Some x" "g = Some y" "map_of TO_CUPS (unit_lower u) = Some f"
      by auto
    show ?thesis
    proof (cases "fmul x f = Fin 0")
      case True
      with c[of f x y] xy show ?thesis by blast
    next
      case False
      with d[of f x y] xy show ?thesis by blast
    qed
  qed
  have e1: "normalize_to_grams_per_cup (Some (Fin 2)) (Some (ascii ''tablespoons'')) (Some (Fin 14))
        = Inr (Some (Fin 112))"
    by (simp add: tw_ev rnd_ev)
  have e2: "normalize_to_grams_per_cup (Some (Fin 7)) (Some (ascii ''Tsp'')) (Some (Fin 3))
        = Inr (Some (Fin (2899192260119757 / 140737488355328)))"
    by (simp add: tw_ev rnd_ev)
  have e3: "rnd (206 / 10) = Fin (2899192260119757 / 140737488355328)"
    by (simp add: rnd_ev)
  have e4: "normalize_to_grams_per_cup (Some (Fin 1)) (Some (ascii ''cup'')) (Some (Fin (1 / 4)))
        = Inr (Some (Fin (3602879701896397 / 18014398509481984)))"
    by (simp add: tw_ev rnd_ev)
  have e5: "rnd (2 / 10) = Fin (3602879701896397 / 18014398509481984)"
    by (simp add: rnd_ev)
  have e6: "normalize_to_grams_per_cup (Some (Fin 1)) (Some (ascii ''cup'')) (Some (Fin (3 / 4)))
        = Inr (Some (Fin (3602879701896397 / 4503599627370496)))"
    by (simp add: tw_ev rnd_ev)
  have e7: "rnd (8 / 10) = Fin (3602879701896397 / 4503599627370496)"
    by (simp add: rnd_ev)
  from a b c[of f a b] d[of f a b] e1 e2 e3 e4 e5 e6 e7 show ?thesis
    by blast
qed

theorem normalize_to_grams_per_cup_spec_witness:
  "map_of TO_CUPS (unit_lower (Some (ascii ''Tsp''))) = Some (rnd (1 / 48))
   \<and> fmul (Fin 7) (rnd (1 / 48)) = Fin (2627099782632789 / 18014398509481984)
   \<and> fdiv (Fin 3) (Fin (2627099782632789 / 18014398509481984))
       = Inr (Fin (5790342378047781 / 281474976710656))
   \<and> rhe (5790342378047781 / 281474976710656 * 10) = 206
   \<and> normalize_to_grams_per_cup (Some (Fin 7)) (Some (ascii ''Tsp'')) (Some (Fin 3))
       = Inr (Some (Fin (2899192260119757 / 140737488355328)))
   \<and> fmul (Fin 0) (rnd (1 / 48)) = Fin 0
   \<and> normalize_to_grams_per_cup (Some (Fin 0)) (Some (ascii ''Tsp'')) (Some (Fin 5)) = Inr None
   \<and> normalize_to_grams_per_cup None (Some (ascii ''Tsp'')) (Some (Fin 5)) = Inr None"
proof -
  have k: "map_of TO_CUPS (unit_lower (Some (ascii ''Tsp''))) = Some (rnd (1 / 48))"
    by (simp add: TO_CUPS_def unit_lower_def str_ev)
  have m: "fmul (Fin 7) (rnd (1 / 48)) = Fin (2627099782632789 / 18014398509481984)"
    by (simp add: rnd_ev)
  have q: "fdiv (Fin 3) (Fin (2627099782632789 / 18014398509481984))
       = Inr (Fin (5790342378047781 / 281474976710656))"
    by (simp add: rnd_ev)
  have h: "rhe (5790342378047781 / 281474976710656 * 10) = 206"
    by (simp add: rhe_def Let_def)
  have nz: "fmul (Fin 7) (rnd (1 / 48)) \<noteq> Fin 0"
    by (simp add: m)
  from normalize_to_grams_per_cup_spec[of _ "Some (ascii ''Tsp'')" _ "rnd (1 / 48)" "Fin 7" "Fin 3"] k nz
  obtain x where x: "fdiv (Fin 3) (fmul (Fin 7) (rnd (1 / 48))) = Inr x"
    and n: "normalize_to_grams_per_cup (Some (Fin 7)) (Some (ascii ''Tsp'')) (Some (Fin 3)) =
       Inr (Some (case x of Fin q \<Rightarrow> rnd (rat_of_int (rhe (q * 10)) / 10) | _ \<Rightarrow> x))"
    by blast
  from x m q have xv: "x = Fin (5790342378047781 / 281474976710656)"
    by (simp del: fdiv.simps)
  have rv: "rnd (rat_of_int (rhe (5790342378047781 / 281474976710656 * 10)) / 10)
       = Fin (2899192260119757 / 140737488355328)"
    by (simp add: rnd_ev)
  have w: "normalize_to_grams_per_cup (Some (Fin 7)) (Some (ascii ''Tsp'')) (Some (Fin 3))
       = Inr (Some (Fin (2899192260119757 / 140737488355328)))"
    using n by (simp only: xv pyfloat.case rv)
  have z: "fmul (Fin 0) (rnd (1 / 48)) = Fin 0"
    by (simp add: rnd_ev)
  from normalize_to_grams_per_cup_spec[of _ "Some (ascii ''Tsp'')" _ "rnd (1 / 48)" "Fin 0" "Fin 5"] k z
  have w0: "normalize_to_grams_per_cup (Some (Fin 0)) (Some (ascii ''Tsp'')) (Some (Fin 5)) = Inr None"
    by blast
  from normalize_to_grams_per_cup_spec[of None "Some (ascii ''Tsp'')" "Some (Fin 5)"]
  have wn: "normalize_to_grams_per_cup None (Some (ascii ''Tsp'')) (Some (Fin 5)) = Inr None"
    by blast
  from k m q h w z w0 wn show ?thesis by blast
qed

section \<open>C2: the round trip through \<open>format_amount\<close>\<close>

text \<open>
  C2 says that \<open>format_amount(n + v)\<close> renders the glyph of \<open>v\<close> for each of the nine
  display fractions \<open>v\<close> and every integer \<open>n \<ge> 0\<close>. The table \<open>DISPLAY_FRACTIONS\<close> holds
  \<open>0.375\<close> and \<open>0.625\<close> with the glyphs of three eighths and five eighths, but one third
  and two thirds stand earlier in it and lie within the tolerance \<open>0.05\<close> of them:
  \<open>format_amount(0.375)\<close> is the glyph of one third, \<open>format_amount(1.375)\<close> is \<open>1\<close> and
  the glyph of one third, and \<open>format_amount(0.625)\<close> is the glyph of two thirds.
\<close>

theorem format_amount_three_eighths_renders_one_third:
  "(Fin (3 / 8), [8540]) \<in> set DISPLAY_FRACTIONS
   \<and> bind_err (float_of_int 0) (\<lambda>x. format_amount (Some (fadd x (Fin (3 / 8))))) = Inr [8531]
   \<and> bind_err (float_of_int 1) (\<lambda>x. format_amount (Some (fadd x (Fin (3 / 8)))))
       = Inr (ascii ''1 '' @ [8531])
   \<and> (Fin (5 / 8), [8541]) \<in> set DISPLAY_FRACTIONS
   \<and> bind_err (float_of_int 0) (\<lambda>x. format_amount (Some (fadd x (Fin (5 / 8))))) = Inr [8532]"
proof -
  have a: "(Fin (3 / 8), [8540]) \<in> set DISPLAY_FRACTIONS" by (simp add: DISPLAY_FRACTIONS_def)
  have f0: "float_of_int 0 = Inr (Fin 0)" by (simp add: float_of_int_def)
  have f1: "float_of_int 1 = Inr (Fin 1)" by (simp add: float_of_int_def rnd_ev)
  have s0: "fadd (Fin 0) (Fin (3 / 8)) = Fin (3 / 8)" by (simp add: rnd_ev)
  have s1: "fadd (Fin 1) (Fin (3 / 8)) = Fin (11 / 8)" by (simp add: rnd_ev)
  have b0: "format_amount (Some (Fin (3 / 8))) = Inr [8531]" by (simp add: fa_ev)
  have b1: "format_amount (Some (Fin (11 / 8))) = Inr (ascii ''1 '' @ [8531])"
    by (simp add: fa_ev)
  have c: "(Fin (5 / 8), [8541]) \<in> set DISPLAY_FRACTIONS" by (simp add: DISPLAY_FRACTIONS_def)
  have t0: "fadd (Fin 0) (Fin (5 / 8)) = Fin (5 / 8)" by (simp add: rnd_ev)
  have d0: "format_amount (Some (Fin (5 / 8))) = Inr [8532]" by (simp add: fa_ev)
  from a f0 f1 s0 s1 b0 b1 c t0 d0 show ?thesis by simp
qed

subsection \<open>The seven other display fractions\<close>

text \<open>
  An \<open>int\<close> below \<open>2 ^ 53\<close> converts to a float exactly. The sum \<open>n + v\<close> of an integer
  \<open>n < 2 ^ 48\<close> and a fraction \<open>v\<close> between one eighth and seven eighths is rounded by at
  most \<open>1 / 64\<close>, so \<open>int(n + v)\<close> is \<open>n\<close> and the remainder \<open>(n + v) - n\<close> lies within
  \<open>1 / 64 + 2 ^ (- 54)\<close> of \<open>v\<close>. An entry of the table at distance at most \<open>1 / 32\<close> from
  the remainder is within tolerance, an entry at distance \<open>1 / 16\<close> or more is not.
\<close>

lemma rnd_small_int: "\<bar>m\<bar> < 2 ^ 53 \<Longrightarrow> rnd (rat_of_int m) = Fin (rat_of_int m)"
proof (cases "m = 0")
  case True
  then show ?thesis by simp
next
  case False
  assume b: "\<bar>m\<bar> < 2 ^ 53"
  then have "rat_of_int \<bar>m\<bar> < 2 ^ 53"
    by (metis of_int_less_iff of_int_numeral of_int_power)
  then have lt: "\<bar>rat_of_int m\<bar> < pow2 53"
    by (simp add: pow2_def)
  from False have pos: "0 < \<bar>rat_of_int m\<bar>" by simp
  from pos lt have "flog2 \<bar>rat_of_int m\<bar> < 53" by (rule flog2_less)
  define j where "j = max (flog2 \<bar>rat_of_int m\<bar>) (- 1022) - 52"
  have qv: "quantum (rat_of_int m) = pow2 j" by (simp add: quantum_def j_def)
  from \<open>flog2 \<bar>rat_of_int m\<bar> < 53\<close> have "j \<le> 0" by (simp add: j_def)
  then have "pow2 0 = 2 ^ nat (0 - j) * pow2 j" by (rule pow2_diff_nat)
  then have h: "rat_of_int m = of_int (m * 2 ^ nat (0 - j)) * pow2 j"
    by (simp add: pow2_def)
  have e: "rat_of_int m = of_int (m * 2 ^ nat (0 - j)) * quantum (rat_of_int m)"
    unfolding qv by (rule h)
  have "(2::rat) ^ 53 \<le> 2 ^ 1024" by (rule power_increasing) simp_all
  with \<open>rat_of_int \<bar>m\<bar> < 2 ^ 53\<close> have "\<bar>rat_of_int m\<bar> < 2 ^ 1024" by simp
  with e show ?thesis by (rule rnd_exact)
qed

lemma float_of_small_int: "\<bar>m\<bar> < 2 ^ 53 \<Longrightarrow> float_of_int m = Inr (Fin (rat_of_int m))"
  by (simp add: float_of_int_def rnd_small_int)

lemma tol_hit:
  assumes "\<bar>y\<bar> \<le> 1 / 32"
  shows "flt (fabs (rnd y)) tolerance"
proof -
  from assms have "\<bar>y\<bar> < pow2 0" by (simp add: pow2_def)
  then obtain d where d: "rnd y = Fin d" "\<bar>d - y\<bar> \<le> pow2 (0 - 54)"
    using rnd_finite[of 0 y] by auto
  have "pow2 (0 - 54) = 1 / 2 ^ 54" by (simp add: pow2_def)
  with d assms have "\<bar>d\<bar> \<le> 1 / 32 + 1 / 2 ^ 54" by linarith
  then have "\<bar>d\<bar> < 3602879701896397 / 72057594037927936" by simp
  then show ?thesis by (simp add: d tolerance_val)
qed

lemma tol_miss:
  assumes "1 / 16 \<le> \<bar>y\<bar>" "\<bar>y\<bar> < 1"
  shows "\<not> flt (fabs (rnd y)) tolerance"
proof -
  from assms have "\<bar>y\<bar> < pow2 0" by (simp add: pow2_def)
  then obtain d where d: "rnd y = Fin d" "\<bar>d - y\<bar> \<le> pow2 (0 - 54)"
    using rnd_finite[of 0 y] by auto
  have "pow2 (0 - 54) = 1 / 2 ^ 54" by (simp add: pow2_def)
  with d assms have "1 / 16 - 1 / 2 ^ 54 \<le> \<bar>d\<bar>" by linarith
  then have "3602879701896397 / 72057594037927936 \<le> \<bar>d\<bar>" by simp
  then show ?thesis by (simp add: d tolerance_val)
qed

lemma loop_miss:
  "1 / 16 \<le> \<bar>f - w\<bar> \<Longrightarrow> \<bar>f - w\<bar> < 1 \<Longrightarrow>
     display_loop ((Fin w, s) # r) (Fin f) = display_loop r (Fin f)"
  using tol_miss[of "f - w"] by (simp add: fsub_def)

lemma loop_hit:
  "\<bar>f - w\<bar> \<le> 1 / 32 \<Longrightarrow> display_loop ((Fin w, s) # r) (Fin f) = Some s"
  using tol_hit[of "f - w"] by (simp add: fsub_def)

lemma frac_close:
  assumes "n < 2 ^ 48" "1 / 8 \<le> v" "v \<le> 7 / 8"
  shows "\<exists>r f. fadd (Fin (rat_of_nat n)) (Fin v) = Fin r \<and> trunc r = int n
           \<and> r \<noteq> rat_of_int (int n)
           \<and> fsub (Fin r) (Fin (rat_of_int (int n))) = Fin f
           \<and> \<bar>f - v\<bar> \<le> 1 / 64 + 1 / 18014398509481984"
proof -
  define q where "q = rat_of_nat n + v"
  from assms(1) have "n + 1 \<le> 2 ^ 48" by simp
  then have "rat_of_nat (n + 1) \<le> rat_of_nat (2 ^ 48)"
    using of_nat_le_iff by blast
  then have n48: "rat_of_nat n + 1 \<le> 2 ^ 48" by simp
  have n0: "0 \<le> rat_of_nat n" by simp
  from n48 n0 assms(2,3) have "\<bar>q\<bar> < 2 ^ 48"
    unfolding q_def by linarith
  then have "\<bar>q\<bar> < pow2 48" by (simp add: pow2_def)
  then obtain r where r: "rnd q = Fin r" "\<bar>r - q\<bar> \<le> pow2 (48 - 54)"
    using rnd_finite[of 48 q] by auto
  have "pow2 (48 - 54) = 1 / 64" by (simp add: pow2_def)
  with r have rq: "\<bar>r - q\<bar> \<le> 1 / 64" by simp
  with assms(2,3) have lo: "rat_of_nat n < r" and hi: "r < rat_of_nat n + 1"
    unfolding q_def by linarith+
  then have "\<lfloor>r\<rfloor> = int n"
    by (intro floor_unique) simp_all
  moreover from lo n0 have "0 \<le> r" by linarith
  ultimately have t: "trunc r = int n" by (simp add: trunc_def)
  from lo have ne: "r \<noteq> rat_of_int (int n)" by simp
  from lo hi have "\<bar>r - rat_of_nat n\<bar> < pow2 0" by (simp add: pow2_def)
  then obtain f where f: "rnd (r - rat_of_nat n) = Fin f"
    "\<bar>f - (r - rat_of_nat n)\<bar> \<le> pow2 (0 - 54)"
    using rnd_finite[of 0 "r - rat_of_nat n"] by auto
  have "pow2 (0 - 54) = 1 / 18014398509481984" by (simp add: pow2_def)
  with f rq have c: "\<bar>f - v\<bar> \<le> 1 / 64 + 1 / 18014398509481984"
    unfolding q_def by linarith
  have s: "fsub (Fin r) (Fin (rat_of_int (int n))) = Fin f"
    using f by (simp add: fsub_def)
  have a: "fadd (Fin (rat_of_nat n)) (Fin v) = Fin r"
    using r by (simp add: q_def)
  from a t ne s c show ?thesis by blast
qed

lemma loop_quarter:
  assumes "\<bar>f - 1 / 4\<bar> \<le> 1 / 64 + 1 / 18014398509481984"
  shows "display_loop DISPLAY_FRACTIONS (Fin f) = Some [188]"
proof -
  from assms have h: "\<bar>f - 1 / 4\<bar> \<le> 1 / 32" by linarith
  show ?thesis
    unfolding DISPLAY_FRACTIONS_def third_val two_thirds_val
    by (simp only: loop_hit[OF h])
qed

lemma loop_third:
  assumes "\<bar>f - 6004799503160661 / 18014398509481984\<bar> \<le> 1 / 64 + 1 / 18014398509481984"
  shows "display_loop DISPLAY_FRACTIONS (Fin f) = Some [8531]"
proof -
  from assms have m: "1 / 16 \<le> \<bar>f - 1 / 4\<bar>" "\<bar>f - 1 / 4\<bar> < 1"
    and h: "\<bar>f - 6004799503160661 / 18014398509481984\<bar> \<le> 1 / 32"
    by linarith+
  show ?thesis
    unfolding DISPLAY_FRACTIONS_def third_val two_thirds_val
    by (simp only: loop_miss[OF m] loop_hit[OF h])
qed

lemma loop_half:
  assumes "\<bar>f - 1 / 2\<bar> \<le> 1 / 64 + 1 / 18014398509481984"
  shows "display_loop DISPLAY_FRACTIONS (Fin f) = Some [189]"
proof -
  from assms have m1: "1 / 16 \<le> \<bar>f - 1 / 4\<bar>" "\<bar>f - 1 / 4\<bar> < 1"
    and m2: "1 / 16 \<le> \<bar>f - 6004799503160661 / 18014398509481984\<bar>"
      "\<bar>f - 6004799503160661 / 18014398509481984\<bar> < 1"
    and h: "\<bar>f - 1 / 2\<bar> \<le> 1 / 32"
    by linarith+
  show ?thesis
    unfolding DISPLAY_FRACTIONS_def third_val two_thirds_val
    by (simp only: loop_miss[OF m1] loop_miss[OF m2] loop_hit[OF h])
qed

lemma loop_two_thirds:
  assumes "\<bar>f - 6004799503160661 / 9007199254740992\<bar> \<le> 1 / 64 + 1 / 18014398509481984"
  shows "display_loop DISPLAY_FRACTIONS (Fin f) = Some [8532]"
proof -
  from assms have m1: "1 / 16 \<le> \<bar>f - 1 / 4\<bar>" "\<bar>f - 1 / 4\<bar> < 1"
    and m2: "1 / 16 \<le> \<bar>f - 6004799503160661 / 18014398509481984\<bar>"
      "\<bar>f - 6004799503160661 / 18014398509481984\<bar> < 1"
    and m3: "1 / 16 \<le> \<bar>f - 1 / 2\<bar>" "\<bar>f - 1 / 2\<bar> < 1"
    and h: "\<bar>f - 6004799503160661 / 9007199254740992\<bar> \<le> 1 / 32"
    by linarith+
  show ?thesis
    unfolding DISPLAY_FRACTIONS_def third_val two_thirds_val
    by (simp only: loop_miss[OF m1] loop_miss[OF m2] loop_miss[OF m3] loop_hit[OF h])
qed

lemma loop_three_quarters:
  assumes "\<bar>f - 3 / 4\<bar> \<le> 1 / 64 + 1 / 18014398509481984"
  shows "display_loop DISPLAY_FRACTIONS (Fin f) = Some [190]"
proof -
  from assms have m1: "1 / 16 \<le> \<bar>f - 1 / 4\<bar>" "\<bar>f - 1 / 4\<bar> < 1"
    and m2: "1 / 16 \<le> \<bar>f - 6004799503160661 / 18014398509481984\<bar>"
      "\<bar>f - 6004799503160661 / 18014398509481984\<bar> < 1"
    and m3: "1 / 16 \<le> \<bar>f - 1 / 2\<bar>" "\<bar>f - 1 / 2\<bar> < 1"
    and m4: "1 / 16 \<le> \<bar>f - 6004799503160661 / 9007199254740992\<bar>"
      "\<bar>f - 6004799503160661 / 9007199254740992\<bar> < 1"
    and h: "\<bar>f - 3 / 4\<bar> \<le> 1 / 32"
    by linarith+
  show ?thesis
    unfolding DISPLAY_FRACTIONS_def third_val two_thirds_val
    by (simp only: loop_miss[OF m1] loop_miss[OF m2] loop_miss[OF m3] loop_miss[OF m4]
        loop_hit[OF h])
qed

lemma loop_one_eighth:
  assumes "\<bar>f - 1 / 8\<bar> \<le> 1 / 64 + 1 / 18014398509481984"
  shows "display_loop DISPLAY_FRACTIONS (Fin f) = Some [8539]"
proof -
  from assms have m1: "1 / 16 \<le> \<bar>f - 1 / 4\<bar>" "\<bar>f - 1 / 4\<bar> < 1"
    and m2: "1 / 16 \<le> \<bar>f - 6004799503160661 / 18014398509481984\<bar>"
      "\<bar>f - 6004799503160661 / 18014398509481984\<bar> < 1"
    and m3: "1 / 16 \<le> \<bar>f - 1 / 2\<bar>" "\<bar>f - 1 / 2\<bar> < 1"
    and m4: "1 / 16 \<le> \<bar>f - 6004799503160661 / 9007199254740992\<bar>"
      "\<bar>f - 6004799503160661 / 9007199254740992\<bar> < 1"
    and m5: "1 / 16 \<le> \<bar>f - 3 / 4\<bar>" "\<bar>f - 3 / 4\<bar> < 1"
    and h: "\<bar>f - 1 / 8\<bar> \<le> 1 / 32"
    by linarith+
  show ?thesis
    unfolding DISPLAY_FRACTIONS_def third_val two_thirds_val
    by (simp only: loop_miss[OF m1] loop_miss[OF m2] loop_miss[OF m3] loop_miss[OF m4]
        loop_miss[OF m5] loop_hit[OF h])
qed

lemma loop_seven_eighths:
  assumes "\<bar>f - 7 / 8\<bar> \<le> 1 / 64 + 1 / 18014398509481984"
  shows "display_loop DISPLAY_FRACTIONS (Fin f) = Some [8542]"
proof -
  from assms have m1: "1 / 16 \<le> \<bar>f - 1 / 4\<bar>" "\<bar>f - 1 / 4\<bar> < 1"
    and m2: "1 / 16 \<le> \<bar>f - 6004799503160661 / 18014398509481984\<bar>"
      "\<bar>f - 6004799503160661 / 18014398509481984\<bar> < 1"
    and m3: "1 / 16 \<le> \<bar>f - 1 / 2\<bar>" "\<bar>f - 1 / 2\<bar> < 1"
    and m4: "1 / 16 \<le> \<bar>f - 6004799503160661 / 9007199254740992\<bar>"
      "\<bar>f - 6004799503160661 / 9007199254740992\<bar> < 1"
    and m5: "1 / 16 \<le> \<bar>f - 3 / 4\<bar>" "\<bar>f - 3 / 4\<bar> < 1"
    and m6: "1 / 16 \<le> \<bar>f - 1 / 8\<bar>" "\<bar>f - 1 / 8\<bar> < 1"
    and m7: "1 / 16 \<le> \<bar>f - 3 / 8\<bar>" "\<bar>f - 3 / 8\<bar> < 1"
    and m8: "1 / 16 \<le> \<bar>f - 5 / 8\<bar>" "\<bar>f - 5 / 8\<bar> < 1"
    and h: "\<bar>f - 7 / 8\<bar> \<le> 1 / 32"
    by linarith+
  show ?thesis
    unfolding DISPLAY_FRACTIONS_def third_val two_thirds_val
    by (simp only: loop_miss[OF m1] loop_miss[OF m2] loop_miss[OF m3] loop_miss[OF m4]
        loop_miss[OF m5] loop_miss[OF m6] loop_miss[OF m7] loop_miss[OF m8] loop_hit[OF h])
qed

lemma format_amount_fraction:
  assumes "n < 2 ^ 48" "1 / 8 \<le> v" "v \<le> 7 / 8"
    and loop: "\<And>f. \<bar>f - v\<bar> \<le> 1 / 64 + 1 / 18014398509481984
                 \<Longrightarrow> display_loop DISPLAY_FRACTIONS (Fin f) = Some g"
  shows "bind_err (float_of_int (int n)) (\<lambda>x. format_amount (Some (fadd x (Fin v))))
         = Inr (if n = 0 then g else str_int (int n) @ [32] @ g)"
proof -
  from frac_close[OF assms(1-3)] obtain r f where
    a: "fadd (Fin (rat_of_nat n)) (Fin v) = Fin r" and t: "trunc r = int n"
    and ne: "r \<noteq> rat_of_int (int n)"
    and s: "fsub (Fin r) (Fin (rat_of_int (int n))) = Fin f"
    and c: "\<bar>f - v\<bar> \<le> 1 / 64 + 1 / 18014398509481984"
    by blast
  from assms(1) have "int n < 2 ^ 48" by (metis of_nat_less_numeral_power_cancel_iff)
  then have "\<bar>int n\<bar> < 2 ^ 53" by simp
  then have fl: "float_of_int (int n) = Inr (Fin (rat_of_int (int n)))"
    by (rule float_of_small_int)
  have fa: "format_amount (Some (Fin r)) = Inr (if n = 0 then g else str_int (int n) @ [32] @ g)"
    unfolding format_amount_def
    by (simp only: option.case py_int.simps bind_err_simps t feq_int.simps ne if_False fl
        Let_def s loop[OF c] of_nat_eq_0_iff if_not_P not_not)
       simp
  show ?thesis
    unfolding fl bind_err_simps using a fa by simp
qed

text \<open>
  For each display fraction \<open>(v, g)\<close> of the table other than three eighths and five
  eighths, and for every integer \<open>0 \<le> n < 2 ^ 48\<close>, \<open>format_amount(n + v)\<close> is the glyph \<open>g\<close>
  itself when \<open>n = 0\<close> and \<open>n\<close>, a space and \<open>g\<close> otherwise. (From \<open>2 ^ 53\<close> on the float
  \<open>n + v\<close> is an integer and no glyph is rendered.)
\<close>

lemma format_amount_round_trip_seven:
  assumes "n < 2 ^ 48" "(v, g) \<in> set DISPLAY_FRACTIONS" "g \<noteq> [8540]" "g \<noteq> [8541]"
  shows "bind_err (float_of_int (int n)) (\<lambda>x. format_amount (Some (fadd x v)))
         = Inr (if n = 0 then g else str_int (int n) @ [32] @ g)"
proof -
  from assms(2-4) consider
      "v = Fin (1 / 4)" "g = [188]"
    | "v = Fin (6004799503160661 / 18014398509481984)" "g = [8531]"
    | "v = Fin (1 / 2)" "g = [189]"
    | "v = Fin (6004799503160661 / 9007199254740992)" "g = [8532]"
    | "v = Fin (3 / 4)" "g = [190]"
    | "v = Fin (1 / 8)" "g = [8539]"
    | "v = Fin (7 / 8)" "g = [8542]"
    unfolding DISPLAY_FRACTIONS_def third_val two_thirds_val by auto
  then show ?thesis
  proof cases
    case 1
    show ?thesis unfolding 1
      by (rule format_amount_fraction[OF assms(1)]) (simp_all add: loop_quarter)
  next
    case 2
    show ?thesis unfolding 2
      by (rule format_amount_fraction[OF assms(1)]) (simp_all add: loop_third)
  next
    case 3
    show ?thesis unfolding 3
      by (rule format_amount_fraction[OF assms(1)]) (simp_all add: loop_half)
  next
    case 4
    show ?thesis unfolding 4
      by (rule format_amount_fraction[OF assms(1)]) (simp_all add: loop_two_thirds)
  next
    case 5
    show ?thesis unfolding 5
      by (rule format_amount_fraction[OF assms(1)]) (simp_all add: loop_three_quarters)
  next
    case 6
    show ?thesis unfolding 6
      by (rule format_amount_fraction[OF assms(1)]) (simp_all add: loop_one_eighth)
  next
    case 7
    show ?thesis unfolding 7
      by (rule format_amount_fraction[OF assms(1)]) (simp_all add: loop_seven_eighths)
  qed
qed

end
